theory Spec2Isabelle
  imports Main
begin

unbundle bit_operations_syntax

section \<open>Errors, strings and protocol enums\<close>

text \<open>
  A Go \<open>error\<close> is modelled by its message; \<open>nil\<close> is \<open>None\<close>. The worker inspects the
  message (\<open>strings.Contains(err.Error(), "constraint")\<close>), so the wrapping done by
  \<open>errors.Wrap\<close> is kept: the new message, a colon, the cause.
\<close>

type_synonym error = string

definition errors_Wrap :: "error \<Rightarrow> string \<Rightarrow> error" where
  "errors_Wrap err msg = msg @ '': '' @ err"

fun hasPrefix :: "string \<Rightarrow> string \<Rightarrow> bool" where
  "hasPrefix s [] = True"
| "hasPrefix [] (c # cs) = False"
| "hasPrefix (d # ds) (c # cs) = (d = c \<and> hasPrefix ds cs)"

text \<open>\<open>strings.Contains\<close>.\<close>

fun Contains :: "string \<Rightarrow> string \<Rightarrow> bool" where
  "Contains [] sub = (sub = [])"
| "Contains (c # cs) sub = (hasPrefix (c # cs) sub \<or> Contains cs sub)"

definition digit :: "nat \<Rightarrow> char" where
  "digit d = (''0123456789'' ! d)"

fun digits :: "nat \<Rightarrow> string" where
  "digits n = (if n < 10 then [digit n] else digits (n div 10) @ [digit (n mod 10)])"

text \<open>\<open>big.Int.String\<close>: the decimal text of an unbounded integer.\<close>

definition String :: "int \<Rightarrow> string" where
  "String i = (if i < 0 then ''-'' @ digits (nat (- i)) else digits (nat i))"

text \<open>
  An address is held as its \<open>Hex()\<close> text; \<open>common.Address{}.Hex()\<close> is the zero address.
\<close>

type_synonym address = string

definition zeroAddress :: address where
  "zeroAddress = ''0x0000000000000000000000000000000000000000''"

definition addrIsZero :: "address \<Rightarrow> bool" where
  "addrIsZero a = (a = zeroAddress)"

text \<open>
  The enums of package \<open>pb\<close> (the protobuf declarations are not among the sources). Each
  has the zero value protobuf gives every enum; the code tests for it with \<open>> 0\<close>.
\<close>

datatype OrderType = OrderType_ANY | OrderType_BID | OrderType_ASK

datatype OrderStatus = OrderStatus_ORDER_UNKNOWN | OrderStatus_ORDER_INACTIVE | OrderStatus_ORDER_ACTIVE

datatype DealStatus = DealStatus_DEAL_UNKNOWN | DealStatus_DEAL_ACCEPTED | DealStatus_DEAL_CLOSED

datatype ChangeRequestStatus =
  ChangeRequestStatus_REQUEST_UNKNOWN
| ChangeRequestStatus_REQUEST_CREATED
| ChangeRequestStatus_REQUEST_CANCELED
| ChangeRequestStatus_REQUEST_REJECTED
| ChangeRequestStatus_REQUEST_ACCEPTED

datatype CmpOp = CmpOp_EQ | CmpOp_GTE | CmpOp_LTE

datatype SortingOrder = SortingOrder_Asc | SortingOrder_Desc

fun OrderType_code :: "OrderType \<Rightarrow> nat" where
  "OrderType_code OrderType_ANY = 0"
| "OrderType_code OrderType_BID = 1"
| "OrderType_code OrderType_ASK = 2"

fun OrderStatus_code :: "OrderStatus \<Rightarrow> nat" where
  "OrderStatus_code OrderStatus_ORDER_UNKNOWN = 0"
| "OrderStatus_code OrderStatus_ORDER_INACTIVE = 1"
| "OrderStatus_code OrderStatus_ORDER_ACTIVE = 2"

fun DealStatus_code :: "DealStatus \<Rightarrow> nat" where
  "DealStatus_code DealStatus_DEAL_UNKNOWN = 0"
| "DealStatus_code DealStatus_DEAL_ACCEPTED = 1"
| "DealStatus_code DealStatus_DEAL_CLOSED = 2"

fun ChangeRequestStatus_code :: "ChangeRequestStatus \<Rightarrow> nat" where
  "ChangeRequestStatus_code ChangeRequestStatus_REQUEST_UNKNOWN = 0"
| "ChangeRequestStatus_code ChangeRequestStatus_REQUEST_CREATED = 1"
| "ChangeRequestStatus_code ChangeRequestStatus_REQUEST_CANCELED = 2"
| "ChangeRequestStatus_code ChangeRequestStatus_REQUEST_REJECTED = 3"
| "ChangeRequestStatus_code ChangeRequestStatus_REQUEST_ACCEPTED = 4"

section \<open>Domain entities\<close>

text \<open>
  The messages of package \<open>pb\<close> as the code reads and writes them. \<open>big.Int\<close> is \<open>int\<close>,
  \<open>uint64\<close> is \<open>nat\<close> (no arithmetic is done on these fields but the comparisons written
  out below), a timestamp is its \<open>Seconds\<close>. A pointer the code tests against \<open>nil\<close> is
  an \<open>option\<close>. The certificates blob (a JSON array) is the list it encodes.
\<close>

record Certificate =
  c_OwnerID :: address
  c_Attribute :: nat
  c_IdentityLevel :: nat
  c_Value :: string
  c_ValidatorID :: address

record Order =
  o_Id :: int
  o_DealID :: "int option"
  o_OrderType :: OrderType
  o_OrderStatus :: OrderStatus
  o_AuthorID :: address
  o_CounterpartyID :: address
  o_Duration :: nat
  o_Price :: int
  o_Netflags :: nat
  o_IdentityLevel :: nat
  o_Blacklist :: string
  o_Tag :: string
  o_FrozenSum :: int
  o_Benchmarks :: "nat list"

record DWHOrder =
  dwo_Order :: Order
  dwo_CreatedTS :: nat
  dwo_CreatorIdentityLevel :: nat
  dwo_CreatorName :: string
  dwo_CreatorCountry :: string
  dwo_CreatorCertificates :: "Certificate list"

record Deal =
  d_Id :: int
  d_SupplierID :: address
  d_ConsumerID :: address
  d_MasterID :: address
  d_AskID :: int
  d_BidID :: int
  d_Duration :: nat
  d_Price :: int
  d_StartTime :: int
  d_EndTime :: int
  d_Status :: DealStatus
  d_BlockedBalance :: int
  d_TotalPayout :: int
  d_LastBillTS :: int
  d_Benchmarks :: "nat list"

record DWHDeal =
  dwd_Deal :: Deal
  dwd_Netflags :: nat
  dwd_AskIdentityLevel :: nat
  dwd_BidIdentityLevel :: nat
  dwd_SupplierCertificates :: "Certificate list"
  dwd_ConsumerCertificates :: "Certificate list"
  dwd_ActiveChangeRequest :: bool

record DealCondition =
  dc_Id :: nat
  dc_SupplierID :: address
  dc_ConsumerID :: address
  dc_MasterID :: address
  dc_Duration :: nat
  dc_Price :: int
  dc_StartTime :: int
  dc_EndTime :: int
  dc_TotalPayout :: int
  dc_DealID :: int

record DealChangeRequest =
  cr_Id :: int
  cr_CreatedTS :: nat
  cr_RequestType :: OrderType
  cr_Duration :: nat
  cr_Price :: int
  cr_Status :: ChangeRequestStatus
  cr_DealID :: int

record DealPayment =
  pay_BillTS :: nat
  pay_PaidAmount :: int
  pay_DealID :: int

record Profile =
  p_UserID :: address
  p_IdentityLevel :: nat
  p_Name :: string
  p_Country :: string
  p_IsCorporation :: bool
  p_IsProfessional :: bool
  p_Certificates :: "Certificate list"
  p_ActiveAsks :: nat
  p_ActiveBids :: nat

record Validator =
  v_Id :: address
  v_Level :: nat

record DWHWorker =
  wk_MasterID :: address
  wk_SlaveID :: address
  wk_Confirmed :: bool

section \<open>The store\<close>

text \<open>
  The projection tables, one list of rows per table, in insertion order. \<open>Tables\<close> is
  what a connection or a transaction sees; the service value \<open>DWH\<close> holds the committed
  tables, whether \<open>w.db\<close> was closed (\<open>Stop\<close> closes it), and \<open>numBenchmarks\<close>; the
  package constant \<open>MaxBenchmark\<close> is declared outside the sources and is carried along
  as a parameter.
\<close>

record Tables =
  Deals :: "DWHDeal list"
  Orders :: "DWHOrder list"
  DealConditions :: "DealCondition list"
  DealChangeRequests :: "DealChangeRequest list"
  DealPayments :: "DealPayment list"
  Profiles :: "Profile list"
  Certificates :: "Certificate list"
  Validators :: "Validator list"
  Workers :: "DWHWorker list"
  Blacklists :: "(address \<times> address) list"
  LastKnownBlock :: "int list"
  nextDealConditionId :: nat

record DWH =
  db :: Tables
  closed :: bool
  numBenchmarks :: nat
  MaxBenchmark :: nat

definition emptyTables :: Tables where
  "emptyTables = \<lparr>Deals = [], Orders = [], DealConditions = [], DealChangeRequests = [],
     DealPayments = [], Profiles = [], Certificates = [], Validators = [], Workers = [],
     Blacklists = [], LastKnownBlock = [], nextDealConditionId = 1\<rparr>"

definition errDBClosed :: error where
  "errDBClosed = ''sql: database is closed''"

text \<open>\<open>w.db.Begin()\<close>: a transaction starts from the committed tables.\<close>

definition Begin :: "DWH \<Rightarrow> error + Tables" where
  "Begin w = (if closed w then Inl errDBClosed else Inr (db w))"

text \<open>\<open>tx.Commit()\<close>: the transaction's tables become the committed ones.\<close>

definition Commit :: "DWH \<Rightarrow> Tables \<Rightarrow> error + DWH" where
  "Commit w tx = Inr (w\<lparr>db := tx\<rparr>)"

text \<open>
  \<open>w.db.Exec\<close> outside a transaction: the statement runs on the committed tables and
  its effect is committed at once.
\<close>

definition dbExec :: "DWH \<Rightarrow> (Tables \<Rightarrow> error + Tables) \<Rightarrow> error + DWH" where
  "dbExec w cmd =
     (if closed w then Inl errDBClosed
      else case cmd (db w) of Inl e \<Rightarrow> Inl e | Inr t \<Rightarrow> Inr (w\<lparr>db := t\<rparr>))"

section \<open>Filters and the query compiler\<close>

text \<open>
  A column is named by a string; \<open>getBenchmarkColumn\<close> names the column of a benchmark by
  its index.
\<close>

datatype column = Column string | BenchmarkColumn nat

text \<open>
  Modelled from the spec: \<open>getBenchmarkColumn\<close> is not among the sources; the spec calls
  its result the dynamically-named benchmark column \<open>BenchN\<close>.
\<close>

definition getBenchmarkColumn :: "nat \<Rightarrow> column" where
  "getBenchmarkColumn benchID = BenchmarkColumn benchID"

text \<open>
  The values bound to a statement: an unsigned or enum number, a plain text, the decimal
  text of a big integer (\<open>String()\<close>), its zero-padded text (\<open>PaddedString()\<close>), a boolean,
  an opaque blob, or a \<open>pb.EthAddress\<close> object handed over as it is.
\<close>

datatype val =
  VUint nat
| VInt int
| VText string
| VDec int
| VPadded int
| VBool bool
| VBlob
| VAddrObj address

datatype cmpOperator = eq_op | gte | lte | netflags CmpOp

record filter =
  Field :: column
  CmpOperator :: cmpOperator
  Value :: val
  BoolOperator :: string
  OpenBracket :: bool
  CloseBracket :: bool

text \<open>
  Modelled from the spec: the constructors \<open>newFilter\<close> and \<open>newNetflagsFilter\<close> are not
  among the sources. A filter carries a column, an operator, a value, the connective to
  the next predicate and two bracket flags (both unset by the constructor; the code sets
  them afterwards).
\<close>

definition newFilter :: "column \<Rightarrow> cmpOperator \<Rightarrow> val \<Rightarrow> string \<Rightarrow> filter" where
  "newFilter field operator v boolOp =
     \<lparr>Field = field, CmpOperator = operator, Value = v, BoolOperator = boolOp,
      OpenBracket = False, CloseBracket = False\<rparr>"

definition newNetflagsFilter :: "CmpOp \<Rightarrow> nat \<Rightarrow> filter" where
  "newNetflagsFilter operator v =
     \<lparr>Field = Column ''Netflags'', CmpOperator = netflags operator, Value = VUint v,
      BoolOperator = ''AND'', OpenBracket = False, CloseBracket = False\<rparr>"

record SortingOption =
  so_Field :: column
  so_Order :: SortingOrder

record queryOpts =
  table :: string
  filters :: "filter list"
  sortings :: "SortingOption list"
  offset :: nat
  limit :: nat
  withCount :: bool

text \<open>
  A table as the compiler sees it: which columns it has and the value a row holds in
  each.
\<close>

record 'r schema =
  hasColumn :: "column \<Rightarrow> bool"
  colValue :: "'r \<Rightarrow> column \<Rightarrow> val"

fun lexLe :: "string \<Rightarrow> string \<Rightarrow> bool" where
  "lexLe [] t = True"
| "lexLe (c # cs) [] = False"
| "lexLe (c # cs) (d # ds) = (if c = d then lexLe cs ds else (of_char c :: nat) < of_char d)"

fun valRank :: "val \<Rightarrow> nat" where
  "valRank (VUint n) = 0"
| "valRank (VInt i) = 0"
| "valRank (VBool b) = 0"
| "valRank (VText s) = 1"
| "valRank (VDec i) = 1"
| "valRank (VPadded i) = 1"
| "valRank (VAddrObj a) = 1"
| "valRank VBlob = 2"

text \<open>
  Modelled from the spec: the order SQL compares two values in. Numbers compare
  numerically, texts lexicographically; a padded big integer compares as its number (the
  spec: big integers are persisted as fixed-width zero-padded decimal strings so
  lexicographic order equals numeric order).
\<close>

fun valLe :: "val \<Rightarrow> val \<Rightarrow> bool" where
  "valLe (VUint a) (VUint b) = (a \<le> b)"
| "valLe (VInt a) (VInt b) = (a \<le> b)"
| "valLe (VUint a) (VInt b) = (int a \<le> b)"
| "valLe (VInt a) (VUint b) = (a \<le> int b)"
| "valLe (VPadded a) (VPadded b) = (a \<le> b)"
| "valLe (VText a) (VText b) = lexLe a b"
| "valLe (VDec a) (VDec b) = lexLe (String a) (String b)"
| "valLe (VBool a) (VBool b) = (if a then b else True)"
| "valLe x y = (valRank x \<le> valRank y)"

text \<open>
  Modelled from the spec: the netflags predicate compares bitwise containment,
  \<open>A GTE B\<close> iff \<open>A & B = B\<close>, with \<open>A\<close> the row's column and \<open>B\<close> the bound value.
\<close>

fun netflagsCmp :: "CmpOp \<Rightarrow> nat \<Rightarrow> nat \<Rightarrow> bool" where
  "netflagsCmp CmpOp_GTE a b = (a AND b = b)"
| "netflagsCmp CmpOp_LTE a b = (a AND b = a)"
| "netflagsCmp CmpOp_EQ a b = (a = b)"

fun evalCmp :: "cmpOperator \<Rightarrow> val \<Rightarrow> val \<Rightarrow> bool" where
  "evalCmp eq_op x v = (x = v)"
| "evalCmp gte x v = valLe v x"
| "evalCmp lte x v = valLe x v"
| "evalCmp (netflags operator) (VUint a) (VUint b) = netflagsCmp operator a b"
| "evalCmp (netflags operator) x v = False"

definition evalFilter :: "'r schema \<Rightarrow> 'r \<Rightarrow> filter \<Rightarrow> bool" where
  "evalFilter sch row f = evalCmp (CmpOperator f) (colValue sch row (Field f)) (Value f)"

text \<open>
  Modelled from the spec: predicates are emitted in list order, each joined to the next
  by its connective, an opening bracket before and a closing bracket after a predicate
  whose flag is set. The value of the emitted expression is computed in one pass: per
  open bracket a frame of the disjunction so far and the conjunction so far
  (\<open>AND\<close> binds tighter than \<open>OR\<close>), and the connective of the previous predicate, applied
  when the next one arrives (so the last predicate's connective is not emitted).
\<close>

type_synonym evalState = "(bool \<times> bool) list \<times> bool \<times> bool \<times> string"

fun evalStep :: "(filter \<Rightarrow> bool) \<Rightarrow> evalState \<Rightarrow> filter \<Rightarrow> evalState" where
  "evalStep p (stk, orAcc, andAcc, pending) f =
     (let (o1, a1) = (if pending = ''OR'' then (orAcc \<or> andAcc, True) else (orAcc, andAcc));
          (stk2, o2, a2) = (if OpenBracket f then ((o1, a1) # stk, False, True) else (stk, o1, a1));
          a3 = (a2 \<and> p f)
      in if CloseBracket f
         then (case stk2 of
                 [] \<Rightarrow> ([], o2, a3, BoolOperator f)
               | (po, pa) # rest \<Rightarrow> (rest, po, pa \<and> (o2 \<or> a3), BoolOperator f))
         else (stk2, o2, a3, BoolOperator f))"

definition evalFilters :: "(filter \<Rightarrow> bool) \<Rightarrow> filter list \<Rightarrow> bool" where
  "evalFilters p fs =
     (case foldl (evalStep p) ([], False, True, ''AND'') fs of (stk, orAcc, andAcc, pending) \<Rightarrow> orAcc \<or> andAcc)"

text \<open>The brackets of a filter list match (else the statement does not parse).\<close>

fun balanced :: "nat \<Rightarrow> filter list \<Rightarrow> bool" where
  "balanced depth [] = (depth = 0)"
| "balanced depth (f # fs) =
     (let d1 = (if OpenBracket f then Suc depth else depth)
      in if CloseBracket f then (0 < d1 \<and> balanced (d1 - 1) fs) else balanced d1 fs)"

fun insertRow :: "('r \<Rightarrow> 'r \<Rightarrow> bool) \<Rightarrow> 'r \<Rightarrow> 'r list \<Rightarrow> 'r list" where
  "insertRow le x [] = [x]"
| "insertRow le x (y # ys) = (if le x y then x # y # ys else y # insertRow le x ys)"

definition sortRows :: "('r \<Rightarrow> 'r \<Rightarrow> bool) \<Rightarrow> 'r list \<Rightarrow> 'r list" where
  "sortRows le xs = foldr (insertRow le) xs []"

text \<open>Rows compare by the sort keys in order, each ascending or descending.\<close>

fun rowLe :: "'r schema \<Rightarrow> SortingOption list \<Rightarrow> 'r \<Rightarrow> 'r \<Rightarrow> bool" where
  "rowLe sch [] a b = True"
| "rowLe sch (s # ss) a b =
     (let x = colValue sch a (so_Field s); y = colValue sch b (so_Field s)
      in if x = y then rowLe sch ss a b
         else (case so_Order s of SortingOrder_Asc \<Rightarrow> valLe x y | SortingOrder_Desc \<Rightarrow> valLe y x))"

text \<open>
  Modelled from the spec: \<open>runQuery\<close> (the \<open>QueryRunner\<close> the service is built with) is not
  among the sources. It compiles table, filters, sortings, offset and limit into one
  statement and runs it: a filter or sort key on a column the table does not have, or
  unmatched brackets, fail the statement; else the rows that satisfy the filter
  expression, sorted, from \<open>offset\<close> on, at most \<open>limit\<close> of them (\<open>limit = 0\<close> means no
  limit); the count of all rows that satisfy the filters when \<open>withCount\<close> is set.
\<close>

definition runQuery :: "'r schema \<Rightarrow> 'r list \<Rightarrow> queryOpts \<Rightarrow> error + ('r list \<times> nat)" where
  "runQuery sch rows opts =
     (if \<not> list_all (\<lambda>f. hasColumn sch (Field f)) (filters opts) then Inl ''no such column''
      else if \<not> list_all (\<lambda>s. hasColumn sch (so_Field s)) (sortings opts) then Inl ''no such column''
      else if \<not> balanced 0 (filters opts) then Inl ''syntax error''
      else
        let matching = filter (\<lambda>row. evalFilters (evalFilter sch row) (filters opts)) rows;
            sorted = (if sortings opts = [] then matching
                      else sortRows (rowLe sch (sortings opts)) matching);
            page = drop (offset opts) sorted;
            page' = (if limit opts = 0 then page else take (limit opts) page)
        in Inr (page', if withCount opts then length matching else 0))"

text \<open>
  Modelled from the spec: \<open>filterSortings\<close> is not among the sources; sortings are
  whitelisted per table via a per-entity column set, unknown columns are dropped
  silently.
\<close>

definition filterSortings :: "SortingOption list \<Rightarrow> (column \<Rightarrow> bool) \<Rightarrow> SortingOption list" where
  "filterSortings requested columns = filter (\<lambda>s. columns (so_Field s)) requested"

section \<open>Table schemas\<close>

text \<open>
  Modelled from the spec: the table declarations are not among the sources. The columns
  are those the code binds on insert and scans on decode, under the names its filters
  use; every Deal and Order row has exactly \<open>numBenchmarks\<close> benchmark columns.
\<close>

definition OrderColumnsSet :: "nat \<Rightarrow> column \<Rightarrow> bool" where
  "OrderColumnsSet n col =
     (case col of
        Column name \<Rightarrow> name \<in> set [''Id'', ''CreatedTS'', ''DealID'', ''Type'', ''Status'', ''AuthorID'',
          ''CounterpartyID'', ''Duration'', ''Price'', ''Netflags'', ''IdentityLevel'', ''Blacklist'',
          ''Tag'', ''FrozenSum'', ''CreatorIdentityLevel'', ''CreatorName'', ''CreatorCountry'',
          ''CreatorCertificates'']
      | BenchmarkColumn i \<Rightarrow> i < n)"

fun orderColumn :: "DWHOrder \<Rightarrow> column \<Rightarrow> val" where
  "orderColumn r (BenchmarkColumn i) =
     (if i < length (o_Benchmarks (dwo_Order r)) then VUint (o_Benchmarks (dwo_Order r) ! i) else VBlob)"
| "orderColumn r (Column name) =
     (if name = ''Id'' then VDec (o_Id (dwo_Order r))
      else if name = ''CreatedTS'' then VUint (dwo_CreatedTS r)
      else if name = ''DealID'' then VDec (case o_DealID (dwo_Order r) of None \<Rightarrow> 0 | Some d \<Rightarrow> d)
      else if name = ''Type'' then VUint (OrderType_code (o_OrderType (dwo_Order r)))
      else if name = ''Status'' then VUint (OrderStatus_code (o_OrderStatus (dwo_Order r)))
      else if name = ''AuthorID'' then VText (o_AuthorID (dwo_Order r))
      else if name = ''CounterpartyID'' then VText (o_CounterpartyID (dwo_Order r))
      else if name = ''Duration'' then VUint (o_Duration (dwo_Order r))
      else if name = ''Price'' then VPadded (o_Price (dwo_Order r))
      else if name = ''Netflags'' then VUint (o_Netflags (dwo_Order r))
      else if name = ''IdentityLevel'' then VUint (o_IdentityLevel (dwo_Order r))
      else if name = ''Blacklist'' then VText (o_Blacklist (dwo_Order r))
      else if name = ''FrozenSum'' then VPadded (o_FrozenSum (dwo_Order r))
      else if name = ''CreatorIdentityLevel'' then VUint (dwo_CreatorIdentityLevel r)
      else if name = ''CreatorName'' then VText (dwo_CreatorName r)
      else if name = ''CreatorCountry'' then VText (dwo_CreatorCountry r)
      else VBlob)"

definition ordersSchema :: "nat \<Rightarrow> DWHOrder schema" where
  "ordersSchema n = \<lparr>hasColumn = OrderColumnsSet n, colValue = orderColumn\<rparr>"

fun dealConditionColumn :: "DealCondition \<Rightarrow> column \<Rightarrow> val" where
  "dealConditionColumn r (BenchmarkColumn i) = VBlob"
| "dealConditionColumn r (Column name) =
     (if name = ''Id'' then VUint (dc_Id r)
      else if name = ''SupplierID'' then VText (dc_SupplierID r)
      else if name = ''ConsumerID'' then VText (dc_ConsumerID r)
      else if name = ''MasterID'' then VText (dc_MasterID r)
      else if name = ''Duration'' then VUint (dc_Duration r)
      else if name = ''Price'' then VPadded (dc_Price r)
      else if name = ''StartTime'' then VInt (dc_StartTime r)
      else if name = ''EndTime'' then VInt (dc_EndTime r)
      else if name = ''TotalPayout'' then VPadded (dc_TotalPayout r)
      else if name = ''DealID'' then VDec (dc_DealID r)
      else VBlob)"

definition dealConditionsSchema :: "DealCondition schema" where
  "dealConditionsSchema =
     \<lparr>hasColumn = (\<lambda>col. case col of
          Column name \<Rightarrow> name \<in> set [''Id'', ''SupplierID'', ''ConsumerID'', ''MasterID'', ''Duration'',
            ''Price'', ''StartTime'', ''EndTime'', ''TotalPayout'', ''DealID'']
        | BenchmarkColumn i \<Rightarrow> False),
      colValue = dealConditionColumn\<rparr>"

fun workerColumn :: "DWHWorker \<Rightarrow> column \<Rightarrow> val" where
  "workerColumn r (BenchmarkColumn i) = VBlob"
| "workerColumn r (Column name) =
     (if name = ''MasterID'' then VText (wk_MasterID r)
      else if name = ''SlaveID'' then VText (wk_SlaveID r)
      else if name = ''Confirmed'' then VBool (wk_Confirmed r)
      else VBlob)"

definition workersSchema :: "DWHWorker schema" where
  "workersSchema =
     \<lparr>hasColumn = (\<lambda>col. case col of
          Column name \<Rightarrow> name \<in> set [''MasterID'', ''SlaveID'', ''Confirmed'']
        | BenchmarkColumn i \<Rightarrow> False),
      colValue = workerColumn\<rparr>"

section \<open>The query service\<close>

definition statusInternal :: "string \<Rightarrow> error" where
  "statusInternal msg = ''rpc error: code = Internal desc = '' @ msg"

definition statusNotFound :: "string \<Rightarrow> error" where
  "statusNotFound msg = ''rpc error: code = NotFound desc = '' @ msg"

text \<open>
  \<open>w.runQuery(w.db, opts)\<close>: the query runner on the service's connection; a closed
  connection fails every statement.
\<close>

definition dbRunQuery :: "DWH \<Rightarrow> 'r schema \<Rightarrow> 'r list \<Rightarrow> queryOpts \<Rightarrow> error + ('r list \<times> nat)" where
  "dbRunQuery w sch rows opts = (if closed w then Inl errDBClosed else runQuery sch rows opts)"

record MaxMinUint64 =
  mm_Max :: nat
  mm_Min :: nat

record MaxMinBig =
  mmb_Max :: "int option"
  mmb_Min :: "int option"

record MaxMinTimestamp =
  mmt_Max :: "int option"
  mmt_Min :: "int option"

record NetflagsFilter =
  nf_Operator :: CmpOp
  nf_Value :: nat

text \<open>
  \<open>addBenchmarksConditions\<close>: the map is ranged over in some order (Go fixes none); the
  argument is the list of its entries in the order of the iteration.
\<close>

fun addBenchmarksConditions :: "(nat \<times> MaxMinUint64) list \<Rightarrow> filter list \<Rightarrow> filter list" where
  "addBenchmarksConditions [] fs = fs"
| "addBenchmarksConditions ((benchID, condition) # rest) fs =
     (let fs1 = (if mm_Max condition > 0
                 then fs @ [newFilter (getBenchmarkColumn benchID) lte (VUint (mm_Max condition)) ''AND'']
                 else fs);
          fs2 = (if mm_Min condition > 0
                 then fs1 @ [newFilter (getBenchmarkColumn benchID) gte (VUint (mm_Max condition)) ''AND'']
                 else fs1)
      in addBenchmarksConditions rest fs2)"

record OrdersRequest =
  or_DealID :: "int option"
  or_Type :: OrderType
  or_AuthorID :: "address option"
  or_CounterpartyID :: "address option"
  or_Duration :: "MaxMinUint64 option"
  or_Price :: "MaxMinBig option"
  or_Netflags :: "NetflagsFilter option"
  or_CreatorIdentityLevel :: nat
  or_CreatedTS :: "MaxMinTimestamp option"
  or_Benchmarks :: "(nat \<times> MaxMinUint64) list option"
  or_Sortings :: "SortingOption list"
  or_Offset :: nat
  or_Limit :: nat
  or_WithCount :: bool

record DWHOrdersReply =
  rep_Orders :: "DWHOrder list"
  rep_Count :: nat

text \<open>
  The filter list \<open>getOrders\<close> builds: each \<open>if c { filters = append(filters, f) }\<close> of the
  source appends \<open>[f]\<close> or nothing, in the source's order; \<open>addBenchmarksConditions\<close> then
  appends to the list built so far.
\<close>

definition getOrders_filters :: "OrdersRequest \<Rightarrow> filter list" where
  "getOrders_filters request =
     (let fs =
        [newFilter (Column ''Status'') eq_op (VUint (OrderStatus_code OrderStatus_ORDER_ACTIVE)) ''AND'']
        @ (case or_DealID request of
             Some d \<Rightarrow> if d \<noteq> 0 then [newFilter (Column ''DealID'') eq_op (VDec d) ''AND''] else []
           | None \<Rightarrow> [])
        @ (if OrderType_code (or_Type request) > 0
           then [newFilter (Column ''Type'') eq_op (VUint (OrderType_code (or_Type request))) ''AND'']
           else [])
        @ (case or_AuthorID request of
             Some a \<Rightarrow> if \<not> addrIsZero a then [newFilter (Column ''AuthorID'') eq_op (VText a) ''AND''] else []
           | None \<Rightarrow> [])
        @ (case or_CounterpartyID request of
             Some a \<Rightarrow> if \<not> addrIsZero a then [newFilter (Column ''CounterpartyID'') eq_op (VText a) ''AND''] else []
           | None \<Rightarrow> [])
        @ (case or_Duration request of
             Some dur \<Rightarrow>
               (if mm_Max dur > 0 then [newFilter (Column ''Duration'') lte (VUint (mm_Max dur)) ''AND''] else [])
               @ [newFilter (Column ''Duration'') gte (VUint (mm_Min dur)) ''AND'']
           | None \<Rightarrow> [])
        @ (case or_Price request of
             Some price \<Rightarrow>
               (case mmb_Max price of
                  Some mx \<Rightarrow> [newFilter (Column ''Price'') lte (VPadded mx) ''AND'']
                | None \<Rightarrow> [])
               @ (case mmb_Min price of
                    Some mn \<Rightarrow> [newFilter (Column ''Price'') gte (VPadded mn) ''AND'']
                  | None \<Rightarrow> [])
           | None \<Rightarrow> [])
        @ (case or_Netflags request of
             Some nf \<Rightarrow> if nf_Value nf > 0 then [newNetflagsFilter (nf_Operator nf) (nf_Value nf)] else []
           | None \<Rightarrow> [])
        @ (if or_CreatorIdentityLevel request > 0
           then [newFilter (Column ''CreatorIdentityLevel'') gte (VUint (or_CreatorIdentityLevel request)) ''AND'']
           else [])
        @ (case or_CreatedTS request of
             Some createdTS \<Rightarrow>
               (case mmt_Max createdTS of
                  Some mx \<Rightarrow> if mx > 0 then [newFilter (Column ''CreatedTS'') lte (VInt mx) ''AND''] else []
                | None \<Rightarrow> [])
               @ (case mmt_Min createdTS of
                    Some mn \<Rightarrow> if mn > 0 then [newFilter (Column ''CreatedTS'') gte (VInt mn) ''AND''] else []
                  | None \<Rightarrow> [])
           | None \<Rightarrow> [])
      in case or_Benchmarks request of
           Some benches \<Rightarrow> addBenchmarksConditions benches fs
         | None \<Rightarrow> fs)"

definition getOrders :: "DWH \<Rightarrow> OrdersRequest \<Rightarrow> error + DWHOrdersReply" where
  "getOrders w request =
     (case dbRunQuery w (ordersSchema (numBenchmarks w)) (Orders (db w))
             \<lparr>table = ''Orders'',
              filters = getOrders_filters request,
              sortings = filterSortings (or_Sortings request) (OrderColumnsSet (numBenchmarks w)),
              offset = or_Offset request,
              limit = or_Limit request,
              withCount = or_WithCount request\<rparr> of
        Inl err \<Rightarrow> Inl (statusInternal ''failed to GetOrders'')
      | Inr (rows, count) \<Rightarrow> Inr \<lparr>rep_Orders = rows, rep_Count = count\<rparr>)"

text \<open>
  \<open>getOrderDetails\<close>: \<open>selectOrderByID\<close> (modelled from the spec: the first row the id
  selects).
\<close>

definition getOrderDetails :: "DWH \<Rightarrow> int \<Rightarrow> error + DWHOrder" where
  "getOrderDetails w request =
     (if closed w then Inl (statusInternal ''failed to GetOrderDetails'')
      else case filter (\<lambda>r. o_Id (dwo_Order r) = request) (Orders (db w)) of
             [] \<Rightarrow> Inl (statusNotFound ''failed to GetOrderDetails'')
           | r # rest \<Rightarrow> Inr r)"

record MatchingOrdersRequest =
  mo_Id :: int
  mo_Offset :: nat
  mo_Limit :: nat
  mo_WithCount :: bool

text \<open>The filter list \<open>getMatchingOrders\<close> builds for the order it looked up, in the same way.\<close>

definition getMatchingOrders_filters :: "DWHOrder \<Rightarrow> filter list" where
  "getMatchingOrders_filters order =
     (let (orderType, priceOp, durationOp, benchOp) =
            (if o_OrderType (dwo_Order order) = OrderType_BID
             then (OrderType_ASK, lte, gte, gte)
             else (OrderType_BID, gte, lte, lte))
      in [newFilter (Column ''Type'') eq_op (VUint (OrderType_code orderType)) ''AND'',
          newFilter (Column ''Status'') eq_op (VUint (OrderStatus_code OrderStatus_ORDER_ACTIVE)) ''AND'',
          newFilter (Column ''Price'') priceOp (VPadded (o_Price (dwo_Order order))) ''AND'']
         @ (if o_Duration (dwo_Order order) > 0
            then [newFilter (Column ''Duration'') durationOp (VUint (o_Duration (dwo_Order order))) ''AND'']
            else [newFilter (Column ''Duration'') eq_op (VUint (o_Duration (dwo_Order order))) ''AND''])
         @ (if \<not> addrIsZero (o_CounterpartyID (dwo_Order order))
            then [newFilter (Column ''AuthorID'') eq_op (VText (o_CounterpartyID (dwo_Order order))) ''AND'']
            else [])
         @ [(newFilter (Column ''CounterpartyID'') eq_op (VText zeroAddress) ''OR'')\<lparr>OpenBracket := True\<rparr>,
            (newFilter (Column ''CounterpartyID'') eq_op (VText (o_AuthorID (dwo_Order order))) ''AND'')
               \<lparr>CloseBracket := True\<rparr>]
         @ (if o_OrderType (dwo_Order order) = OrderType_BID
            then [newNetflagsFilter CmpOp_GTE (o_Netflags (dwo_Order order))]
            else [newNetflagsFilter CmpOp_LTE (o_Netflags (dwo_Order order))])
         @ [newFilter (Column ''IdentityLevel'') gte (VUint (o_IdentityLevel (dwo_Order order))) ''AND'',
            newFilter (Column ''CreatorIdentityLevel'') lte (VUint (dwo_CreatorIdentityLevel order)) ''AND'']
         @ map (\<lambda>(benchID, benchValue). newFilter (getBenchmarkColumn benchID) benchOp (VUint benchValue) ''AND'')
             (enumerate 0 (o_Benchmarks (dwo_Order order))))"

definition getMatchingOrders_sortingOrder :: "DWHOrder \<Rightarrow> SortingOrder" where
  "getMatchingOrders_sortingOrder order =
     (if o_OrderType (dwo_Order order) = OrderType_BID then SortingOrder_Asc else SortingOrder_Desc)"

definition getMatchingOrders :: "DWH \<Rightarrow> MatchingOrdersRequest \<Rightarrow> error + DWHOrdersReply" where
  "getMatchingOrders w request =
     (case getOrderDetails w (mo_Id request) of
        Inl err \<Rightarrow> Inl (statusInternal ''failed to GetMatchingOrders (no matching order)'')
      | Inr order \<Rightarrow>
          (case dbRunQuery w (ordersSchema (numBenchmarks w)) (Orders (db w))
                  \<lparr>table = ''Orders'',
                   filters = getMatchingOrders_filters order,
                   sortings = [\<lparr>so_Field = Column ''Price'', so_Order = getMatchingOrders_sortingOrder order\<rparr>],
                   offset = mo_Offset request,
                   limit = mo_Limit request,
                   withCount = mo_WithCount request\<rparr> of
             Inl err \<Rightarrow> Inl (statusInternal ''failed to GetMatchingOrders'')
           | Inr (rows, count) \<Rightarrow> Inr \<lparr>rep_Orders = rows, rep_Count = count\<rparr>))"

record WorkersRequest =
  wr_MasterID :: "address option"
  wr_Offset :: nat
  wr_Limit :: nat
  wr_WithCount :: bool

record WorkersReply =
  wrep_Workers :: "DWHWorker list"
  wrep_Count :: nat

definition getWorkers_filters :: "WorkersRequest \<Rightarrow> filter list" where
  "getWorkers_filters request =
     (case wr_MasterID request of
        Some m \<Rightarrow> if \<not> addrIsZero m then [newFilter (Column ''Level'') eq_op (VAddrObj m) ''AND''] else []
      | None \<Rightarrow> [])"

definition getWorkers :: "DWH \<Rightarrow> WorkersRequest \<Rightarrow> error + WorkersReply" where
  "getWorkers w request =
     (case dbRunQuery w workersSchema (Workers (db w))
             \<lparr>table = ''Workers'',
              filters = getWorkers_filters request,
              sortings = [],
              offset = wr_Offset request,
              limit = wr_Limit request,
              withCount = wr_WithCount request\<rparr> of
        Inl err \<Rightarrow> Inl (statusInternal ''failed to GetWorkers'')
      | Inr (rows, count) \<Rightarrow> Inr \<lparr>wrep_Workers = rows, wrep_Count = count\<rparr>)"

record DealConditionsRequest =
  dcr_DealID :: int
  dcr_Sortings :: "SortingOption list"
  dcr_Offset :: nat
  dcr_Limit :: nat
  dcr_WithCount :: bool

record DealConditionsReply =
  dcrep_Conditions :: "DealCondition list"
  dcrep_Count :: nat

definition getDealConditions :: "DWH \<Rightarrow> DealConditionsRequest \<Rightarrow> error + DealConditionsReply" where
  "getDealConditions w request =
     (let requestSortings = (if length (dcr_Sortings request) < 1
                             then [\<lparr>so_Field = Column ''Id'', so_Order = SortingOrder_Desc\<rparr>]
                             else dcr_Sortings request)
      in case dbRunQuery w dealConditionsSchema (DealConditions (db w))
                \<lparr>table = ''DealConditions'',
                 filters = [newFilter (Column ''DealID'') eq_op (VDec (dcr_DealID request)) ''AND''],
                 sortings = requestSortings,
                 offset = dcr_Offset request,
                 limit = dcr_Limit request,
                 withCount = dcr_WithCount request\<rparr> of
           Inl err \<Rightarrow> Inl (statusInternal ''failed to GetDealConditions'')
         | Inr (rows, count) \<Rightarrow> Inr \<lparr>dcrep_Conditions = rows, dcrep_Count = count\<rparr>)"

text \<open>
  The lookups by key: \<open>selectDealByID\<close>, \<open>selectProfileByID\<close>,
  \<open>selectDealChangeRequestsByID\<close> (modelled from the spec: the rows the key selects, the
  first of them where the code reads one).
\<close>

definition getDealDetails :: "DWH \<Rightarrow> int \<Rightarrow> error + DWHDeal" where
  "getDealDetails w request =
     (if closed w then Inl (statusInternal ''failed to GetDealDetails'')
      else case filter (\<lambda>r. d_Id (dwd_Deal r) = request) (Deals (db w)) of
             [] \<Rightarrow> Inl (statusNotFound ''failed to GetDealDetails'')
           | r # rest \<Rightarrow> Inr r)"

definition getProfileInfo :: "DWH \<Rightarrow> address \<Rightarrow> error + Profile" where
  "getProfileInfo w request =
     (if closed w then Inl (statusInternal ''failed to GetProfileInfo'')
      else case filter (\<lambda>r. p_UserID r = request) (Profiles (db w)) of
             [] \<Rightarrow> Inl (statusNotFound ''failed to GetProfileInfo'')
           | r # rest \<Rightarrow> Inr r)"

definition getProfileInfoTx :: "Tables \<Rightarrow> address \<Rightarrow> error + Profile" where
  "getProfileInfoTx tx request =
     (case filter (\<lambda>r. p_UserID r = request) (Profiles tx) of
        [] \<Rightarrow> Inl (statusNotFound ''failed to GetProfileInfo'')
      | r # rest \<Rightarrow> Inr r)"

definition getDealChangeRequests :: "DWH \<Rightarrow> int \<Rightarrow> error + DealChangeRequest list" where
  "getDealChangeRequests w request =
     (if closed w then Inl (statusInternal ''failed to GetDealChangeRequests'')
      else Inr (filter (\<lambda>r. cr_DealID r = request) (DealChangeRequests (db w))))"

section \<open>The statements of the store\<close>

text \<open>
  Modelled from the spec: the table of named SQL commands (\<open>w.commands\<close>) is not among
  the sources. Each command is given the effect its name and its bound arguments state,
  on the keys of the spec's data model: Deal, Order, DealChangeRequest and Validator are
  keyed by id, Profile by its unique userID, Worker by (masterID, slaveID), Blacklist by
  (adderID, addeeID), Certificate by (ownerID, attribute, validatorID); a DealCondition
  gets a synthetic auto-id; DealPayments has the columns (eventTS, amount, dealID) and
  is keyed by eventTS. An insert that repeats a key fails with the driver's constraint
  message (the sources import the sqlite3 driver).
\<close>

definition constraintFailed :: "string \<Rightarrow> error" where
  "constraintFailed col = ''UNIQUE constraint failed: '' @ col"

definition insertDeal :: "DWHDeal \<Rightarrow> Tables \<Rightarrow> error + Tables" where
  "insertDeal row t =
     (if list_ex (\<lambda>r. d_Id (dwd_Deal r) = d_Id (dwd_Deal row)) (Deals t)
      then Inl (constraintFailed ''Deals.Id'')
      else Inr (t\<lparr>Deals := Deals t @ [row]\<rparr>))"

definition deleteDeal :: "int \<Rightarrow> Tables \<Rightarrow> error + Tables" where
  "deleteDeal dealID t = Inr (t\<lparr>Deals := filter (\<lambda>r. d_Id (dwd_Deal r) \<noteq> dealID) (Deals t)\<rparr>)"

definition updateDeal ::
  "nat \<Rightarrow> int \<Rightarrow> int \<Rightarrow> int \<Rightarrow> DealStatus \<Rightarrow> int \<Rightarrow> int \<Rightarrow> int \<Rightarrow> int \<Rightarrow> Tables \<Rightarrow> error + Tables" where
  "updateDeal duration price startTime endTime status blockedBalance totalPayout lastBillTS dealID t =
     Inr (t\<lparr>Deals := map (\<lambda>r. if d_Id (dwd_Deal r) = dealID
                                then r\<lparr>dwd_Deal := (dwd_Deal r)\<lparr>d_Duration := duration, d_Price := price,
                                       d_StartTime := startTime, d_EndTime := endTime, d_Status := status,
                                       d_BlockedBalance := blockedBalance, d_TotalPayout := totalPayout,
                                       d_LastBillTS := lastBillTS\<rparr>\<rparr>
                                else r) (Deals t)\<rparr>)"

definition updateDealPayoutCmd :: "int \<Rightarrow> int \<Rightarrow> Tables \<Rightarrow> error + Tables" where
  "updateDealPayoutCmd totalPayout dealID t =
     Inr (t\<lparr>Deals := map (\<lambda>r. if d_Id (dwd_Deal r) = dealID
                                then r\<lparr>dwd_Deal := (dwd_Deal r)\<lparr>d_TotalPayout := totalPayout\<rparr>\<rparr>
                                else r) (Deals t)\<rparr>)"

definition updateDealsSupplier :: "Certificate list \<Rightarrow> address \<Rightarrow> Tables \<Rightarrow> error + Tables" where
  "updateDealsSupplier certs supplierID t =
     Inr (t\<lparr>Deals := map (\<lambda>r. if d_SupplierID (dwd_Deal r) = supplierID
                                then r\<lparr>dwd_SupplierCertificates := certs\<rparr> else r) (Deals t)\<rparr>)"

definition updateDealsConsumer :: "Certificate list \<Rightarrow> address \<Rightarrow> Tables \<Rightarrow> error + Tables" where
  "updateDealsConsumer certs consumerID t =
     Inr (t\<lparr>Deals := map (\<lambda>r. if d_ConsumerID (dwd_Deal r) = consumerID
                                then r\<lparr>dwd_ConsumerCertificates := certs\<rparr> else r) (Deals t)\<rparr>)"

definition insertOrder :: "DWHOrder \<Rightarrow> Tables \<Rightarrow> error + Tables" where
  "insertOrder row t =
     (if list_ex (\<lambda>r. o_Id (dwo_Order r) = o_Id (dwo_Order row)) (Orders t)
      then Inl (constraintFailed ''Orders.Id'')
      else Inr (t\<lparr>Orders := Orders t @ [row]\<rparr>))"

definition deleteOrder :: "int \<Rightarrow> Tables \<Rightarrow> error + Tables" where
  "deleteOrder orderID t = Inr (t\<lparr>Orders := filter (\<lambda>r. o_Id (dwo_Order r) \<noteq> orderID) (Orders t)\<rparr>)"

definition updateOrderStatus :: "OrderStatus \<Rightarrow> int \<Rightarrow> Tables \<Rightarrow> error + Tables" where
  "updateOrderStatus status orderID t =
     Inr (t\<lparr>Orders := map (\<lambda>r. if o_Id (dwo_Order r) = orderID
                                 then r\<lparr>dwo_Order := (dwo_Order r)\<lparr>o_OrderStatus := status\<rparr>\<rparr>
                                 else r) (Orders t)\<rparr>)"

definition updateOrders :: "nat \<Rightarrow> string \<Rightarrow> string \<Rightarrow> Certificate list \<Rightarrow> address \<Rightarrow> Tables \<Rightarrow> error + Tables" where
  "updateOrders identityLevel name country certs authorID t =
     Inr (t\<lparr>Orders := map (\<lambda>r. if o_AuthorID (dwo_Order r) = authorID
                                 then r\<lparr>dwo_CreatorIdentityLevel := identityLevel, dwo_CreatorName := name,
                                        dwo_CreatorCountry := country, dwo_CreatorCertificates := certs\<rparr>
                                 else r) (Orders t)\<rparr>)"

definition insertDealCondition ::
  "address \<Rightarrow> address \<Rightarrow> address \<Rightarrow> nat \<Rightarrow> int \<Rightarrow> int \<Rightarrow> int \<Rightarrow> int \<Rightarrow> int \<Rightarrow> Tables \<Rightarrow> error + Tables" where
  "insertDealCondition supplierID consumerID masterID duration price startTime endTime totalPayout dealID t =
     Inr (t\<lparr>DealConditions := DealConditions t @
              [\<lparr>dc_Id = nextDealConditionId t, dc_SupplierID = supplierID, dc_ConsumerID = consumerID,
                dc_MasterID = masterID, dc_Duration = duration, dc_Price = price, dc_StartTime = startTime,
                dc_EndTime = endTime, dc_TotalPayout = totalPayout, dc_DealID = dealID\<rparr>],
            nextDealConditionId := Suc (nextDealConditionId t)\<rparr>)"

definition updateDealConditionPayout :: "int \<Rightarrow> nat \<Rightarrow> Tables \<Rightarrow> error + Tables" where
  "updateDealConditionPayout totalPayout conditionID t =
     Inr (t\<lparr>DealConditions := map (\<lambda>r. if dc_Id r = conditionID then r\<lparr>dc_TotalPayout := totalPayout\<rparr> else r)
                                   (DealConditions t)\<rparr>)"

definition updateDealConditionEndTimeCmd :: "int \<Rightarrow> nat \<Rightarrow> Tables \<Rightarrow> error + Tables" where
  "updateDealConditionEndTimeCmd endTime conditionID t =
     Inr (t\<lparr>DealConditions := map (\<lambda>r. if dc_Id r = conditionID then r\<lparr>dc_EndTime := endTime\<rparr> else r)
                                   (DealConditions t)\<rparr>)"

definition selectDealChangeRequests ::
  "int \<Rightarrow> OrderType \<Rightarrow> ChangeRequestStatus \<Rightarrow> Tables \<Rightarrow> DealChangeRequest list" where
  "selectDealChangeRequests dealID requestType status t =
     filter (\<lambda>r. cr_DealID r = dealID \<and> cr_RequestType r = requestType \<and> cr_Status r = status)
       (DealChangeRequests t)"

definition insertDealChangeRequest :: "DealChangeRequest \<Rightarrow> Tables \<Rightarrow> error + Tables" where
  "insertDealChangeRequest row t =
     (if list_ex (\<lambda>r. cr_Id r = cr_Id row) (DealChangeRequests t)
      then Inl (constraintFailed ''DealChangeRequests.Id'')
      else Inr (t\<lparr>DealChangeRequests := DealChangeRequests t @ [row]\<rparr>))"

definition deleteDealChangeRequest :: "int \<Rightarrow> Tables \<Rightarrow> error + Tables" where
  "deleteDealChangeRequest requestID t =
     Inr (t\<lparr>DealChangeRequests := filter (\<lambda>r. cr_Id r \<noteq> requestID) (DealChangeRequests t)\<rparr>)"

definition updateDealChangeRequest :: "ChangeRequestStatus \<Rightarrow> int \<Rightarrow> Tables \<Rightarrow> error + Tables" where
  "updateDealChangeRequest status requestID t =
     Inr (t\<lparr>DealChangeRequests := map (\<lambda>r. if cr_Id r = requestID then r\<lparr>cr_Status := status\<rparr> else r)
                                        (DealChangeRequests t)\<rparr>)"

definition insertDealPayment :: "nat \<Rightarrow> int \<Rightarrow> int \<Rightarrow> Tables \<Rightarrow> error + Tables" where
  "insertDealPayment eventTS amount dealID t =
     (if list_ex (\<lambda>r. pay_BillTS r = eventTS) (DealPayments t)
      then Inl (constraintFailed ''DealPayments.BillTS'')
      else Inr (t\<lparr>DealPayments := DealPayments t @
                   [\<lparr>pay_BillTS = eventTS, pay_PaidAmount = amount, pay_DealID = dealID\<rparr>]\<rparr>))"

definition insertProfileUserID :: "address \<Rightarrow> Certificate list \<Rightarrow> nat \<Rightarrow> nat \<Rightarrow> Tables \<Rightarrow> error + Tables" where
  "insertProfileUserID userID certs activeAsks activeBids t =
     (if list_ex (\<lambda>r. p_UserID r = userID) (Profiles t)
      then Inl (constraintFailed ''Profiles.UserID'')
      else Inr (t\<lparr>Profiles := Profiles t @
                   [\<lparr>p_UserID = userID, p_IdentityLevel = 0, p_Name = [], p_Country = [],
                     p_IsCorporation = False, p_IsProfessional = False, p_Certificates = certs,
                     p_ActiveAsks = activeAsks, p_ActiveBids = activeBids\<rparr>]\<rparr>))"

text \<open>
  \<open>updateProfile\<close> is one command with the column's name spliced in
  (\<open>fmt.Sprintf(w.commands["updateProfile"], "ActiveAsks")\<close>); the column and the value
  bound to it are one constructor here.
\<close>

datatype profileColumn =
  ActiveAsks nat
| ActiveBids nat
| ProfileCertificates "Certificate list"
| ProfileIdentityLevel nat
| ProfileName string
| ProfileCountry string

fun setProfileColumn :: "profileColumn \<Rightarrow> Profile \<Rightarrow> Profile" where
  "setProfileColumn (ActiveAsks v) r = r\<lparr>p_ActiveAsks := v\<rparr>"
| "setProfileColumn (ActiveBids v) r = r\<lparr>p_ActiveBids := v\<rparr>"
| "setProfileColumn (ProfileCertificates v) r = r\<lparr>p_Certificates := v\<rparr>"
| "setProfileColumn (ProfileIdentityLevel v) r = r\<lparr>p_IdentityLevel := v\<rparr>"
| "setProfileColumn (ProfileName v) r = r\<lparr>p_Name := v\<rparr>"
| "setProfileColumn (ProfileCountry v) r = r\<lparr>p_Country := v\<rparr>"

definition updateProfileCmd :: "profileColumn \<Rightarrow> address \<Rightarrow> Tables \<Rightarrow> error + Tables" where
  "updateProfileCmd col userID t =
     Inr (t\<lparr>Profiles := map (\<lambda>r. if p_UserID r = userID then setProfileColumn col r else r) (Profiles t)\<rparr>)"

definition insertCertificate :: "Certificate \<Rightarrow> Tables \<Rightarrow> error + Tables" where
  "insertCertificate row t =
     (if list_ex (\<lambda>r. c_OwnerID r = c_OwnerID row \<and> c_Attribute r = c_Attribute row
                       \<and> c_ValidatorID r = c_ValidatorID row) (Certificates t)
      then Inl (constraintFailed ''Certificates.OwnerID, Certificates.Attribute, Certificates.ValidatorID'')
      else Inr (t\<lparr>Certificates := Certificates t @ [row]\<rparr>))"

definition selectCertificates :: "address \<Rightarrow> Tables \<Rightarrow> Certificate list" where
  "selectCertificates ownerID t = filter (\<lambda>r. c_OwnerID r = ownerID) (Certificates t)"

definition insertValidator :: "address \<Rightarrow> nat \<Rightarrow> Tables \<Rightarrow> error + Tables" where
  "insertValidator validatorID level t =
     (if list_ex (\<lambda>r. v_Id r = validatorID) (Validators t)
      then Inl (constraintFailed ''Validators.Id'')
      else Inr (t\<lparr>Validators := Validators t @ [\<lparr>v_Id = validatorID, v_Level = level\<rparr>]\<rparr>))"

definition updateValidator :: "nat \<Rightarrow> address \<Rightarrow> Tables \<Rightarrow> error + Tables" where
  "updateValidator level validatorID t =
     Inr (t\<lparr>Validators := map (\<lambda>r. if v_Id r = validatorID then r\<lparr>v_Level := level\<rparr> else r) (Validators t)\<rparr>)"

definition insertWorker :: "address \<Rightarrow> address \<Rightarrow> bool \<Rightarrow> Tables \<Rightarrow> error + Tables" where
  "insertWorker masterID slaveID confirmed t =
     (if list_ex (\<lambda>r. wk_MasterID r = masterID \<and> wk_SlaveID r = slaveID) (Workers t)
      then Inl (constraintFailed ''Workers.MasterID, Workers.WorkerID'')
      else Inr (t\<lparr>Workers := Workers t @
                   [\<lparr>wk_MasterID = masterID, wk_SlaveID = slaveID, wk_Confirmed = confirmed\<rparr>]\<rparr>))"

definition updateWorker :: "bool \<Rightarrow> address \<Rightarrow> address \<Rightarrow> Tables \<Rightarrow> error + Tables" where
  "updateWorker confirmed masterID slaveID t =
     Inr (t\<lparr>Workers := map (\<lambda>r. if wk_MasterID r = masterID \<and> wk_SlaveID r = slaveID
                                  then r\<lparr>wk_Confirmed := confirmed\<rparr> else r) (Workers t)\<rparr>)"

definition deleteWorker :: "address \<Rightarrow> address \<Rightarrow> Tables \<Rightarrow> error + Tables" where
  "deleteWorker masterID slaveID t =
     Inr (t\<lparr>Workers := filter (\<lambda>r. \<not> (wk_MasterID r = masterID \<and> wk_SlaveID r = slaveID)) (Workers t)\<rparr>)"

definition insertBlacklistEntry :: "address \<Rightarrow> address \<Rightarrow> Tables \<Rightarrow> error + Tables" where
  "insertBlacklistEntry adderID addeeID t =
     (if list_ex (\<lambda>r. r = (adderID, addeeID)) (Blacklists t)
      then Inl (constraintFailed ''Blacklists.AdderID, Blacklists.AddeeID'')
      else Inr (t\<lparr>Blacklists := Blacklists t @ [(adderID, addeeID)]\<rparr>))"

definition deleteBlacklistEntry :: "address \<Rightarrow> address \<Rightarrow> Tables \<Rightarrow> error + Tables" where
  "deleteBlacklistEntry removerID removeeID t =
     Inr (t\<lparr>Blacklists := filter (\<lambda>r. r \<noteq> (removerID, removeeID)) (Blacklists t)\<rparr>)"

definition updateLastKnownBlock :: "int \<Rightarrow> Tables \<Rightarrow> error + Tables" where
  "updateLastKnownBlock blockNumber t = Inr (t\<lparr>LastKnownBlock := map (\<lambda>r. blockNumber) (LastKnownBlock t)\<rparr>)"

definition insertLastKnownBlock :: "int \<Rightarrow> Tables \<Rightarrow> error + Tables" where
  "insertLastKnownBlock blockNumber t = Inr (t\<lparr>LastKnownBlock := LastKnownBlock t @ [blockNumber]\<rparr>)"

section \<open>The chain and its events\<close>

text \<open>
  The blockchain API the handlers fetch canonical state from; a fetch may fail. The
  event variants are those \<open>processEvent\<close> switches over.
\<close>

record Chain =
  GetDealInfo :: "int \<Rightarrow> error + Deal"
  GetOrderInfo :: "int \<Rightarrow> error + Order"
  GetDealChangeRequestInfo :: "int \<Rightarrow> error + DealChangeRequest"
  GetValidator :: "address \<Rightarrow> error + Validator"
  GetCertificate :: "int \<Rightarrow> error + Certificate"

datatype EventData =
  DealOpenedData int
| DealUpdatedData int
| OrderPlacedData int
| OrderUpdatedData int
| DealChangeRequestSentData int
| DealChangeRequestUpdatedData int
| BilledData int int
| WorkerAnnouncedData address address
| WorkerConfirmedData address address
| WorkerRemovedData address address
| AddedToBlacklistData address address
| RemovedFromBlacklistData address address
| ValidatorCreatedData address
| ValidatorDeletedData address
| CertificateCreatedData int
| ErrorData error string

record Event =
  ev_Data :: EventData
  ev_BlockNumber :: nat
  ev_TS :: nat

text \<open>\<open>pb.BigInt.IsZero\<close>, which the code calls before its \<open>nil\<close> test: \<open>nil\<close> counts as zero.\<close>

definition bigIsZero :: "int option \<Rightarrow> bool" where
  "bigIsZero b = (case b of None \<Rightarrow> True | Some i \<Rightarrow> i = 0)"

definition checkBenchmarks :: "DWH \<Rightarrow> nat list \<Rightarrow> error option" where
  "checkBenchmarks w benches =
     (if length benches \<noteq> numBenchmarks w
      then Some (''expected '' @ digits (numBenchmarks w) @ '' benchmarks, got '' @ digits (length benches))
      else case filter (\<lambda>(idx, bench). bench \<ge> MaxBenchmark w) (enumerate 0 benches) of
             [] \<Rightarrow> None
           | (idx, bench) # rest \<Rightarrow>
               Some (''benchmark '' @ digits idx @ '' is greater that '' @ digits (MaxBenchmark w)))"

definition commitTx :: "DWH \<Rightarrow> Tables \<Rightarrow> error option \<times> DWH" where
  "commitTx w tx =
     (case Commit w tx of
        Inl err \<Rightarrow> (Some (errors_Wrap err ''transaction commit failed''), w)
      | Inr w' \<Rightarrow> (None, w'))"

section \<open>Event handlers\<close>

text \<open>
  A handler takes the service value and returns the error it returns (\<open>None\<close> for
  \<open>nil\<close>) and the service value afterwards. What a handler does after \<open>w.mu.Lock()\<close>
  runs under the write lock, one handler at a time; every handler but \<open>onBilled\<close> reads
  and writes the store only there. A transaction works on its own copy of the tables: a
  rollback returns the service value unchanged, a commit installs the copy. Reads
  through \<open>w.db\<close> inside a handler see the committed tables, reads through \<open>tx\<close> the
  transaction's.
\<close>

definition onDealOpened :: "Chain \<Rightarrow> int \<Rightarrow> DWH \<Rightarrow> error option \<times> DWH" where
  "onDealOpened chain dealID w =
     (case GetDealInfo chain dealID of
        Inl err \<Rightarrow> (Some (errors_Wrap err ''failed to GetDealInfo''), w)
      | Inr deal \<Rightarrow>
     (case getOrderDetails w (d_AskID deal) of
        Inl err \<Rightarrow> (Some (errors_Wrap err ''failed to getOrderDetails (Ask)''), w)
      | Inr ask \<Rightarrow>
     (case getOrderDetails w (d_BidID deal) of
        Inl err \<Rightarrow> (Some (errors_Wrap err ''failed to getOrderDetails (Bid)''), w)
      | Inr bid \<Rightarrow>
     (let hasActiveChangeRequests =
            (case getDealChangeRequests w (d_Id deal) of Inl err \<Rightarrow> False | Inr requests \<Rightarrow> True)
      in case Begin w of
        Inl err \<Rightarrow> (Some (errors_Wrap err ''failed to begin transaction''), w)
      | Inr tx \<Rightarrow>
     (case checkBenchmarks w (d_Benchmarks deal) of
        Some err \<Rightarrow> (Some err, w)
      | None \<Rightarrow>
     (case insertDeal
             \<lparr>dwd_Deal = deal\<lparr>d_Benchmarks := take (numBenchmarks w) (d_Benchmarks deal)\<rparr>,
              dwd_Netflags = o_Netflags (dwo_Order ask),
              dwd_AskIdentityLevel = o_IdentityLevel (dwo_Order ask),
              dwd_BidIdentityLevel = o_IdentityLevel (dwo_Order bid),
              dwd_SupplierCertificates = dwo_CreatorCertificates ask,
              dwd_ConsumerCertificates = dwo_CreatorCertificates bid,
              dwd_ActiveChangeRequest = hasActiveChangeRequests\<rparr> tx of
        Inl err \<Rightarrow> (Some (errors_Wrap err ''failed to insertDeal''), w)
      | Inr tx \<Rightarrow>
     (case insertDealCondition (d_SupplierID deal) (d_ConsumerID deal) (d_MasterID deal) (d_Duration deal)
             (d_Price deal) (d_StartTime deal) 0 (d_TotalPayout deal) (d_Id deal) tx of
        Inl err \<Rightarrow> (Some (errors_Wrap err ''onDealOpened: failed to insertDealCondition''), w)
      | Inr tx \<Rightarrow> commitTx w tx)))))))"

definition onDealUpdated :: "Chain \<Rightarrow> int \<Rightarrow> DWH \<Rightarrow> error option \<times> DWH" where
  "onDealUpdated chain dealID w =
     (case GetDealInfo chain dealID of
        Inl err \<Rightarrow> (Some (errors_Wrap err ''failed to GetDealInfo''), w)
      | Inr deal \<Rightarrow>
          if d_Status deal = DealStatus_DEAL_CLOSED then
            (case Begin w of
               Inl err \<Rightarrow> (Some (errors_Wrap err ''failed to begin transaction''), w)
             | Inr tx \<Rightarrow>
            (case deleteDeal (d_Id deal) tx of
               Inl err \<Rightarrow> (None, w)
             | Inr tx \<Rightarrow>
            (case deleteOrder (d_AskID deal) tx of
               Inl err \<Rightarrow> (Some (errors_Wrap err ''failed to deleteOrder''), w)
             | Inr tx \<Rightarrow>
            (case deleteOrder (d_BidID deal) tx of
               Inl err \<Rightarrow> (Some (errors_Wrap err ''failed to deleteOrder''), w)
             | Inr tx \<Rightarrow> commitTx w tx))))
          else
            (case dbExec w (updateDeal (d_Duration deal) (d_Price deal) (d_StartTime deal) (d_EndTime deal)
                              (d_Status deal) (d_BlockedBalance deal) (d_TotalPayout deal) (d_LastBillTS deal)
                              (d_Id deal)) of
               Inl err \<Rightarrow> (Some (errors_Wrap err ''failed to insert into Deals''), w)
             | Inr w' \<Rightarrow> (None, w')))"

text \<open>The loop of \<open>onDealChangeRequestSent\<close> that deletes the expired change requests.\<close>

fun deleteExpiredChangeRequests :: "DealChangeRequest list \<Rightarrow> Tables \<Rightarrow> error + Tables" where
  "deleteExpiredChangeRequests [] tx = Inr tx"
| "deleteExpiredChangeRequests (expiredChangeRequest # rest) tx =
     (case deleteDealChangeRequest (cr_Id expiredChangeRequest) tx of
        Inl err \<Rightarrow> Inl (errors_Wrap err ''failed to deleteDealChangeRequest'')
      | Inr tx \<Rightarrow> deleteExpiredChangeRequests rest tx)"

definition onDealChangeRequestSent :: "Chain \<Rightarrow> nat \<Rightarrow> int \<Rightarrow> DWH \<Rightarrow> error option \<times> DWH" where
  "onDealChangeRequestSent chain eventTS changeRequestID w =
     (case GetDealChangeRequestInfo chain changeRequestID of
        Inl err \<Rightarrow> (Some err, w)
      | Inr changeRequest \<Rightarrow>
          if cr_Status changeRequest \<noteq> ChangeRequestStatus_REQUEST_CREATED then (None, w)
          else if closed w then (Some ''failed to get (possibly) expired DealChangeRequests'', w)
          else
            (let expiredChangeRequests =
                   selectDealChangeRequests (cr_DealID changeRequest) (cr_RequestType changeRequest)
                     (cr_Status changeRequest) (db w)
             in case Begin w of
               Inl err \<Rightarrow> (Some (errors_Wrap err ''failed to begin transaction''), w)
             | Inr tx \<Rightarrow>
            (case deleteExpiredChangeRequests expiredChangeRequests tx of
               Inl err \<Rightarrow> (Some err, w)
             | Inr tx \<Rightarrow>
            (case insertDealChangeRequest
                    \<lparr>cr_Id = cr_Id changeRequest, cr_CreatedTS = eventTS,
                     cr_RequestType = cr_RequestType changeRequest, cr_Duration = cr_Duration changeRequest,
                     cr_Price = cr_Price changeRequest, cr_Status = cr_Status changeRequest,
                     cr_DealID = cr_DealID changeRequest\<rparr> tx of
               Inl err \<Rightarrow> (Some (errors_Wrap err ''failed to insertDealChangeRequest''), w)
             | Inr tx \<Rightarrow> commitTx w tx))))"

text \<open>
  \<open>updateDealConditionEndTime\<close> reads \<open>Conditions[0]\<close> without a length test: on an empty
  reply the Go runtime panics. A panic is the left injection.
\<close>

definition updateDealConditionEndTime :: "DWH \<Rightarrow> Tables \<Rightarrow> int \<Rightarrow> nat \<Rightarrow> string + (error + Tables)" where
  "updateDealConditionEndTime w tx dealID eventTS =
     (case getDealConditions w
             \<lparr>dcr_DealID = dealID, dcr_Sortings = [], dcr_Offset = 0, dcr_Limit = 0, dcr_WithCount = False\<rparr> of
        Inl err \<Rightarrow> Inr (Inl (errors_Wrap err ''failed to getDealConditions''))
      | Inr dealConditionsReply \<Rightarrow>
          (case dcrep_Conditions dealConditionsReply of
             [] \<Rightarrow> Inl ''panic: runtime error: index out of range''
           | dealCondition # rest \<Rightarrow>
               (case updateDealConditionEndTimeCmd (int eventTS) (dc_Id dealCondition) tx of
                  Inl err \<Rightarrow> Inr (Inl (errors_Wrap err ''failed to update DealCondition''))
                | Inr tx \<Rightarrow> Inr (Inr tx))))"

definition onDealChangeRequestUpdated ::
  "Chain \<Rightarrow> nat \<Rightarrow> int \<Rightarrow> DWH \<Rightarrow> string + (error option \<times> DWH)" where
  "onDealChangeRequestUpdated chain eventTS changeRequestID w =
     (case GetDealChangeRequestInfo chain changeRequestID of
        Inl err \<Rightarrow> Inr (Some err, w)
      | Inr changeRequest \<Rightarrow>
          if cr_Status changeRequest = ChangeRequestStatus_REQUEST_REJECTED then
            (case dbExec w (updateDealChangeRequest (cr_Status changeRequest) (cr_Id changeRequest)) of
               Inl err \<Rightarrow> Inr (Some (errors_Wrap err (''failed to update DealChangeRequest ''
                                        @ String (cr_Id changeRequest))), w)
             | Inr w' \<Rightarrow> Inr (None, w'))
          else if cr_Status changeRequest = ChangeRequestStatus_REQUEST_ACCEPTED then
            (case getDealDetails w (cr_DealID changeRequest) of
               Inl err \<Rightarrow> Inr (Some (errors_Wrap err ''failed to getDealDetails''), w)
             | Inr deal \<Rightarrow>
            (case Begin w of
               Inl err \<Rightarrow> Inr (Some (errors_Wrap err ''failed to begin transaction''), w)
             | Inr tx \<Rightarrow>
            (case updateDealConditionEndTime w tx (d_Id (dwd_Deal deal)) eventTS of
               Inl panic \<Rightarrow> Inl panic
             | Inr (Inl err) \<Rightarrow> Inr (Some (errors_Wrap err ''failed to updateDealConditionEndTime''), w)
             | Inr (Inr tx) \<Rightarrow>
            (case insertDealCondition (d_SupplierID (dwd_Deal deal)) (d_ConsumerID (dwd_Deal deal))
                    (d_MasterID (dwd_Deal deal)) (cr_Duration changeRequest) (cr_Price changeRequest)
                    (int eventTS) 0 0 (d_Id (dwd_Deal deal)) tx of
               Inl err \<Rightarrow> Inr (Some (errors_Wrap err ''failed to insertDealCondition''), w)
             | Inr tx \<Rightarrow>
            (case deleteDealChangeRequest (cr_Id changeRequest) tx of
               Inl err \<Rightarrow> Inr (Some (errors_Wrap err (''failed to delete DealChangeRequest ''
                                        @ String (cr_Id changeRequest))), w)
             | Inr tx \<Rightarrow> Inr (commitTx w tx))))))
          else
            (case dbExec w (deleteDealChangeRequest (cr_Id changeRequest)) of
               Inl err \<Rightarrow> Inr (Some (errors_Wrap err (''failed to delete DealChangeRequest ''
                                        @ String (cr_Id changeRequest))), w)
             | Inr w' \<Rightarrow> Inr (None, w')))"

definition updateLastDealConditionPayout :: "Tables \<Rightarrow> DealCondition \<Rightarrow> int \<Rightarrow> error + Tables" where
  "updateLastDealConditionPayout tx dealCondition payedAmount =
     (let newTotalPayout = dc_TotalPayout dealCondition + payedAmount
      in case updateDealConditionPayout newTotalPayout (dc_Id dealCondition) tx of
           Inl err \<Rightarrow> Inl (errors_Wrap err ''failed to updateDealConditionPayout'')
         | Inr tx \<Rightarrow> Inr tx)"

definition updateDealPayout :: "DWH \<Rightarrow> Tables \<Rightarrow> int \<Rightarrow> int \<Rightarrow> error + Tables" where
  "updateDealPayout w tx dealID payedAmount =
     (case getDealDetails w dealID of
        Inl err \<Rightarrow> Inl (errors_Wrap err ''failed to getDealDetails'')
      | Inr deal \<Rightarrow>
          (let newDealTotalPayout = d_TotalPayout (dwd_Deal deal) + payedAmount
           in case updateDealPayoutCmd newDealTotalPayout dealID tx of
                Inl err \<Rightarrow> Inl (errors_Wrap err ''failed to updateDealPayout'')
              | Inr tx \<Rightarrow> Inr tx))"

text \<open>
  \<open>onBilled\<close> reads the deal's conditions before it takes the write lock, and writes
  under the lock what it computed from that read. The two parts are modelled apart:
  \<open>onBilled_read\<close> is the code before \<open>w.mu.Lock()\<close> (the query and the test of its
  length), run on the store as it is then; \<open>onBilled_locked\<close> is the code from
  \<open>w.mu.Lock()\<close> on, run on the store as it is when the lock is granted, with the
  condition \<open>Conditions[0]\<close> of the earlier read. Another worker's handler may run
  between the two. \<open>onBilled\<close> is the handler with nothing in between, as a single
  worker runs it.
\<close>

definition onBilled_read :: "int \<Rightarrow> DWH \<Rightarrow> error + DealCondition" where
  "onBilled_read dealID w =
     (case getDealConditions w
             \<lparr>dcr_DealID = dealID, dcr_Sortings = [], dcr_Offset = 0, dcr_Limit = 0, dcr_WithCount = False\<rparr> of
        Inl err \<Rightarrow> Inl (errors_Wrap err ''failed to GetDealConditions (last)'')
      | Inr dealConditionsReply \<Rightarrow>
          (case dcrep_Conditions dealConditionsReply of
             [] \<Rightarrow> Inl (''no deal conditions found for deal `'' @ String dealID @ ''`'')
           | dealCondition # rest \<Rightarrow> Inr dealCondition))"

definition onBilled_locked :: "nat \<Rightarrow> int \<Rightarrow> int \<Rightarrow> DealCondition \<Rightarrow> DWH \<Rightarrow> error option \<times> DWH" where
  "onBilled_locked eventTS dealID payedAmount dealCondition w =
     (case Begin w of
        Inl err \<Rightarrow> (Some (errors_Wrap err ''failed to begin transaction''), w)
      | Inr tx \<Rightarrow>
     (case updateLastDealConditionPayout tx dealCondition payedAmount of
        Inl err \<Rightarrow> (Some (errors_Wrap err ''failed to updateLastDealConditionPayout''), w)
      | Inr tx \<Rightarrow>
     (case updateDealPayout w tx dealID payedAmount of
        Inl err \<Rightarrow> (Some (errors_Wrap err ''failed to updateDealPayout''), w)
      | Inr tx \<Rightarrow>
     (case insertDealPayment eventTS payedAmount dealID tx of
        Inl err \<Rightarrow> (Some (errors_Wrap err ''insertDealPayment failed''), w)
      | Inr tx \<Rightarrow> commitTx w tx))))"

definition onBilled :: "nat \<Rightarrow> int \<Rightarrow> int \<Rightarrow> DWH \<Rightarrow> error option \<times> DWH" where
  "onBilled eventTS dealID payedAmount w =
     (case onBilled_read dealID w of
        Inl err \<Rightarrow> (Some err, w)
      | Inr dealCondition \<Rightarrow> onBilled_locked eventTS dealID payedAmount dealCondition w)"

text \<open>
  \<open>updateProfileStats\<close>: the counter read from the profile, plus the update, refused when
  negative. (Go computes in \<open>int\<close>; a counter is a row count, far from 2^63.)
\<close>

definition updateProfileStats :: "Tables \<Rightarrow> OrderType \<Rightarrow> address \<Rightarrow> Profile \<Rightarrow> int \<Rightarrow> error + Tables" where
  "updateProfileStats tx orderType authorID profile update =
     (case (if orderType = OrderType_ASK then
              (let updateResult = int (p_ActiveAsks profile) + update
               in if updateResult < 0
                  then Inl (''updateProfileStats resulted in a negative Asks value (UserID: `'' @ authorID @ ''`)'')
                  else Inr (ActiveAsks (nat updateResult)))
            else
              (let updateResult = int (p_ActiveBids profile) + update
               in if updateResult < 0
                  then Inl (''updateProfileStats resulted in a negative Bids value (UserID: `'' @ authorID @ ''`)'')
                  else Inr (ActiveBids (nat updateResult)))) of
        Inl err \<Rightarrow> Inl err
      | Inr cmd \<Rightarrow>
          (case updateProfileCmd cmd authorID tx of
             Inl err \<Rightarrow> Inl (errors_Wrap err ''failed to updateProfile'')
           | Inr tx \<Rightarrow> Inr tx))"

definition onOrderPlaced :: "Chain \<Rightarrow> nat \<Rightarrow> int \<Rightarrow> DWH \<Rightarrow> error option \<times> DWH" where
  "onOrderPlaced chain eventTS orderID w =
     (case GetOrderInfo chain orderID of
        Inl err \<Rightarrow> (Some (errors_Wrap err ''failed to GetOrderInfo''), w)
      | Inr order \<Rightarrow>
     (case Begin w of
        Inl err \<Rightarrow> (Some (errors_Wrap err ''failed to begin transaction''), w)
      | Inr tx \<Rightarrow>
     (case (case getProfileInfo w (o_AuthorID order) of
              Inl err \<Rightarrow>
                (let askOrders = (if o_OrderType order = OrderType_ASK then 1 else 0);
                     bidOrders = (if o_OrderType order = OrderType_ASK then 0 else 1)
                 in case insertProfileUserID (o_AuthorID order) [] askOrders bidOrders tx of
                      Inl err \<Rightarrow> Inl (errors_Wrap err ''failed to insertProfileUserID'')
                    | Inr tx \<Rightarrow>
                        Inr (tx, \<lparr>p_UserID = o_AuthorID order, p_IdentityLevel = 0, p_Name = [],
                                  p_Country = [], p_IsCorporation = False, p_IsProfessional = False,
                                  p_Certificates = [], p_ActiveAsks = 0, p_ActiveBids = 0\<rparr>))
            | Inr profile \<Rightarrow>
                (case updateProfileStats tx (o_OrderType order) (o_AuthorID order) profile 1 of
                   Inl err \<Rightarrow> Inl (errors_Wrap err ''failed to updateProfileStats'')
                 | Inr tx \<Rightarrow> Inr (tx, profile))) of
        Inl err \<Rightarrow> (Some err, w)
      | Inr (tx, profile) \<Rightarrow>
          if o_OrderStatus order = OrderStatus_ORDER_INACTIVE \<and> bigIsZero (o_DealID order)
          then commitTx w tx
          else
            (let order = (if o_DealID order = None then order\<lparr>o_DealID := Some 0\<rparr> else order)
             in case checkBenchmarks w (o_Benchmarks order) of
                  Some err \<Rightarrow> (Some err, w)
                | None \<Rightarrow>
                    (case insertOrder
                            \<lparr>dwo_Order = order\<lparr>o_Benchmarks := take (numBenchmarks w) (o_Benchmarks order)\<rparr>,
                             dwo_CreatedTS = eventTS,
                             dwo_CreatorIdentityLevel = p_IdentityLevel profile,
                             dwo_CreatorName = p_Name profile,
                             dwo_CreatorCountry = p_Country profile,
                             dwo_CreatorCertificates = p_Certificates profile\<rparr> tx of
                       Inl err \<Rightarrow> (Some (errors_Wrap err ''failed to insertOrder''), w)
                     | Inr tx \<Rightarrow> commitTx w tx)))))"

definition onOrderUpdated :: "Chain \<Rightarrow> int \<Rightarrow> DWH \<Rightarrow> error option \<times> DWH" where
  "onOrderUpdated chain orderID w =
     (case GetOrderInfo chain orderID of
        Inl err \<Rightarrow> (Some (errors_Wrap err ''failed to GetOrderInfo''), w)
      | Inr order \<Rightarrow>
     (case Begin w of
        Inl err \<Rightarrow> (Some (errors_Wrap err ''failed to begin transaction''), w)
      | Inr tx \<Rightarrow>
     (case (if bigIsZero (o_DealID order) then
              (case deleteOrder orderID tx of
                 Inl err \<Rightarrow> Inl None
               | Inr tx \<Rightarrow> Inr tx)
            else
              (case updateOrderStatus (o_OrderStatus order) (o_Id order) tx of
                 Inl err \<Rightarrow> Inl (Some (errors_Wrap err ''failed to updateOrderStatus (possibly old log entry)''))
               | Inr tx \<Rightarrow> Inr tx)) of
        Inl result \<Rightarrow> (result, w)
      | Inr tx \<Rightarrow>
     (case getProfileInfo w (o_AuthorID order) of
        Inl err \<Rightarrow>
          (Some (errors_Wrap err (''failed to getProfileInfo (AuthorID: `'' @ o_AuthorID order @ ''`)'')), w)
      | Inr profile \<Rightarrow>
     (case updateProfileStats tx (o_OrderType order) (o_AuthorID order) profile (- 1) of
        Inl err \<Rightarrow>
          (Some (errors_Wrap err (''failed to updateProfileStats (AuthorID: `'' @ o_AuthorID order @ ''`)'')), w)
      | Inr tx \<Rightarrow> commitTx w tx)))))"

definition onWorkerAnnounced :: "address \<Rightarrow> address \<Rightarrow> DWH \<Rightarrow> error option \<times> DWH" where
  "onWorkerAnnounced masterID slaveID w =
     (case dbExec w (insertWorker masterID slaveID False) of
        Inl err \<Rightarrow> (Some (errors_Wrap err ''onWorkerAnnounced failed''), w)
      | Inr w' \<Rightarrow> (None, w'))"

definition onWorkerConfirmed :: "address \<Rightarrow> address \<Rightarrow> DWH \<Rightarrow> error option \<times> DWH" where
  "onWorkerConfirmed masterID slaveID w =
     (case dbExec w (updateWorker True masterID slaveID) of
        Inl err \<Rightarrow> (Some (errors_Wrap err ''onWorkerConfirmed failed''), w)
      | Inr w' \<Rightarrow> (None, w'))"

definition onWorkerRemoved :: "address \<Rightarrow> address \<Rightarrow> DWH \<Rightarrow> error option \<times> DWH" where
  "onWorkerRemoved masterID slaveID w =
     (case dbExec w (deleteWorker masterID slaveID) of
        Inl err \<Rightarrow> (Some (errors_Wrap err ''onWorkerRemoved failed''), w)
      | Inr w' \<Rightarrow> (None, w'))"

definition onAddedToBlacklist :: "address \<Rightarrow> address \<Rightarrow> DWH \<Rightarrow> error option \<times> DWH" where
  "onAddedToBlacklist adderID addeeID w =
     (case dbExec w (insertBlacklistEntry adderID addeeID) of
        Inl err \<Rightarrow> (Some (errors_Wrap err ''onAddedToBlacklist failed''), w)
      | Inr w' \<Rightarrow> (None, w'))"

definition onRemovedFromBlacklist :: "address \<Rightarrow> address \<Rightarrow> DWH \<Rightarrow> error option \<times> DWH" where
  "onRemovedFromBlacklist removerID removeeID w =
     (case dbExec w (deleteBlacklistEntry removerID removeeID) of
        Inl err \<Rightarrow> (Some (errors_Wrap err ''onRemovedFromBlacklist failed''), w)
      | Inr w' \<Rightarrow> (None, w'))"

definition onValidatorCreated :: "Chain \<Rightarrow> address \<Rightarrow> DWH \<Rightarrow> error option \<times> DWH" where
  "onValidatorCreated chain validatorID w =
     (case GetValidator chain validatorID of
        Inl err \<Rightarrow> (Some (errors_Wrap err (''failed to get validator `'' @ validatorID @ ''`'')), w)
      | Inr validator \<Rightarrow>
          (case dbExec w (insertValidator (v_Id validator) (v_Level validator)) of
             Inl err \<Rightarrow> (Some (errors_Wrap err ''failed to insertValidator''), w)
           | Inr w' \<Rightarrow> (None, w')))"

definition onValidatorDeleted :: "Chain \<Rightarrow> address \<Rightarrow> DWH \<Rightarrow> error option \<times> DWH" where
  "onValidatorDeleted chain validatorID w =
     (case GetValidator chain validatorID of
        Inl err \<Rightarrow> (Some (errors_Wrap err (''failed to get validator `'' @ validatorID @ ''`'')), w)
      | Inr validator \<Rightarrow>
          (case dbExec w (updateValidator (v_Level validator) (v_Id validator)) of
             Inl err \<Rightarrow> (Some (errors_Wrap err ''failed to updateValidator''), w)
           | Inr w' \<Rightarrow> (None, w')))"

text \<open>
  The certificate attributes with a profile column of their own (\<open>CertificateName\<close>,
  \<open>CertificateCountry\<close> and \<open>attributeToString\<close> are declared outside the sources; the
  values are the registry's attribute codes).
\<close>

definition CertificateName :: nat where
  "CertificateName = 1102"

definition CertificateCountry :: nat where
  "CertificateCountry = 1303"

definition updateProfile :: "DWH \<Rightarrow> Tables \<Rightarrow> Certificate \<Rightarrow> error + Tables" where
  "updateProfile w tx certificate =
     (case (case getProfileInfo w (c_OwnerID certificate) of
              Inl err \<Rightarrow>
                (case insertProfileUserID (c_OwnerID certificate) [] 0 0 tx of
                   Inl err \<Rightarrow> Inl (errors_Wrap err ''failed to insertProfileUserID'')
                 | Inr tx \<Rightarrow> Inr tx)
            | Inr profile \<Rightarrow> Inr tx) of
        Inl err \<Rightarrow> Inl err
      | Inr tx \<Rightarrow>
     (case (if c_Attribute certificate = CertificateName then
              (case updateProfileCmd (ProfileName (c_Value certificate)) (c_OwnerID certificate) tx of
                 Inl err \<Rightarrow> Inl (errors_Wrap err ''failed to updateProfileName'')
               | Inr tx \<Rightarrow> Inr tx)
            else if c_Attribute certificate = CertificateCountry then
              (case updateProfileCmd (ProfileCountry (c_Value certificate)) (c_OwnerID certificate) tx of
                 Inl err \<Rightarrow> Inl (errors_Wrap err ''failed to updateProfileCountry'')
               | Inr tx \<Rightarrow> Inr tx)
            else Inr tx) of
        Inl err \<Rightarrow> Inl err
      | Inr tx \<Rightarrow>
     (let certificates = selectCertificates (c_OwnerID certificate) tx;
          maxIdentityLevel = foldl (\<lambda>m c. if c_IdentityLevel c > m then c_IdentityLevel c else m) 0 certificates
      in case updateProfileCmd (ProfileCertificates certificates) (c_OwnerID certificate) tx of
           Inl err \<Rightarrow> Inl (errors_Wrap err ''failed to updateProfileCertificates (Certificates)'')
         | Inr tx \<Rightarrow>
             (case updateProfileCmd (ProfileIdentityLevel maxIdentityLevel) (c_OwnerID certificate) tx of
                Inl err \<Rightarrow> Inl (errors_Wrap err ''failed to updateProfileCertificates (Level)'')
              | Inr tx \<Rightarrow> Inr tx))))"

definition updateEntitiesByProfile :: "Tables \<Rightarrow> Certificate \<Rightarrow> error + Tables" where
  "updateEntitiesByProfile tx certificate =
     (case getProfileInfoTx tx (c_OwnerID certificate) of
        Inl err \<Rightarrow> Inl (errors_Wrap err ''failed to getProfileInfo'')
      | Inr profile \<Rightarrow>
     (case updateOrders (p_IdentityLevel profile) (p_Name profile) (p_Country profile)
             (p_Certificates profile) (p_UserID profile) tx of
        Inl err \<Rightarrow> Inl (errors_Wrap err ''failed to updateOrders'')
      | Inr tx \<Rightarrow>
     (case updateDealsSupplier (p_Certificates profile) (p_UserID profile) tx of
        Inl err \<Rightarrow> Inl (errors_Wrap err ''failed to updateDealsSupplier'')
      | Inr tx \<Rightarrow>
     (case updateDealsConsumer (p_Certificates profile) (p_UserID profile) tx of
        Inl err \<Rightarrow> Inl (errors_Wrap err ''failed to updateDealsConsumer'')
      | Inr tx \<Rightarrow> Inr tx))))"

definition onCertificateCreated :: "Chain \<Rightarrow> int \<Rightarrow> DWH \<Rightarrow> error option \<times> DWH" where
  "onCertificateCreated chain certificateID w =
     (case GetCertificate chain certificateID of
        Inl err \<Rightarrow> (Some (errors_Wrap err ''failed to GetCertificate''), w)
      | Inr certificate \<Rightarrow>
     (case Begin w of
        Inl err \<Rightarrow> (Some (errors_Wrap err ''failed to begin transaction''), w)
      | Inr tx \<Rightarrow>
     (case insertCertificate
             (certificate\<lparr>c_IdentityLevel := (c_Attribute certificate div 100) mod 10\<rparr>) tx of
        Inl err \<Rightarrow> (Some (errors_Wrap err ''failed to insertCertificate''), w)
      | Inr tx \<Rightarrow>
     (case updateProfile w tx certificate of
        Inl err \<Rightarrow> (Some (errors_Wrap err ''failed to updateProfile''), w)
      | Inr tx \<Rightarrow>
     (case updateEntitiesByProfile tx certificate of
        Inl err \<Rightarrow> (Some (errors_Wrap err ''failed to updateEntitiesByProfile''), w)
      | Inr tx \<Rightarrow> commitTx w tx)))))"

section \<open>The dispatcher and the worker\<close>

text \<open>
  \<open>processEvent\<close>: the type switch, case by case. Only \<open>onDealChangeRequestUpdated\<close> can
  panic; the left injection carries the panic through.
\<close>

fun processEvent :: "Chain \<Rightarrow> Event \<Rightarrow> DWH \<Rightarrow> string + (error option \<times> DWH)" where
  "processEvent chain event w =
     (case ev_Data event of
        DealOpenedData dealID \<Rightarrow> Inr (onDealOpened chain dealID w)
      | DealUpdatedData dealID \<Rightarrow> Inr (onDealUpdated chain dealID w)
      | OrderPlacedData orderID \<Rightarrow> Inr (onOrderPlaced chain (ev_TS event) orderID w)
      | OrderUpdatedData orderID \<Rightarrow> Inr (onOrderUpdated chain orderID w)
      | DealChangeRequestSentData requestID \<Rightarrow> Inr (onDealChangeRequestSent chain (ev_TS event) requestID w)
      | DealChangeRequestUpdatedData requestID \<Rightarrow> onDealChangeRequestUpdated chain (ev_TS event) requestID w
      | BilledData dealID paidAmount \<Rightarrow> Inr (onBilled (ev_TS event) dealID paidAmount w)
      | WorkerAnnouncedData masterID slaveID \<Rightarrow> Inr (onWorkerAnnounced masterID slaveID w)
      | WorkerConfirmedData masterID slaveID \<Rightarrow> Inr (onWorkerConfirmed masterID slaveID w)
      | WorkerRemovedData masterID slaveID \<Rightarrow> Inr (onWorkerRemoved masterID slaveID w)
      | AddedToBlacklistData adderID addeeID \<Rightarrow> Inr (onAddedToBlacklist adderID addeeID w)
      | RemovedFromBlacklistData removerID removeeID \<Rightarrow>
          (case onRemovedFromBlacklist removerID removeeID w of (err, w') \<Rightarrow> Inr (None, w'))
      | ValidatorCreatedData validatorID \<Rightarrow> Inr (onValidatorCreated chain validatorID w)
      | ValidatorDeletedData validatorID \<Rightarrow> Inr (onValidatorDeleted chain validatorID w)
      | CertificateCreatedData certificateID \<Rightarrow> Inr (onCertificateCreated chain certificateID w)
      | ErrorData err topic \<Rightarrow> Inr (None, w))"

definition updateLastKnownBlockTS :: "int \<Rightarrow> DWH \<Rightarrow> error option \<times> DWH" where
  "updateLastKnownBlockTS blockNumber w =
     (case dbExec w (updateLastKnownBlock blockNumber) of
        Inl err \<Rightarrow> (Some (errors_Wrap err ''failed to updateLastKnownBlock''), w)
      | Inr w' \<Rightarrow> (None, w'))"

text \<open>\<open>eventRetryTime = time.Second * 3\<close>, in seconds.\<close>

definition eventRetryTime :: nat where
  "eventRetryTime = 3"

text \<open>
  What a worker does for one event, in order: each call of \<open>processEvent\<close>, each
  log line, and the wait on the retry timer with its duration.
\<close>

datatype workerAction =
  WarnUpdateLastKnownBlock error
| ProcessEvent
| WarnRetrying error
| TimerFired nat
| InfoCancelledWhileRetrying
| WarnRetryFailed error
| DebugProcessed

text \<open>
  \<open>retryEvent\<close>: the \<open>select\<close> between the context and the timer. \<open>cancelled\<close> says that
  the context is done before the timer fires.
\<close>

definition retryEvent :: "Chain \<Rightarrow> Event \<Rightarrow> bool \<Rightarrow> DWH \<Rightarrow> string + (DWH \<times> workerAction list)" where
  "retryEvent chain event cancelled w =
     (if cancelled then Inr (w, [InfoCancelledWhileRetrying])
      else case processEvent chain event w of
             Inl panic \<Rightarrow> Inl panic
           | Inr (Some err, w') \<Rightarrow> Inr (w', [TimerFired eventRetryTime, ProcessEvent, WarnRetryFailed err])
           | Inr (None, w') \<Rightarrow> Inr (w', [TimerFired eventRetryTime, ProcessEvent]))"

text \<open>
  The body of the worker's loop for one event received from the channel
  (\<open>runEventWorker\<close>, the case \<open>event, ok := <-events\<close> with \<open>ok\<close>).
\<close>

definition runEventWorker_event ::
  "Chain \<Rightarrow> Event \<Rightarrow> bool \<Rightarrow> DWH \<Rightarrow> string + (DWH \<times> workerAction list)" where
  "runEventWorker_event chain event cancelled w =
     (let (w0, log0) = (case updateLastKnownBlockTS (int (ev_BlockNumber event)) w of
                          (Some err, w0) \<Rightarrow> (w0, [WarnUpdateLastKnownBlock err])
                        | (None, w0) \<Rightarrow> (w0, []))
      in case processEvent chain event w0 of
           Inl panic \<Rightarrow> Inl panic
         | Inr (None, w1) \<Rightarrow> Inr (w1, log0 @ [ProcessEvent, DebugProcessed])
         | Inr (Some err, w1) \<Rightarrow>
             if Contains err ''constraint'' then Inr (w1, log0 @ [ProcessEvent])
             else (case retryEvent chain event cancelled w1 of
                     Inl panic \<Rightarrow> Inl panic
                   | Inr (w2, log2) \<Rightarrow>
                       Inr (w2, log0 @ [ProcessEvent, WarnRetrying err] @ log2 @ [DebugProcessed])))"

text \<open>
  The worker's loop over the events it receives, each paired with whether the context
  is cancelled while the event waits for its retry. The loop ends when the channel is
  closed (the list is empty) or, after a cancellation, at the next \<open>select\<close>.
\<close>

fun runEventWorker ::
  "Chain \<Rightarrow> (Event \<times> bool) list \<Rightarrow> DWH \<Rightarrow> string + (DWH \<times> workerAction list)" where
  "runEventWorker chain [] w = Inr (w, [])"
| "runEventWorker chain ((event, cancelled) # rest) w =
     (case runEventWorker_event chain event cancelled w of
        Inl panic \<Rightarrow> Inl panic
      | Inr (w', log1) \<Rightarrow>
          if InfoCancelledWhileRetrying \<in> set log1 then Inr (w', log1)
          else (case runEventWorker chain rest w' of
                  Inl panic \<Rightarrow> Inl panic
                | Inr (w'', log2) \<Rightarrow> Inr (w'', log1 @ log2)))"

section \<open>Notions the properties are stated with\<close>

text \<open>
  The spec's counter equation: the number of ACTIVE orders of a type that a user has
  authored, and the store in which every Profile row's \<open>activeAsks\<close> and \<open>activeBids\<close>
  equal that number.
\<close>

definition activeOrders :: "Tables \<Rightarrow> address \<Rightarrow> OrderType \<Rightarrow> nat" where
  "activeOrders t userID orderType =
     length (filter (\<lambda>r. o_AuthorID (dwo_Order r) = userID \<and> o_OrderType (dwo_Order r) = orderType
                          \<and> o_OrderStatus (dwo_Order r) = OrderStatus_ORDER_ACTIVE) (Orders t))"

definition profileCountersExact :: "Tables \<Rightarrow> bool" where
  "profileCountersExact t =
     list_all (\<lambda>p. p_ActiveAsks p = activeOrders t (p_UserID p) OrderType_ASK
                 \<and> p_ActiveBids p = activeOrders t (p_UserID p) OrderType_BID) (Profiles t)"

text \<open>Every Order row's author has a Profile row (the handlers insert the profile first).\<close>

definition authorsHaveProfiles :: "Tables \<Rightarrow> bool" where
  "authorsHaveProfiles t =
     list_all (\<lambda>r. list_ex (\<lambda>p. p_UserID p = o_AuthorID (dwo_Order r)) (Profiles t)) (Orders t)"

text \<open>
  The Profiles table after a successful \<open>onOrderPlaced\<close>, in closed form: a new row for a
  new author, else the author's counter of the order's type set to one more than the
  first row's.
\<close>

definition placedProfiles :: "Order \<Rightarrow> Profile list \<Rightarrow> Profile list" where
  "placedProfiles order ps =
     (case filter (\<lambda>r. p_UserID r = o_AuthorID order) ps of
        [] \<Rightarrow> ps @ [\<lparr>p_UserID = o_AuthorID order, p_IdentityLevel = 0, p_Name = [], p_Country = [],
                     p_IsCorporation = False, p_IsProfessional = False, p_Certificates = [],
                     p_ActiveAsks = (if o_OrderType order = OrderType_ASK then 1 else 0),
                     p_ActiveBids = (if o_OrderType order = OrderType_ASK then 0 else 1)\<rparr>]
      | p # rest \<Rightarrow>
          map (\<lambda>r. if p_UserID r = o_AuthorID order
                    then (if o_OrderType order = OrderType_ASK
                          then r\<lparr>p_ActiveAsks := Suc (p_ActiveAsks p)\<rparr>
                          else r\<lparr>p_ActiveBids := Suc (p_ActiveBids p)\<rparr>)
                    else r) ps)"

text \<open>
  A run of the dispatcher over a finite sequence of events: \<open>processEvent\<close> is called on
  each event in turn, on the store the previous call left, whether that call returned an
  error or not. Each event comes with the chain as it answers when the event is handled
  (an order or a deal changes on the chain between two events). The worker calls
  \<open>processEvent\<close> once for each event it receives, after it has written the
  LastKnownBlock cursor, and once more when it retries: a retry is one more element of
  the sequence. A panic ends the run.
\<close>

fun processEvents :: "(Chain \<times> Event) list \<Rightarrow> DWH \<Rightarrow> string + DWH" where
  "processEvents [] w = Inr w"
| "processEvents ((chain, event) # rest) w =
     (case processEvent chain event w of
        Inl panic \<Rightarrow> Inl panic
      | Inr (err, w') \<Rightarrow> processEvents rest w')"

text \<open>
  An OrderUpdated that takes a stored ACTIVE order out of the ACTIVE rows: the Orders
  table holds exactly one row with the event's id, the row is ACTIVE and has the fetched
  order's author and its type (ASK or BID), and the handler deletes it (the fetched
  order is unassigned) or sets its status to the fetched one, which is not ACTIVE.
\<close>

definition takesActiveOrder :: "Order \<Rightarrow> int \<Rightarrow> Tables \<Rightarrow> bool" where
  "takesActiveOrder order orderID t =
     (o_OrderType order \<noteq> OrderType_ANY
      \<and> (case filter (\<lambda>r. o_Id (dwo_Order r) = orderID) (Orders t) of
            [r] \<Rightarrow> o_OrderStatus (dwo_Order r) = OrderStatus_ORDER_ACTIVE
                   \<and> o_AuthorID (dwo_Order r) = o_AuthorID order
                   \<and> o_OrderType (dwo_Order r) = o_OrderType order
          | _ \<Rightarrow> False)
      \<and> (if bigIsZero (o_DealID order) then True
         else o_Id order = orderID \<and> o_OrderStatus order \<noteq> OrderStatus_ORDER_ACTIVE))"

text \<open>A deal whose ask and bid rows, as far as the Orders table holds them, are not ACTIVE.\<close>

definition purgesNoActiveOrder :: "Deal \<Rightarrow> Tables \<Rightarrow> bool" where
  "purgesNoActiveOrder deal t =
     list_all (\<lambda>r. if o_Id (dwo_Order r) = d_AskID deal \<or> o_Id (dwo_Order r) = d_BidID deal
                    then o_OrderStatus (dwo_Order r) \<noteq> OrderStatus_ORDER_ACTIVE else True) (Orders t)"

text \<open>
  An event is regular in a store when its handler does not return \<open>nil\<close> there (the store
  is then left as it was), or when it is: an OrderPlaced whose fetched order is an
  ACTIVE ASK or BID; an OrderUpdated that takes a stored ACTIVE order out of the ACTIVE
  rows; a DealUpdated whose fetched deal is not CLOSED, or is CLOSED with no ACTIVE ask
  or bid row; any event of another kind. A run is regular when each of its events is
  regular in the store in which it is handled.
\<close>

definition regularEvent :: "Chain \<Rightarrow> Event \<Rightarrow> DWH \<Rightarrow> bool" where
  "regularEvent chain event w =
     (case processEvent chain event w of
        Inr (None, w') \<Rightarrow>
          (case ev_Data event of
             OrderPlacedData orderID \<Rightarrow>
               (case GetOrderInfo chain orderID of
                  Inr order \<Rightarrow> o_OrderStatus order = OrderStatus_ORDER_ACTIVE
                                \<and> o_OrderType order \<noteq> OrderType_ANY
                | Inl err \<Rightarrow> True)
           | OrderUpdatedData orderID \<Rightarrow>
               (case GetOrderInfo chain orderID of
                  Inr order \<Rightarrow> takesActiveOrder order orderID (db w)
                | Inl err \<Rightarrow> True)
           | DealUpdatedData dealID \<Rightarrow>
               (case GetDealInfo chain dealID of
                  Inr deal \<Rightarrow> if d_Status deal = DealStatus_DEAL_CLOSED
                               then purgesNoActiveOrder deal (db w) else True
                | Inl err \<Rightarrow> True)
           | _ \<Rightarrow> True)
      | _ \<Rightarrow> True)"

fun regularEvents :: "(Chain \<times> Event) list \<Rightarrow> DWH \<Rightarrow> bool" where
  "regularEvents [] w = True"
| "regularEvents ((chain, event) # rest) w =
     (regularEvent chain event w
      \<and> (case processEvent chain event w of
            Inl panic \<Rightarrow> True
          | Inr (err, w') \<Rightarrow> regularEvents rest w'))"

text \<open>A filter joined by \<open>AND\<close> that opens and closes no bracket.\<close>

definition plainAnd :: "filter \<Rightarrow> bool" where
  "plainAnd f = (BoolOperator f = ''AND'' \<and> \<not> OpenBracket f \<and> \<not> CloseBracket f)"

section \<open>Example data\<close>

text \<open>
  Concrete users, rows, stores and chains on which the theorems below are instantiated:
  the scenarios of the spec's testable properties.
\<close>

definition alice :: address where
  "alice = ''0x00000000000000000000000000000000000000a1''"

definition bob :: address where
  "bob = ''0x00000000000000000000000000000000000000b2''"

definition carol :: address where
  "carol = ''0x00000000000000000000000000000000000000c3''"

definition exampleOrder :: "int \<Rightarrow> OrderType \<Rightarrow> OrderStatus \<Rightarrow> address \<Rightarrow> int \<Rightarrow> nat \<Rightarrow> Order" where
  "exampleOrder i t s a p nf =
     \<lparr>o_Id = i, o_DealID = Some 0, o_OrderType = t, o_OrderStatus = s, o_AuthorID = a,
      o_CounterpartyID = zeroAddress, o_Duration = 1000, o_Price = p, o_Netflags = nf,
      o_IdentityLevel = 1, o_Blacklist = [], o_Tag = [], o_FrozenSum = 0, o_Benchmarks = [40]\<rparr>"

definition exampleRow :: "Order \<Rightarrow> DWHOrder" where
  "exampleRow order =
     \<lparr>dwo_Order = order, dwo_CreatedTS = 1, dwo_CreatorIdentityLevel = 1, dwo_CreatorName = [],
      dwo_CreatorCountry = [], dwo_CreatorCertificates = []\<rparr>"

definition exampleDeal :: "DealStatus \<Rightarrow> int \<Rightarrow> Deal" where
  "exampleDeal s p =
     \<lparr>d_Id = 1, d_SupplierID = alice, d_ConsumerID = bob, d_MasterID = alice, d_AskID = 10, d_BidID = 11,
      d_Duration = 1000, d_Price = p, d_StartTime = 5, d_EndTime = 0, d_Status = s,
      d_BlockedBalance = 0, d_TotalPayout = 0, d_LastBillTS = 0, d_Benchmarks = [40]\<rparr>"

definition exampleDealRow :: DWHDeal where
  "exampleDealRow =
     \<lparr>dwd_Deal = exampleDeal DealStatus_DEAL_ACCEPTED 100, dwd_Netflags = 3, dwd_AskIdentityLevel = 1,
      dwd_BidIdentityLevel = 1, dwd_SupplierCertificates = [], dwd_ConsumerCertificates = [],
      dwd_ActiveChangeRequest = False\<rparr>"

definition exampleCondition :: DealCondition where
  "exampleCondition =
     \<lparr>dc_Id = 1, dc_SupplierID = alice, dc_ConsumerID = bob, dc_MasterID = alice, dc_Duration = 1000,
      dc_Price = 100, dc_StartTime = 5, dc_EndTime = 0, dc_TotalPayout = 0, dc_DealID = 1\<rparr>"

definition exampleChangeRequest :: "int \<Rightarrow> ChangeRequestStatus \<Rightarrow> DealChangeRequest" where
  "exampleChangeRequest i s =
     \<lparr>cr_Id = i, cr_CreatedTS = 0, cr_RequestType = OrderType_ASK, cr_Duration = 2000, cr_Price = 90,
      cr_Status = s, cr_DealID = 1\<rparr>"

definition storeOf :: "Tables \<Rightarrow> DWH" where
  "storeOf t = \<lparr>db = t, closed = False, numBenchmarks = 1, MaxBenchmark = 1000\<rparr>"

definition chainUnavailable :: Chain where
  "chainUnavailable =
     \<lparr>GetDealInfo = (\<lambda>i. Inl ''chain unavailable''),
      GetOrderInfo = (\<lambda>i. Inl ''chain unavailable''),
      GetDealChangeRequestInfo = (\<lambda>i. Inl ''chain unavailable''),
      GetValidator = (\<lambda>a. Inl ''chain unavailable''),
      GetCertificate = (\<lambda>i. Inl ''chain unavailable'')\<rparr>"

definition dealChain :: "DealStatus \<Rightarrow> int \<Rightarrow> Chain" where
  "dealChain s p = chainUnavailable\<lparr>GetDealInfo := (\<lambda>i. Inr (exampleDeal s p))\<rparr>"

definition changeRequestChain :: "ChangeRequestStatus \<Rightarrow> Chain" where
  "changeRequestChain s =
     chainUnavailable\<lparr>GetDealChangeRequestInfo := (\<lambda>i. Inr (exampleChangeRequest i s))\<rparr>"

definition orderChain :: "OrderStatus \<Rightarrow> Chain" where
  "orderChain s = chainUnavailable\<lparr>GetOrderInfo := (\<lambda>i. Inr (exampleOrder i OrderType_ASK s alice 90 7))\<rparr>"

text \<open>
  The spec's matching scenario: a BID of price 100, duration 1000, netflags 0b011, and
  ASKs around it.
\<close>

definition matchingStore :: DWH where
  "matchingStore = storeOf (emptyTables\<lparr>Orders :=
     [exampleRow (exampleOrder 11 OrderType_BID OrderStatus_ORDER_ACTIVE bob 100 3),
      exampleRow (exampleOrder 10 OrderType_ASK OrderStatus_ORDER_ACTIVE alice 90 7),
      exampleRow (exampleOrder 12 OrderType_ASK OrderStatus_ORDER_ACTIVE carol 80 3),
      exampleRow (exampleOrder 13 OrderType_ASK OrderStatus_ORDER_ACTIVE carol 120 3),
      exampleRow ((exampleOrder 14 OrderType_ASK OrderStatus_ORDER_INACTIVE alice 70 3)\<lparr>o_DealID := Some 2\<rparr>)]\<rparr>)"

definition defaultOrdersRequest :: OrdersRequest where
  "defaultOrdersRequest =
     \<lparr>or_DealID = None, or_Type = OrderType_ANY, or_AuthorID = None, or_CounterpartyID = None,
      or_Duration = None, or_Price = None, or_Netflags = None, or_CreatorIdentityLevel = 0,
      or_CreatedTS = None, or_Benchmarks = None, or_Sortings = [], or_Offset = 0, or_Limit = 0,
      or_WithCount = False\<rparr>"

text \<open>A deal with its two orders, a third order, and the deal's one DealCondition.\<close>

definition dealStore :: DWH where
  "dealStore = storeOf (emptyTables\<lparr>
       Deals := [exampleDealRow],
       Orders := [exampleRow (exampleOrder 10 OrderType_ASK OrderStatus_ORDER_INACTIVE alice 100 3),
                  exampleRow (exampleOrder 11 OrderType_BID OrderStatus_ORDER_INACTIVE bob 100 3),
                  exampleRow (exampleOrder 12 OrderType_ASK OrderStatus_ORDER_ACTIVE carol 80 3)],
       DealConditions := [exampleCondition],
       nextDealConditionId := 2\<rparr>)"

definition workerStore :: DWH where
  "workerStore =
     storeOf (emptyTables\<lparr>Workers := [\<lparr>wk_MasterID = alice, wk_SlaveID = bob, wk_Confirmed = False\<rparr>]\<rparr>)"

definition orderPlaced :: "int \<Rightarrow> Event" where
  "orderPlaced i = \<lparr>ev_Data = OrderPlacedData i, ev_BlockNumber = 1, ev_TS = 1\<rparr>"

definition workerAnnounced :: Event where
  "workerAnnounced = \<lparr>ev_Data = WorkerAnnouncedData alice bob, ev_BlockNumber = 1, ev_TS = 1\<rparr>"

definition orderUpdated :: "int \<Rightarrow> Event" where
  "orderUpdated i = \<lparr>ev_Data = OrderUpdatedData i, ev_BlockNumber = 2, ev_TS = 2\<rparr>"

definition dealUpdated :: "int \<Rightarrow> Event" where
  "dealUpdated i = \<lparr>ev_Data = DealUpdatedData i, ev_BlockNumber = 3, ev_TS = 3\<rparr>"

definition matchedOrderChain :: Chain where
  "matchedOrderChain =
     chainUnavailable\<lparr>GetOrderInfo :=
       (\<lambda>i. Inr ((exampleOrder i OrderType_ASK OrderStatus_ORDER_INACTIVE alice 90 7)\<lparr>o_DealID := Some 1\<rparr>))\<rparr>"

definition untypedOrderChain :: Chain where
  "untypedOrderChain =
     chainUnavailable\<lparr>GetOrderInfo :=
       (\<lambda>i. Inr (exampleOrder i OrderType_ANY OrderStatus_ORDER_ACTIVE alice 90 7))\<rparr>"

text \<open>
  Three orders of one author are placed ACTIVE; order 10 is matched into deal 1 and
  order 12 is cancelled; deal 1 is closed; a worker is announced in between.
\<close>

definition exampleRun :: "(Chain \<times> Event) list" where
  "exampleRun =
     [(orderChain OrderStatus_ORDER_ACTIVE, orderPlaced 10),
      (orderChain OrderStatus_ORDER_ACTIVE, orderPlaced 12),
      (orderChain OrderStatus_ORDER_ACTIVE, orderPlaced 13),
      (chainUnavailable, workerAnnounced),
      (matchedOrderChain, orderUpdated 10),
      (orderChain OrderStatus_ORDER_ACTIVE, orderUpdated 12),
      (dealChain DealStatus_DEAL_CLOSED 100, dealUpdated 1)]"

section \<open>Auxiliary facts: filters, evaluation, sorting\<close>

lemma newFilter_sel [simp]:
  "Field (newFilter c operator v b) = c"
  "CmpOperator (newFilter c operator v b) = operator"
  "Value (newFilter c operator v b) = v"
  "BoolOperator (newFilter c operator v b) = b"
  "OpenBracket (newFilter c operator v b) = False"
  "CloseBracket (newFilter c operator v b) = False"
  by (simp_all add: newFilter_def)

lemma newNetflagsFilter_sel [simp]:
  "Field (newNetflagsFilter operator n) = Column ''Netflags''"
  "CmpOperator (newNetflagsFilter operator n) = netflags operator"
  "Value (newNetflagsFilter operator n) = VUint n"
  "BoolOperator (newNetflagsFilter operator n) = ''AND''"
  "OpenBracket (newNetflagsFilter operator n) = False"
  "CloseBracket (newNetflagsFilter operator n) = False"
  by (simp_all add: newNetflagsFilter_def)

lemma set_insertRow: "set (insertRow le x xs) = insert x (set xs)"
  by (induction xs) auto

lemma set_sortRows: "set (sortRows le xs) = set xs"
  by (induction xs) (auto simp: sortRows_def set_insertRow)

lemma plainAnd_newFilter [simp]: "plainAnd (newFilter c operator v ''AND'')"
  by (simp add: plainAnd_def)

lemma plainAnd_newNetflagsFilter [simp]: "plainAnd (newNetflagsFilter operator n)"
  by (simp add: plainAnd_def)

lemma evalStep_plain:
  "plainAnd f \<Longrightarrow> evalStep p (stk, orAcc, andAcc, ''AND'') f = (stk, orAcc, andAcc \<and> p f, ''AND'')"
  by (simp add: plainAnd_def)

lemma foldl_evalStep_plain:
  "list_all plainAnd fs \<Longrightarrow>
     foldl (evalStep p) (stk, orAcc, andAcc, ''AND'') fs = (stk, orAcc, andAcc \<and> list_all p fs, ''AND'')"
proof (induction fs arbitrary: andAcc)
  case Nil
  then show ?case by simp
next
  case (Cons f fs)
  then show ?case by (simp add: evalStep_plain del: evalStep.simps) 
qed

lemma evalFilters_plain: "list_all plainAnd fs \<Longrightarrow> evalFilters p fs = list_all p fs"
  by (simp add: evalFilters_def foldl_evalStep_plain)

lemma balanced_plain: "list_all plainAnd fs \<Longrightarrow> balanced d fs = (d = 0)"
  by (induction fs arbitrary: d) (auto simp: plainAnd_def)

lemma addBenchmarksConditions_concat:
  "addBenchmarksConditions benches fs
     = fs @ concat (map (\<lambda>(benchID, condition).
              (if mm_Max condition > 0
               then [newFilter (getBenchmarkColumn benchID) lte (VUint (mm_Max condition)) ''AND''] else [])
              @ (if mm_Min condition > 0
                 then [newFilter (getBenchmarkColumn benchID) gte (VUint (mm_Max condition)) ''AND''] else []))
            benches)"
proof (induction benches arbitrary: fs)
  case Nil
  then show ?case by simp
next
  case (Cons b benches)
  obtain benchID condition where b: "b = (benchID, condition)" by (cases b)
  show ?case
    unfolding b by (simp add: Let_def Cons.IH)
qed

lemma addBenchmarksConditions_plain:
  "list_all plainAnd (concat (map (\<lambda>(benchID, condition).
              (if mm_Max condition > 0
               then [newFilter (getBenchmarkColumn benchID) lte (VUint (mm_Max condition)) ''AND''] else [])
              @ (if mm_Min condition > 0
                 then [newFilter (getBenchmarkColumn benchID) gte (VUint (mm_Max condition)) ''AND''] else []))
            benches))"
  by (induction benches) auto

lemma list_all_case_option:
  "list_all P (case x of None \<Rightarrow> a | Some y \<Rightarrow> f y) = (case x of None \<Rightarrow> list_all P a | Some y \<Rightarrow> list_all P (f y))"
  by (cases x) simp_all

lemma list_all_if: "list_all P (if c then a else b) = (if c then list_all P a else list_all P b)"
  by simp

lemma case_option_True: "(case x of None \<Rightarrow> True | Some y \<Rightarrow> True) = True"
  by (cases x) simp_all

lemma case_option_if_True: "(case x of None \<Rightarrow> True | Some y \<Rightarrow> if c y then True else True) = True"
  by (cases x) simp_all

lemma getOrders_filters_shape:
  "\<exists>rest. getOrders_filters request
      = newFilter (Column ''Status'') eq_op (VUint (OrderStatus_code OrderStatus_ORDER_ACTIVE)) ''AND'' # rest
      \<and> list_all plainAnd rest"
proof (cases "or_Benchmarks request")
  case None
  show ?thesis
    unfolding getOrders_filters_def Let_def None option.case append_Cons append_Nil
    apply (rule exI, rule conjI, rule refl)
    apply (simp only: list_all_append list_all_case_option list_all_if list.pred_inject plainAnd_newFilter
        plainAnd_newNetflagsFilter simp_thms if_cancel case_option_True case_option_if_True)
    done
next
  case (Some benches)
  show ?thesis
    unfolding getOrders_filters_def Let_def Some option.case addBenchmarksConditions_concat append_Cons append_Nil
    apply (rule exI, rule conjI, rule refl)
    apply (simp only: list_all_append list_all_case_option list_all_if list.pred_inject plainAnd_newFilter
        plainAnd_newNetflagsFilter simp_thms if_cancel case_option_True case_option_if_True
        addBenchmarksConditions_plain)
    done
qed

lemma runQuery_rows:
  assumes "runQuery sch rows opts = Inr (res, n)"
  shows "set res \<subseteq> {r \<in> set rows. evalFilters (evalFilter sch r) (filters opts)}"
proof -
  let ?m = "filter (\<lambda>row. evalFilters (evalFilter sch row) (filters opts)) rows"
  let ?s = "if sortings opts = [] then ?m else sortRows (rowLe sch (sortings opts)) ?m"
  have res: "res = (if limit opts = 0 then drop (offset opts) ?s else take (limit opts) (drop (offset opts) ?s))"
    using assms by (simp add: runQuery_def Let_def split: if_splits)
  have "set res \<subseteq> set ?s"
    unfolding res using set_drop_subset[of "offset opts" ?s] set_take_subset[of "limit opts" "drop (offset opts) ?s"]
    by (auto split: if_splits)
  moreover have "set ?s = set ?m" by (simp add: set_sortRows)
  ultimately show ?thesis by auto
qed

lemma OrderStatus_code_ACTIVE: "OrderStatus_code s = OrderStatus_code OrderStatus_ORDER_ACTIVE \<Longrightarrow> s = OrderStatus_ORDER_ACTIVE"
  by (cases s) simp_all

lemma sorted_insertRow:
  assumes tot: "\<And>a b. le a b \<or> le b a" and tr: "\<And>a b c. le a b \<Longrightarrow> le b c \<Longrightarrow> le a c"
  shows "sorted_wrt le xs \<Longrightarrow> sorted_wrt le (insertRow le x xs)"
proof (induction xs)
  case Nil
  then show ?case by simp
next
  case (Cons y ys)
  show ?case
  proof (cases "le x y")
    case True
    then show ?thesis using Cons.prems tr by auto
  next
    case False
    then have "le y x" using tot by blast
    then show ?thesis using Cons False by (auto simp: set_insertRow)
  qed
qed

lemma sorted_sortRows:
  assumes tot: "\<And>a b. le a b \<or> le b a" and tr: "\<And>a b c. le a b \<Longrightarrow> le b c \<Longrightarrow> le a c"
  shows "sorted_wrt le (sortRows le xs)"
proof (induction xs)
  case Nil
  then show ?case by (simp add: sortRows_def)
next
  case (Cons x xs)
  have "sortRows le (x # xs) = insertRow le x (sortRows le xs)" by (simp add: sortRows_def)
  then show ?case using sorted_insertRow[of le, OF tot tr] Cons by simp
qed

lemma sorted_wrt_drop: "sorted_wrt P xs \<Longrightarrow> sorted_wrt P (drop n xs)"
  by (induction xs arbitrary: n) (auto simp: drop_Cons split: nat.splits dest: in_set_dropD)

lemma sorted_wrt_take: "sorted_wrt P xs \<Longrightarrow> sorted_wrt P (take n xs)"
  by (induction xs arbitrary: n) (auto simp: take_Cons split: nat.splits dest: in_set_takeD)

lemma runQuery_sorted:
  assumes run: "runQuery sch rows opts = Inr (res, n)"
      and ne: "sortings opts \<noteq> []"
      and tot: "\<And>a b. rowLe sch (sortings opts) a b \<or> rowLe sch (sortings opts) b a"
      and tr: "\<And>a b c. rowLe sch (sortings opts) a b \<Longrightarrow> rowLe sch (sortings opts) b c \<Longrightarrow> rowLe sch (sortings opts) a c"
  shows "sorted_wrt (rowLe sch (sortings opts)) res"
proof -
  let ?m = "filter (\<lambda>row. evalFilters (evalFilter sch row) (filters opts)) rows"
  let ?s = "sortRows (rowLe sch (sortings opts)) ?m"
  have res: "res = (if limit opts = 0 then drop (offset opts) ?s else take (limit opts) (drop (offset opts) ?s))"
    using run ne by (simp add: runQuery_def Let_def split: if_splits)
  have "sorted_wrt (rowLe sch (sortings opts)) ?s"
    by (rule sorted_sortRows[of "rowLe sch (sortings opts)", OF tot tr])
  then show ?thesis unfolding res by (simp add: sorted_wrt_drop sorted_wrt_take)
qed

lemma rowLe_Price:
  "rowLe (ordersSchema n) [\<lparr>so_Field = Column ''Price'', so_Order = ord\<rparr>] a b
     = (case ord of SortingOrder_Asc \<Rightarrow> o_Price (dwo_Order a) \<le> o_Price (dwo_Order b)
                  | SortingOrder_Desc \<Rightarrow> o_Price (dwo_Order b) \<le> o_Price (dwo_Order a))"
  by (cases ord) (auto simp: ordersSchema_def Let_def)

text \<open>The value of the filter expression \<open>getMatchingOrders\<close> issues, predicate by predicate.\<close>

lemma evalFilters_matching:
  "evalFilters p (getMatchingOrders_filters order) =
     (let bid = (o_OrderType (dwo_Order order) = OrderType_BID) in
      p (newFilter (Column ''Type'') eq_op (VUint (OrderType_code (if bid then OrderType_ASK else OrderType_BID))) ''AND'')
    \<and> p (newFilter (Column ''Status'') eq_op (VUint (OrderStatus_code OrderStatus_ORDER_ACTIVE)) ''AND'')
    \<and> p (newFilter (Column ''Price'') (if bid then lte else gte) (VPadded (o_Price (dwo_Order order))) ''AND'')
    \<and> p (newFilter (Column ''Duration'')
            (if o_Duration (dwo_Order order) > 0 then (if bid then gte else lte) else eq_op)
            (VUint (o_Duration (dwo_Order order))) ''AND'')
    \<and> (addrIsZero (o_CounterpartyID (dwo_Order order))
         \<or> p (newFilter (Column ''AuthorID'') eq_op (VText (o_CounterpartyID (dwo_Order order))) ''AND''))
    \<and> (p ((newFilter (Column ''CounterpartyID'') eq_op (VText zeroAddress) ''OR'')\<lparr>OpenBracket := True\<rparr>)
         \<or> p ((newFilter (Column ''CounterpartyID'') eq_op (VText (o_AuthorID (dwo_Order order))) ''AND'')
                 \<lparr>CloseBracket := True\<rparr>))
    \<and> p (newNetflagsFilter (if bid then CmpOp_GTE else CmpOp_LTE) (o_Netflags (dwo_Order order)))
    \<and> p (newFilter (Column ''IdentityLevel'') gte (VUint (o_IdentityLevel (dwo_Order order))) ''AND'')
    \<and> p (newFilter (Column ''CreatorIdentityLevel'') lte (VUint (dwo_CreatorIdentityLevel order)) ''AND'')
    \<and> list_all p (map (\<lambda>(benchID, benchValue).
                   newFilter (getBenchmarkColumn benchID) (if bid then gte else lte) (VUint benchValue) ''AND'')
                 (enumerate 0 (o_Benchmarks (dwo_Order order)))))"
proof -
  have pl: "\<And>operator xs. list_all plainAnd (map (\<lambda>(benchID, benchValue).
                   newFilter (getBenchmarkColumn benchID) operator (VUint benchValue) ''AND'') xs)"
    by (simp add: list_all_iff split_def)
  show ?thesis
    unfolding getMatchingOrders_filters_def evalFilters_def
    by (cases "o_OrderType (dwo_Order order) = OrderType_BID";
        cases "o_Duration (dwo_Order order) > 0";
        cases "addrIsZero (o_CounterpartyID (dwo_Order order))")
       (simp_all add: foldl_evalStep_plain[OF pl] Let_def)
qed

lemma OrderType_code_inv:
  "(OrderType_code t = 2) = (t = OrderType_ASK)"
  "(OrderType_code t = Suc 0) = (t = OrderType_BID)"
  by (cases t; simp)+

lemma OrderStatus_code_inv:
  "(OrderStatus_code s = 2) = (s = OrderStatus_ORDER_ACTIVE)"
  by (cases s) simp_all

section \<open>Properties of the query layer\<close>

text \<open>
  Claim C2. For every benchmark condition entry, the query layer is to add an LTE
  predicate with value \<open>condition.Max\<close> when \<open>condition.Max > 0\<close> and a GTE predicate with
  value \<open>condition.Min\<close> when \<open>condition.Min > 0\<close>. The code binds \<open>condition.Max\<close> to the GTE
  predicate as well: for the entry \<open>0 \<mapsto> {Max = 10, Min = 5}\<close> the lower bound issued
  is 10, not 5.
\<close>

theorem addBenchmarksConditions_gte_binds_Max:
  "addBenchmarksConditions [(0, \<lparr>mm_Max = 10, mm_Min = 5\<rparr>)] []
     = [\<lparr>Field = BenchmarkColumn 0, CmpOperator = lte, Value = VUint 10, BoolOperator = ''AND'',
         OpenBracket = False, CloseBracket = False\<rparr>,
        \<lparr>Field = BenchmarkColumn 0, CmpOperator = gte, Value = VUint 10, BoolOperator = ''AND'',
         OpenBracket = False, CloseBracket = False\<rparr>]"
  by (simp add: getBenchmarkColumn_def newFilter_def)

text \<open>
  Claim C3. A GetWorkers request with a non-zero MasterID is to filter the Workers table
  on the MasterID column. The code names the column \<open>Level\<close> (and binds the address
  object, not its hex text): the one filter issued is on \<open>Level\<close>, a column the Workers
  table does not have, so on a store that holds a worker of that master the request
  fails instead of returning it.
\<close>

theorem getWorkers_filters_on_Level:
  "getWorkers_filters
      \<lparr>wr_MasterID = Some ''0x0000000000000000000000000000000000000001'',
       wr_Offset = 0, wr_Limit = 0, wr_WithCount = False\<rparr>
     = [\<lparr>Field = Column ''Level'', CmpOperator = eq_op,
         Value = VAddrObj ''0x0000000000000000000000000000000000000001'',
         BoolOperator = ''AND'', OpenBracket = False, CloseBracket = False\<rparr>]
   \<and> getWorkers
      \<lparr>db = emptyTables\<lparr>Workers :=
              [\<lparr>wk_MasterID = ''0x0000000000000000000000000000000000000001'',
                wk_SlaveID = ''0x0000000000000000000000000000000000000002'',
                wk_Confirmed = True\<rparr>]\<rparr>,
       closed = False, numBenchmarks = 0, MaxBenchmark = 100\<rparr>
      \<lparr>wr_MasterID = Some ''0x0000000000000000000000000000000000000001'',
       wr_Offset = 0, wr_Limit = 0, wr_WithCount = False\<rparr>
     = Inl (statusInternal ''failed to GetWorkers'')"
  by (simp add: getWorkers_def getWorkers_filters_def newFilter_def addrIsZero_def zeroAddress_def
      dbRunQuery_def runQuery_def workersSchema_def emptyTables_def)

text \<open>
  Claim C10. For every GetOrders request that is answered, the filter list starts with
  the equality \<open>Status = ACTIVE\<close>, ahead of every filter derived from the request, and
  every order of the reply has status ACTIVE: whatever the request's fields, an
  INACTIVE order is never returned.
\<close>

theorem getOrders_only_active:
  assumes "getOrders w request = Inr reply"
  shows "(\<exists>rest. getOrders_filters request
             = newFilter (Column ''Status'') eq_op (VUint (OrderStatus_code OrderStatus_ORDER_ACTIVE)) ''AND'' # rest)
       \<and> (\<forall>r\<in>set (rep_Orders reply). o_OrderStatus (dwo_Order r) = OrderStatus_ORDER_ACTIVE)"
proof -
  obtain rest where sh: "getOrders_filters request
      = newFilter (Column ''Status'') eq_op (VUint (OrderStatus_code OrderStatus_ORDER_ACTIVE)) ''AND'' # rest"
      and pl: "list_all plainAnd rest"
    using getOrders_filters_shape by blast
  let ?opts = "\<lparr>table = ''Orders'', filters = getOrders_filters request,
              sortings = filterSortings (or_Sortings request) (OrderColumnsSet (numBenchmarks w)),
              offset = or_Offset request, limit = or_Limit request, withCount = or_WithCount request\<rparr>"
  obtain n where run: "runQuery (ordersSchema (numBenchmarks w)) (Orders (db w)) ?opts = Inr (rep_Orders reply, n)"
    using assms by (auto simp add: getOrders_def dbRunQuery_def split: if_splits sum.splits)
  have "\<forall>r\<in>set (rep_Orders reply). o_OrderStatus (dwo_Order r) = OrderStatus_ORDER_ACTIVE"
  proof
    fix r assume "r \<in> set (rep_Orders reply)"
    then have "evalFilters (evalFilter (ordersSchema (numBenchmarks w)) r) (getOrders_filters request)"
      using runQuery_rows[OF run] by auto
    then have "list_all (evalFilter (ordersSchema (numBenchmarks w)) r) (getOrders_filters request)"
      using evalFilters_plain[of "getOrders_filters request"] pl sh by simp
    then have "evalFilter (ordersSchema (numBenchmarks w)) r
                 (newFilter (Column ''Status'') eq_op (VUint (OrderStatus_code OrderStatus_ORDER_ACTIVE)) ''AND'')"
      unfolding sh by simp
    then show "o_OrderStatus (dwo_Order r) = OrderStatus_ORDER_ACTIVE"
      by (simp add: evalFilter_def ordersSchema_def OrderStatus_code_ACTIVE)
  qed
  then show ?thesis using sh by blast
qed

text \<open>
  The request with no field set on the matching scenario's store: the four ACTIVE orders
  come back, the INACTIVE fifth does not.
\<close>

theorem getOrders_only_active_witness:
  "getOrders matchingStore defaultOrdersRequest
     = Inr \<lparr>rep_Orders = [exampleRow (exampleOrder 11 OrderType_BID OrderStatus_ORDER_ACTIVE bob 100 3),
                          exampleRow (exampleOrder 10 OrderType_ASK OrderStatus_ORDER_ACTIVE alice 90 7),
                          exampleRow (exampleOrder 12 OrderType_ASK OrderStatus_ORDER_ACTIVE carol 80 3),
                          exampleRow (exampleOrder 13 OrderType_ASK OrderStatus_ORDER_ACTIVE carol 120 3)],
            rep_Count = 0\<rparr>
   \<and> length (Orders (db matchingStore)) = 5
   \<and> list_all (\<lambda>r. o_OrderStatus (dwo_Order r) = OrderStatus_ORDER_ACTIVE)
        [exampleRow (exampleOrder 11 OrderType_BID OrderStatus_ORDER_ACTIVE bob 100 3),
         exampleRow (exampleOrder 10 OrderType_ASK OrderStatus_ORDER_ACTIVE alice 90 7),
         exampleRow (exampleOrder 12 OrderType_ASK OrderStatus_ORDER_ACTIVE carol 80 3),
         exampleRow (exampleOrder 13 OrderType_ASK OrderStatus_ORDER_ACTIVE carol 120 3)]"
proof -
  have h1: "getOrders matchingStore defaultOrdersRequest
     = Inr \<lparr>rep_Orders = [exampleRow (exampleOrder 11 OrderType_BID OrderStatus_ORDER_ACTIVE bob 100 3),
                          exampleRow (exampleOrder 10 OrderType_ASK OrderStatus_ORDER_ACTIVE alice 90 7),
                          exampleRow (exampleOrder 12 OrderType_ASK OrderStatus_ORDER_ACTIVE carol 80 3),
                          exampleRow (exampleOrder 13 OrderType_ASK OrderStatus_ORDER_ACTIVE carol 120 3)],
            rep_Count = 0\<rparr>"
    by code_simp
  have h2: "length (Orders (db matchingStore)) = 5" by code_simp
  show ?thesis
    using getOrders_only_active[OF h1] h1 h2 by (simp add: list_all_iff)
qed

text \<open>
  Claim C9. For every order O that \<open>GetMatchingOrders\<close> finds and answers for, every
  returned order is ACTIVE and of the opposite type (ASK for a BID; BID otherwise), its
  price is at most O's when O is a BID and at least O's otherwise, its duration is at
  least O's for a BID and at most O's otherwise (equal to O's when O's duration is 0),
  its netflags contain O's for a BID and are contained in O's otherwise, its author is
  O's counterparty when that is set, its counterparty is the zero address or O's author;
  and the reply is ordered by price, ascending when O is a BID and descending otherwise.
\<close>

theorem getMatchingOrders_sound:
  assumes reply: "getMatchingOrders w request = Inr reply"
      and order: "getOrderDetails w (mo_Id request) = Inr order"
  shows "(\<forall>c\<in>set (rep_Orders reply).
            o_OrderStatus (dwo_Order c) = OrderStatus_ORDER_ACTIVE
          \<and> (if o_OrderType (dwo_Order order) = OrderType_BID
             then o_OrderType (dwo_Order c) = OrderType_ASK
                \<and> o_Price (dwo_Order c) \<le> o_Price (dwo_Order order)
                \<and> (if o_Duration (dwo_Order order) > 0
                   then o_Duration (dwo_Order order) \<le> o_Duration (dwo_Order c)
                   else o_Duration (dwo_Order c) = 0)
                \<and> o_Netflags (dwo_Order c) AND o_Netflags (dwo_Order order) = o_Netflags (dwo_Order order)
             else o_OrderType (dwo_Order c) = OrderType_BID
                \<and> o_Price (dwo_Order order) \<le> o_Price (dwo_Order c)
                \<and> (if o_Duration (dwo_Order order) > 0
                   then o_Duration (dwo_Order c) \<le> o_Duration (dwo_Order order)
                   else o_Duration (dwo_Order c) = 0)
                \<and> o_Netflags (dwo_Order c) AND o_Netflags (dwo_Order order) = o_Netflags (dwo_Order c))
          \<and> (\<not> addrIsZero (o_CounterpartyID (dwo_Order order)) \<longrightarrow>
                o_AuthorID (dwo_Order c) = o_CounterpartyID (dwo_Order order))
          \<and> (o_CounterpartyID (dwo_Order c) = zeroAddress
              \<or> o_CounterpartyID (dwo_Order c) = o_AuthorID (dwo_Order order)))
       \<and> sorted_wrt (\<lambda>a b. if o_OrderType (dwo_Order order) = OrderType_BID
                             then o_Price (dwo_Order a) \<le> o_Price (dwo_Order b)
                             else o_Price (dwo_Order b) \<le> o_Price (dwo_Order a))
           (rep_Orders reply)"
proof -
  let ?sch = "ordersSchema (numBenchmarks w)"
  let ?opts = "\<lparr>table = ''Orders'', filters = getMatchingOrders_filters order,
                 sortings = [\<lparr>so_Field = Column ''Price'', so_Order = getMatchingOrders_sortingOrder order\<rparr>],
                 offset = mo_Offset request, limit = mo_Limit request, withCount = mo_WithCount request\<rparr>"
  obtain n where run: "runQuery ?sch (Orders (db w)) ?opts = Inr (rep_Orders reply, n)"
    using reply order by (auto simp add: getMatchingOrders_def dbRunQuery_def split: if_splits sum.splits)
  have member: "\<And>c. c \<in> set (rep_Orders reply) \<Longrightarrow> evalFilters (evalFilter ?sch c) (getMatchingOrders_filters order)"
    using runQuery_rows[OF run] by auto
  have rows: "\<forall>c\<in>set (rep_Orders reply).
            o_OrderStatus (dwo_Order c) = OrderStatus_ORDER_ACTIVE
          \<and> (if o_OrderType (dwo_Order order) = OrderType_BID
             then o_OrderType (dwo_Order c) = OrderType_ASK
                \<and> o_Price (dwo_Order c) \<le> o_Price (dwo_Order order)
                \<and> (if o_Duration (dwo_Order order) > 0
                   then o_Duration (dwo_Order order) \<le> o_Duration (dwo_Order c)
                   else o_Duration (dwo_Order c) = 0)
                \<and> o_Netflags (dwo_Order c) AND o_Netflags (dwo_Order order) = o_Netflags (dwo_Order order)
             else o_OrderType (dwo_Order c) = OrderType_BID
                \<and> o_Price (dwo_Order order) \<le> o_Price (dwo_Order c)
                \<and> (if o_Duration (dwo_Order order) > 0
                   then o_Duration (dwo_Order c) \<le> o_Duration (dwo_Order order)
                   else o_Duration (dwo_Order c) = 0)
                \<and> o_Netflags (dwo_Order c) AND o_Netflags (dwo_Order order) = o_Netflags (dwo_Order c))
          \<and> (\<not> addrIsZero (o_CounterpartyID (dwo_Order order)) \<longrightarrow>
                o_AuthorID (dwo_Order c) = o_CounterpartyID (dwo_Order order))
          \<and> (o_CounterpartyID (dwo_Order c) = zeroAddress
              \<or> o_CounterpartyID (dwo_Order c) = o_AuthorID (dwo_Order order))"
  proof
    fix c assume "c \<in> set (rep_Orders reply)"
    from member[OF this] show "o_OrderStatus (dwo_Order c) = OrderStatus_ORDER_ACTIVE
          \<and> (if o_OrderType (dwo_Order order) = OrderType_BID
             then o_OrderType (dwo_Order c) = OrderType_ASK
                \<and> o_Price (dwo_Order c) \<le> o_Price (dwo_Order order)
                \<and> (if o_Duration (dwo_Order order) > 0
                   then o_Duration (dwo_Order order) \<le> o_Duration (dwo_Order c)
                   else o_Duration (dwo_Order c) = 0)
                \<and> o_Netflags (dwo_Order c) AND o_Netflags (dwo_Order order) = o_Netflags (dwo_Order order)
             else o_OrderType (dwo_Order c) = OrderType_BID
                \<and> o_Price (dwo_Order order) \<le> o_Price (dwo_Order c)
                \<and> (if o_Duration (dwo_Order order) > 0
                   then o_Duration (dwo_Order c) \<le> o_Duration (dwo_Order order)
                   else o_Duration (dwo_Order c) = 0)
                \<and> o_Netflags (dwo_Order c) AND o_Netflags (dwo_Order order) = o_Netflags (dwo_Order c))
          \<and> (\<not> addrIsZero (o_CounterpartyID (dwo_Order order)) \<longrightarrow>
                o_AuthorID (dwo_Order c) = o_CounterpartyID (dwo_Order order))
          \<and> (o_CounterpartyID (dwo_Order c) = zeroAddress
              \<or> o_CounterpartyID (dwo_Order c) = o_AuthorID (dwo_Order order))"
      unfolding evalFilters_matching Let_def
      by (cases "o_OrderType (dwo_Order order) = OrderType_BID"; cases "o_Duration (dwo_Order order) > 0")
         (auto simp add: evalFilter_def ordersSchema_def OrderType_code_inv OrderStatus_code_inv)
  qed
  have le: "rowLe ?sch (sortings ?opts) = (\<lambda>a b. if o_OrderType (dwo_Order order) = OrderType_BID
                             then o_Price (dwo_Order a) \<le> o_Price (dwo_Order b)
                             else o_Price (dwo_Order b) \<le> o_Price (dwo_Order a))"
    by (intro ext) (simp add: rowLe_Price getMatchingOrders_sortingOrder_def del: rowLe.simps)
  have srt: "sorted_wrt (rowLe ?sch (sortings ?opts)) (rep_Orders reply)"
  proof (rule runQuery_sorted[OF run])
    show "sortings ?opts \<noteq> []" by simp
  next
    fix a b show "rowLe ?sch (sortings ?opts) a b \<or> rowLe ?sch (sortings ?opts) b a"
      unfolding le by auto
  next
    fix a b c
    assume "rowLe ?sch (sortings ?opts) a b" "rowLe ?sch (sortings ?opts) b c"
    then show "rowLe ?sch (sortings ?opts) a c"
      unfolding le by (auto split: if_splits)
  qed
  show ?thesis using rows srt unfolding le by simp
qed

text \<open>
  The spec's scenario: for the BID of price 100, duration 1000, netflags 0b011, the ASKs
  of price 80 and 90 are returned in that order; the ASK of price 120 and the INACTIVE
  one are not.
\<close>

theorem getMatchingOrders_sound_witness:
  "getMatchingOrders matchingStore \<lparr>mo_Id = 11, mo_Offset = 0, mo_Limit = 0, mo_WithCount = True\<rparr>
     = Inr \<lparr>rep_Orders = [exampleRow (exampleOrder 12 OrderType_ASK OrderStatus_ORDER_ACTIVE carol 80 3),
                          exampleRow (exampleOrder 10 OrderType_ASK OrderStatus_ORDER_ACTIVE alice 90 7)],
            rep_Count = 2\<rparr>
   \<and> list_all (\<lambda>c. o_OrderStatus (dwo_Order c) = OrderStatus_ORDER_ACTIVE
                   \<and> o_OrderType (dwo_Order c) = OrderType_ASK
                   \<and> o_Price (dwo_Order c) \<le> 100 \<and> 1000 \<le> o_Duration (dwo_Order c)
                   \<and> o_Netflags (dwo_Order c) AND 3 = 3
                   \<and> o_CounterpartyID (dwo_Order c) = zeroAddress)
        [exampleRow (exampleOrder 12 OrderType_ASK OrderStatus_ORDER_ACTIVE carol 80 3),
         exampleRow (exampleOrder 10 OrderType_ASK OrderStatus_ORDER_ACTIVE alice 90 7)]
   \<and> sorted_wrt (\<lambda>a b. o_Price (dwo_Order a) \<le> o_Price (dwo_Order b))
        [exampleRow (exampleOrder 12 OrderType_ASK OrderStatus_ORDER_ACTIVE carol 80 3),
         exampleRow (exampleOrder 10 OrderType_ASK OrderStatus_ORDER_ACTIVE alice 90 7)]"
proof -
  have h1: "getMatchingOrders matchingStore \<lparr>mo_Id = 11, mo_Offset = 0, mo_Limit = 0, mo_WithCount = True\<rparr>
     = Inr \<lparr>rep_Orders = [exampleRow (exampleOrder 12 OrderType_ASK OrderStatus_ORDER_ACTIVE carol 80 3),
                          exampleRow (exampleOrder 10 OrderType_ASK OrderStatus_ORDER_ACTIVE alice 90 7)],
            rep_Count = 2\<rparr>"
    by code_simp
  have h2: "getOrderDetails matchingStore (mo_Id \<lparr>mo_Id = 11, mo_Offset = 0, mo_Limit = 0, mo_WithCount = True\<rparr>)
     = Inr (exampleRow (exampleOrder 11 OrderType_BID OrderStatus_ORDER_ACTIVE bob 100 3))"
    by code_simp
  show ?thesis
    using getMatchingOrders_sound[OF h1 h2] h1
    by (simp add: exampleRow_def exampleOrder_def)
qed

section \<open>Properties of the dispatcher and the worker\<close>

text \<open>
  Claim C8. For every event variant \<open>processEvent\<close> is to return the error of the
  variant's handler to the worker. The case of \<open>RemovedFromBlacklistData\<close> calls the
  handler without \<open>return\<close>: on a closed connection \<open>onRemovedFromBlacklist\<close> fails, and
  \<open>processEvent\<close> returns \<open>nil\<close> all the same.
\<close>

theorem processEvent_drops_onRemovedFromBlacklist_error:
  "onRemovedFromBlacklist removerID removeeID (w\<lparr>closed := True\<rparr>)
     = (Some ''onRemovedFromBlacklist failed: sql: database is closed'', w\<lparr>closed := True\<rparr>)
   \<and> processEvent chain
        \<lparr>ev_Data = RemovedFromBlacklistData removerID removeeID, ev_BlockNumber = b, ev_TS = ts\<rparr>
        (w\<lparr>closed := True\<rparr>)
     = Inr (None, w\<lparr>closed := True\<rparr>)
   \<and> processEvent chain
        \<lparr>ev_Data = AddedToBlacklistData removerID removeeID, ev_BlockNumber = b, ev_TS = ts\<rparr>
        (w\<lparr>closed := True\<rparr>)
     = Inr (Some ''onAddedToBlacklist failed: sql: database is closed'', w\<lparr>closed := True\<rparr>)"
  by (simp add: onRemovedFromBlacklist_def onAddedToBlacklist_def dbExec_def errors_Wrap_def errDBClosed_def)

text \<open>
  Claim C7, amended. Let the first call of \<open>processEvent\<close> for an event return an error.
  If the message contains "constraint", the worker drops the event: one call, no retry.
  Otherwise the worker logs and waits on the retry timer; if the context is cancelled
  before the timer fires, the event is dropped with no second call; else, after the
  3 seconds, \<open>processEvent\<close> is called exactly once more, and a failure of that call is
  logged and the event dropped.
\<close>

theorem runEventWorker_event_retry_policy:
  assumes "updateLastKnownBlockTS (int (ev_BlockNumber event)) w = (e0, w0)"
      and "processEvent chain event w0 = Inr (Some err, w1)"
  shows "(Contains err ''constraint'' \<longrightarrow>
            runEventWorker_event chain event cancelled w
              = Inr (w1, (case e0 of Some e \<Rightarrow> [WarnUpdateLastKnownBlock e] | None \<Rightarrow> []) @ [ProcessEvent]))
       \<and> (\<not> Contains err ''constraint'' \<and> cancelled \<longrightarrow>
            runEventWorker_event chain event cancelled w
              = Inr (w1, (case e0 of Some e \<Rightarrow> [WarnUpdateLastKnownBlock e] | None \<Rightarrow> [])
                         @ [ProcessEvent, WarnRetrying err, InfoCancelledWhileRetrying, DebugProcessed]))
       \<and> (\<not> Contains err ''constraint'' \<and> \<not> cancelled \<longrightarrow>
            (\<forall>err2 w2. processEvent chain event w1 = Inr (Some err2, w2) \<longrightarrow>
               runEventWorker_event chain event cancelled w
                 = Inr (w2, (case e0 of Some e \<Rightarrow> [WarnUpdateLastKnownBlock e] | None \<Rightarrow> [])
                            @ [ProcessEvent, WarnRetrying err, TimerFired 3, ProcessEvent,
                               WarnRetryFailed err2, DebugProcessed]))
          \<and> (\<forall>w2. processEvent chain event w1 = Inr (None, w2) \<longrightarrow>
               runEventWorker_event chain event cancelled w
                 = Inr (w2, (case e0 of Some e \<Rightarrow> [WarnUpdateLastKnownBlock e] | None \<Rightarrow> [])
                            @ [ProcessEvent, WarnRetrying err, TimerFired 3, ProcessEvent, DebugProcessed])))"
  using assms
  by (cases e0) (simp_all add: runEventWorker_event_def retryEvent_def eventRetryTime_def del: processEvent.simps)

text \<open>
  A duplicate WorkerAnnounced (a constraint violation) is dropped at once; an
  OrderPlaced whose chain fetch fails is retried once after the timer and then dropped.
\<close>

theorem runEventWorker_event_retry_policy_witness:
  "runEventWorker_event chainUnavailable workerAnnounced False workerStore
     = Inr (workerStore,
            [ProcessEvent])
   \<and> Contains ''onWorkerAnnounced failed: UNIQUE constraint failed: Workers.MasterID, Workers.WorkerID'' ''constraint''
   \<and> runEventWorker_event chainUnavailable (orderPlaced 10) False (storeOf emptyTables)
     = Inr (storeOf emptyTables,
            [ProcessEvent, WarnRetrying ''failed to GetOrderInfo: chain unavailable'', TimerFired 3,
             ProcessEvent, WarnRetryFailed ''failed to GetOrderInfo: chain unavailable'', DebugProcessed])"
proof -
  have c1: "updateLastKnownBlockTS (int (ev_BlockNumber workerAnnounced)) workerStore = (None, workerStore)"
    by code_simp
  have p1: "processEvent chainUnavailable workerAnnounced workerStore
      = Inr (Some ''onWorkerAnnounced failed: UNIQUE constraint failed: Workers.MasterID, Workers.WorkerID'', workerStore)"
    by code_simp
  have k1: "Contains ''onWorkerAnnounced failed: UNIQUE constraint failed: Workers.MasterID, Workers.WorkerID'' ''constraint''"
    by code_simp
  have c2: "updateLastKnownBlockTS (int (ev_BlockNumber (orderPlaced 10))) (storeOf emptyTables) = (None, storeOf emptyTables)"
    by code_simp
  have p2: "processEvent chainUnavailable (orderPlaced 10) (storeOf emptyTables)
      = Inr (Some ''failed to GetOrderInfo: chain unavailable'', storeOf emptyTables)"
    by code_simp
  have k2: "\<not> Contains ''failed to GetOrderInfo: chain unavailable'' ''constraint''"
    by code_simp
  from runEventWorker_event_retry_policy[OF c1 p1, of False] k1
  have r1: "runEventWorker_event chainUnavailable workerAnnounced False workerStore = Inr (workerStore, [ProcessEvent])"
    by simp
  from runEventWorker_event_retry_policy[OF c2 p2, of False] k2 p2
  have r2: "runEventWorker_event chainUnavailable (orderPlaced 10) False (storeOf emptyTables)
     = Inr (storeOf emptyTables,
            [ProcessEvent, WarnRetrying ''failed to GetOrderInfo: chain unavailable'', TimerFired 3,
             ProcessEvent, WarnRetryFailed ''failed to GetOrderInfo: chain unavailable'', DebugProcessed])"
    by simp
  show ?thesis using r1 r2 k1 by simp
qed

text \<open>
  The claim as stated fails when the context is cancelled during the backoff: the
  handler's error is no constraint violation, and still \<open>processEvent\<close> is called once
  only.
\<close>

theorem runEventWorker_event_cancelled_no_retry:
  "processEvent chainUnavailable (orderPlaced 10) (storeOf emptyTables)
      = Inr (Some ''failed to GetOrderInfo: chain unavailable'', storeOf emptyTables)
   \<and> \<not> Contains ''failed to GetOrderInfo: chain unavailable'' ''constraint''
   \<and> runEventWorker_event chainUnavailable (orderPlaced 10) True (storeOf emptyTables)
     = Inr (storeOf emptyTables,
            [ProcessEvent, WarnRetrying ''failed to GetOrderInfo: chain unavailable'',
             InfoCancelledWhileRetrying, DebugProcessed])
   \<and> count_list [ProcessEvent, WarnRetrying ''failed to GetOrderInfo: chain unavailable'',
             InfoCancelledWhileRetrying, DebugProcessed] ProcessEvent = 1"
  by code_simp

section \<open>Properties of the handlers\<close>

text \<open>
  Claim C5. Let the chain answer DealUpdated(d) with deal d and the connection be open.
  If the deal's status is CLOSED, the handler succeeds and removes the Deal row with id
  d and the Order rows with the ids of its ask and its bid (and no other row), so no row
  with id d is left in Deals and none with id askID or bidID in Orders. For any other
  status it updates the mutable columns of the Deal row d instead.
\<close>

theorem onDealUpdated_closed_purges:
  assumes "GetDealInfo chain dealID = Inr deal" and "d_Id deal = dealID" and "\<not> closed w"
  shows "(d_Status deal = DealStatus_DEAL_CLOSED \<longrightarrow>
            (\<exists>w'. onDealUpdated chain dealID w = (None, w')
               \<and> Deals (db w') = filter (\<lambda>r. d_Id (dwd_Deal r) \<noteq> dealID) (Deals (db w))
               \<and> Orders (db w') = filter (\<lambda>r. o_Id (dwo_Order r) \<noteq> d_AskID deal \<and> o_Id (dwo_Order r) \<noteq> d_BidID deal) (Orders (db w))
               \<and> \<not> list_ex (\<lambda>r. d_Id (dwd_Deal r) = dealID) (Deals (db w'))
               \<and> \<not> list_ex (\<lambda>r. o_Id (dwo_Order r) = d_AskID deal \<or> o_Id (dwo_Order r) = d_BidID deal) (Orders (db w'))))
       \<and> (d_Status deal \<noteq> DealStatus_DEAL_CLOSED \<longrightarrow>
            onDealUpdated chain dealID w =
              (None, w\<lparr>db := (db w)\<lparr>Deals :=
                 map (\<lambda>r. if d_Id (dwd_Deal r) = dealID
                           then r\<lparr>dwd_Deal := (dwd_Deal r)\<lparr>d_Duration := d_Duration deal, d_Price := d_Price deal,
                                  d_StartTime := d_StartTime deal, d_EndTime := d_EndTime deal,
                                  d_Status := d_Status deal, d_BlockedBalance := d_BlockedBalance deal,
                                  d_TotalPayout := d_TotalPayout deal, d_LastBillTS := d_LastBillTS deal\<rparr>\<rparr>
                           else r) (Deals (db w))\<rparr>\<rparr>))"
  using assms
  by (auto simp add: onDealUpdated_def Begin_def deleteDeal_def deleteOrder_def commitTx_def Commit_def
       dbExec_def updateDeal_def list_ex_iff)

theorem onDealUpdated_closed_purges_witness:
  "GetDealInfo (dealChain DealStatus_DEAL_CLOSED 100) 1 = Inr (exampleDeal DealStatus_DEAL_CLOSED 100)
   \<and> \<not> closed dealStore
   \<and> onDealUpdated (dealChain DealStatus_DEAL_CLOSED 100) 1 dealStore
       = (None, dealStore\<lparr>db := (db dealStore)\<lparr>Deals := [],
             Orders := [exampleRow (exampleOrder 12 OrderType_ASK OrderStatus_ORDER_ACTIVE carol 80 3)]\<rparr>\<rparr>)
   \<and> onDealUpdated (dealChain DealStatus_DEAL_ACCEPTED 120) 1 dealStore
       = (None, dealStore\<lparr>db := (db dealStore)\<lparr>Deals :=
             [exampleDealRow\<lparr>dwd_Deal := exampleDeal DealStatus_DEAL_ACCEPTED 120\<rparr>]\<rparr>\<rparr>)"
proof -
  have h1: "GetDealInfo (dealChain DealStatus_DEAL_CLOSED 100) 1 = Inr (exampleDeal DealStatus_DEAL_CLOSED 100)"
    by (simp add: dealChain_def chainUnavailable_def)
  have h2: "d_Id (exampleDeal DealStatus_DEAL_CLOSED 100) = 1"
    by (simp add: exampleDeal_def)
  have h3: "\<not> closed dealStore" by (simp add: dealStore_def storeOf_def)
  have e1: "onDealUpdated (dealChain DealStatus_DEAL_CLOSED 100) 1 dealStore
       = (None, dealStore\<lparr>db := (db dealStore)\<lparr>Deals := [],
             Orders := [exampleRow (exampleOrder 12 OrderType_ASK OrderStatus_ORDER_ACTIVE carol 80 3)]\<rparr>\<rparr>)"
    by code_simp
  have e2: "onDealUpdated (dealChain DealStatus_DEAL_ACCEPTED 120) 1 dealStore
       = (None, dealStore\<lparr>db := (db dealStore)\<lparr>Deals :=
             [exampleDealRow\<lparr>dwd_Deal := exampleDeal DealStatus_DEAL_ACCEPTED 120\<rparr>]\<rparr>\<rparr>)"
    by code_simp
  from onDealUpdated_closed_purges[OF h1 h2 h3]
  have "\<not> list_ex (\<lambda>r. d_Id (dwd_Deal r) = 1)
           (Deals (db (snd (onDealUpdated (dealChain DealStatus_DEAL_CLOSED 100) 1 dealStore))))"
    by (auto simp add: exampleDeal_def)
  then show ?thesis using h1 h3 e1 e2 by simp
qed

text \<open>The loop over the expired change requests deletes exactly the rows with their ids.\<close>

lemma deleteExpired_eq:
  "deleteExpiredChangeRequests xs tx
     = Inr (tx\<lparr>DealChangeRequests := filter (\<lambda>r. cr_Id r \<notin> cr_Id ` set xs) (DealChangeRequests tx)\<rparr>)"
proof (induction xs arbitrary: tx)
  case Nil
  then show ?case by simp
next
  case (Cons x xs)
  have "filter (\<lambda>r. cr_Id r \<notin> cr_Id ` set xs) (filter (\<lambda>r. cr_Id r \<noteq> cr_Id x) (DealChangeRequests tx))
        = filter (\<lambda>r. cr_Id r \<notin> cr_Id ` set (x # xs)) (DealChangeRequests tx)"
    by (induction "DealChangeRequests tx") auto
  then show ?case by (simp add: Cons.IH deleteDealChangeRequest_def)
qed

text \<open>
  Claim C4. Let the chain answer DealChangeRequestSent with change request cr. If cr's
  status is not CREATED, the handler returns \<open>nil\<close> and the store is unchanged. If it is
  CREATED and the handler succeeds, the CREATED rows of cr's (dealID, requestType) have
  been deleted and cr inserted with the event's timestamp, so exactly one CREATED row,
  the new one, exists for that pair; and the handler does succeed when the connection is
  open and no other row holds cr's id.
\<close>

theorem onDealChangeRequestSent_supersedes:
  assumes "GetDealChangeRequestInfo chain requestID = Inr cr"
  shows "(cr_Status cr \<noteq> ChangeRequestStatus_REQUEST_CREATED \<longrightarrow>
            onDealChangeRequestSent chain eventTS requestID w = (None, w))
       \<and> (cr_Status cr = ChangeRequestStatus_REQUEST_CREATED \<longrightarrow>
            (\<forall>w'. onDealChangeRequestSent chain eventTS requestID w = (None, w') \<longrightarrow>
               DealChangeRequests (db w')
                 = filter (\<lambda>r. cr_Id r \<notin> cr_Id ` set (selectDealChangeRequests (cr_DealID cr) (cr_RequestType cr)
                                                          ChangeRequestStatus_REQUEST_CREATED (db w)))
                     (DealChangeRequests (db w))
                   @ [cr\<lparr>cr_CreatedTS := eventTS\<rparr>]
               \<and> selectDealChangeRequests (cr_DealID cr) (cr_RequestType cr) ChangeRequestStatus_REQUEST_CREATED (db w')
                   = [cr\<lparr>cr_CreatedTS := eventTS\<rparr>])
            \<and> (\<not> closed w
                 \<and> (\<forall>r\<in>set (DealChangeRequests (db w)). cr_Id r = cr_Id cr \<longrightarrow>
                        cr_DealID r = cr_DealID cr \<and> cr_RequestType r = cr_RequestType cr
                        \<and> cr_Status r = ChangeRequestStatus_REQUEST_CREATED) \<longrightarrow>
                (\<exists>w'. onDealChangeRequestSent chain eventTS requestID w = (None, w'))))"
proof (intro conjI impI allI)
  assume "cr_Status cr \<noteq> ChangeRequestStatus_REQUEST_CREATED"
  then show "onDealChangeRequestSent chain eventTS requestID w = (None, w)"
    using assms by (simp add: onDealChangeRequestSent_def)
next
  fix w'
  assume st: "cr_Status cr = ChangeRequestStatus_REQUEST_CREATED"
     and ok: "onDealChangeRequestSent chain eventTS requestID w = (None, w')"
  let ?old = "selectDealChangeRequests (cr_DealID cr) (cr_RequestType cr) ChangeRequestStatus_REQUEST_CREATED (db w)"
  let ?kept = "filter (\<lambda>r. cr_Id r \<notin> cr_Id ` set ?old) (DealChangeRequests (db w))"
  have new: "\<lparr>cr_Id = cr_Id cr, cr_CreatedTS = eventTS, cr_RequestType = cr_RequestType cr,
              cr_Duration = cr_Duration cr, cr_Price = cr_Price cr, cr_Status = cr_Status cr,
              cr_DealID = cr_DealID cr\<rparr> = cr\<lparr>cr_CreatedTS := eventTS\<rparr>"
    by simp
  have rows: "DealChangeRequests (db w') = ?kept @ [cr\<lparr>cr_CreatedTS := eventTS\<rparr>]"
    using ok assms st
    by (auto simp add: onDealChangeRequestSent_def Begin_def deleteExpired_eq insertDealChangeRequest_def
        commitTx_def Commit_def new Let_def split: if_splits)
  show "DealChangeRequests (db w') = ?kept @ [cr\<lparr>cr_CreatedTS := eventTS\<rparr>]" by (rule rows)
  have none: "filter (\<lambda>r. cr_DealID r = cr_DealID cr \<and> cr_RequestType r = cr_RequestType cr
                 \<and> cr_Status r = ChangeRequestStatus_REQUEST_CREATED) ?kept = []"
    by (auto simp add: selectDealChangeRequests_def filter_empty_conv)
  show "selectDealChangeRequests (cr_DealID cr) (cr_RequestType cr) ChangeRequestStatus_REQUEST_CREATED (db w')
          = [cr\<lparr>cr_CreatedTS := eventTS\<rparr>]"
    using none st by (simp add: selectDealChangeRequests_def[of _ _ _ "db w'"] rows)
next
  assume st: "cr_Status cr = ChangeRequestStatus_REQUEST_CREATED"
     and pre: "\<not> closed w \<and> (\<forall>r\<in>set (DealChangeRequests (db w)). cr_Id r = cr_Id cr \<longrightarrow>
                        cr_DealID r = cr_DealID cr \<and> cr_RequestType r = cr_RequestType cr
                        \<and> cr_Status r = ChangeRequestStatus_REQUEST_CREATED)"
  let ?old = "selectDealChangeRequests (cr_DealID cr) (cr_RequestType cr) ChangeRequestStatus_REQUEST_CREATED (db w)"
  have fresh: "\<not> list_ex (\<lambda>r. cr_Id r = cr_Id cr)
                 (filter (\<lambda>r. cr_Id r \<notin> cr_Id ` set ?old) (DealChangeRequests (db w)))"
    using pre by (auto simp add: list_ex_iff selectDealChangeRequests_def)
  show "\<exists>w'. onDealChangeRequestSent chain eventTS requestID w = (None, w')"
    using assms st pre fresh
    by (simp add: onDealChangeRequestSent_def Begin_def deleteExpired_eq insertDealChangeRequest_def
        commitTx_def Commit_def Let_def)
qed

text \<open>
  The spec's scenario: two CREATED requests 100 and 101 of type ASK for deal 1 leave only
  101; a third event whose request is REJECTED changes nothing.
\<close>

theorem onDealChangeRequestSent_supersedes_witness:
  "GetDealChangeRequestInfo (changeRequestChain ChangeRequestStatus_REQUEST_CREATED) 101
     = Inr (exampleChangeRequest 101 ChangeRequestStatus_REQUEST_CREATED)
   \<and> onDealChangeRequestSent (changeRequestChain ChangeRequestStatus_REQUEST_CREATED) 7 100 (storeOf emptyTables)
       = (None, storeOf (emptyTables\<lparr>DealChangeRequests :=
            [(exampleChangeRequest 100 ChangeRequestStatus_REQUEST_CREATED)\<lparr>cr_CreatedTS := 7\<rparr>]\<rparr>))
   \<and> onDealChangeRequestSent (changeRequestChain ChangeRequestStatus_REQUEST_CREATED) 8 101
        (storeOf (emptyTables\<lparr>DealChangeRequests :=
            [(exampleChangeRequest 100 ChangeRequestStatus_REQUEST_CREATED)\<lparr>cr_CreatedTS := 7\<rparr>]\<rparr>))
       = (None, storeOf (emptyTables\<lparr>DealChangeRequests :=
            [(exampleChangeRequest 101 ChangeRequestStatus_REQUEST_CREATED)\<lparr>cr_CreatedTS := 8\<rparr>]\<rparr>))
   \<and> onDealChangeRequestSent (changeRequestChain ChangeRequestStatus_REQUEST_REJECTED) 9 102
        (storeOf (emptyTables\<lparr>DealChangeRequests :=
            [(exampleChangeRequest 101 ChangeRequestStatus_REQUEST_CREATED)\<lparr>cr_CreatedTS := 8\<rparr>]\<rparr>))
       = (None, storeOf (emptyTables\<lparr>DealChangeRequests :=
            [(exampleChangeRequest 101 ChangeRequestStatus_REQUEST_CREATED)\<lparr>cr_CreatedTS := 8\<rparr>]\<rparr>))"
proof -
  let ?s1 = "storeOf (emptyTables\<lparr>DealChangeRequests :=
            [(exampleChangeRequest 100 ChangeRequestStatus_REQUEST_CREATED)\<lparr>cr_CreatedTS := 7\<rparr>]\<rparr>)"
  let ?s2 = "storeOf (emptyTables\<lparr>DealChangeRequests :=
            [(exampleChangeRequest 101 ChangeRequestStatus_REQUEST_CREATED)\<lparr>cr_CreatedTS := 8\<rparr>]\<rparr>)"
  have h: "GetDealChangeRequestInfo (changeRequestChain ChangeRequestStatus_REQUEST_CREATED) 101
     = Inr (exampleChangeRequest 101 ChangeRequestStatus_REQUEST_CREATED)"
    by (simp add: changeRequestChain_def chainUnavailable_def)
  have h': "GetDealChangeRequestInfo (changeRequestChain ChangeRequestStatus_REQUEST_REJECTED) 102
     = Inr (exampleChangeRequest 102 ChangeRequestStatus_REQUEST_REJECTED)"
    by (simp add: changeRequestChain_def chainUnavailable_def)
  have e1: "onDealChangeRequestSent (changeRequestChain ChangeRequestStatus_REQUEST_CREATED) 7 100 (storeOf emptyTables)
       = (None, ?s1)"
    by code_simp
  have e2: "onDealChangeRequestSent (changeRequestChain ChangeRequestStatus_REQUEST_CREATED) 8 101 ?s1 = (None, ?s2)"
    by code_simp
  have st: "cr_Status (exampleChangeRequest 101 ChangeRequestStatus_REQUEST_CREATED) = ChangeRequestStatus_REQUEST_CREATED"
           "cr_Status (exampleChangeRequest 102 ChangeRequestStatus_REQUEST_REJECTED) \<noteq> ChangeRequestStatus_REQUEST_CREATED"
    by (simp_all add: exampleChangeRequest_def)
  from onDealChangeRequestSent_supersedes[OF h, of 8 ?s1] st(1) e2
  have sel: "selectDealChangeRequests (cr_DealID (exampleChangeRequest 101 ChangeRequestStatus_REQUEST_CREATED))
               (cr_RequestType (exampleChangeRequest 101 ChangeRequestStatus_REQUEST_CREATED))
               ChangeRequestStatus_REQUEST_CREATED (db ?s2)
             = [(exampleChangeRequest 101 ChangeRequestStatus_REQUEST_CREATED)\<lparr>cr_CreatedTS := 8\<rparr>]"
    by blast
  from onDealChangeRequestSent_supersedes[OF h', of 9 ?s2] st(2)
  have e3: "onDealChangeRequestSent (changeRequestChain ChangeRequestStatus_REQUEST_REJECTED) 9 102 ?s2 = (None, ?s2)"
    by blast
  show ?thesis using h e1 e2 e3 sel by simp
qed















text \<open>What a successful \<open>onOrderPlaced\<close> leaves in Profiles and Orders.\<close>

lemma onOrderPlaced_result:
  assumes fetch: "GetOrderInfo chain orderID = Inr order"
      and ok: "onOrderPlaced chain eventTS orderID w = (None, w')"
  shows "Profiles (db w') = placedProfiles order (Profiles (db w))
       \<and> (if o_OrderStatus order = OrderStatus_ORDER_INACTIVE \<and> bigIsZero (o_DealID order)
          then Orders (db w') = Orders (db w)
          else (\<exists>row. Orders (db w') = Orders (db w) @ [row]
                  \<and> o_AuthorID (dwo_Order row) = o_AuthorID order
                  \<and> o_OrderType (dwo_Order row) = o_OrderType order
                  \<and> o_OrderStatus (dwo_Order row) = o_OrderStatus order))"
proof (cases "filter (\<lambda>r. p_UserID r = o_AuthorID order) (Profiles (db w))")
  case Nil
  then have nex: "\<not> list_ex (\<lambda>r. p_UserID r = o_AuthorID order) (Profiles (db w))"
    by (auto simp: list_ex_iff filter_empty_conv)
  show ?thesis
    using ok fetch Nil nex
    by (auto simp add: onOrderPlaced_def Begin_def getProfileInfo_def insertProfileUserID_def
        placedProfiles_def commitTx_def Commit_def insertOrder_def Let_def
        split: if_splits option.splits sum.splits)
next
  case (Cons p rest)
  show ?thesis
    using ok fetch Cons
    by (auto simp add: onOrderPlaced_def Begin_def getProfileInfo_def updateProfileStats_def
        updateProfileCmd_def placedProfiles_def commitTx_def Commit_def insertOrder_def Let_def
        nat_add_distrib
        split: if_splits option.splits sum.splits)
qed

lemma placedProfiles_counters:
  assumes inv: "list_all (\<lambda>p. p_ActiveAsks p = ca (p_UserID p) \<and> p_ActiveBids p = cb (p_UserID p)) ps"
      and fresh: "\<not> list_ex (\<lambda>p. p_UserID p = o_AuthorID order) ps \<Longrightarrow> ca (o_AuthorID order) = 0 \<and> cb (o_AuthorID order) = 0"
      and ty: "o_OrderType order \<noteq> OrderType_ANY"
  shows "list_all (\<lambda>p. p_ActiveAsks p = ca (p_UserID p)
                          + (if p_UserID p = o_AuthorID order \<and> o_OrderType order = OrderType_ASK then 1 else 0)
                      \<and> p_ActiveBids p = cb (p_UserID p)
                          + (if p_UserID p = o_AuthorID order \<and> o_OrderType order = OrderType_BID then 1 else 0))
           (placedProfiles order ps)"
proof (cases "filter (\<lambda>r. p_UserID r = o_AuthorID order) ps")
  case Nil
  then have none: "\<forall>p\<in>set ps. p_UserID p \<noteq> o_AuthorID order"
    by (auto simp: filter_empty_conv)
  then have "\<not> list_ex (\<lambda>p. p_UserID p = o_AuthorID order) ps" by (auto simp: list_ex_iff)
  from fresh[OF this] have z: "ca (o_AuthorID order) = 0" "cb (o_AuthorID order) = 0" by auto
  show ?thesis
    using inv none z ty Nil
    by (cases "o_OrderType order") (auto simp add: placedProfiles_def list_all_iff)
next
  case (Cons p rest)
  then have "p \<in> set (filter (\<lambda>r. p_UserID r = o_AuthorID order) ps)" by simp
  then have p: "p \<in> set ps" "p_UserID p = o_AuthorID order" by auto
  then have pc: "p_ActiveAsks p = ca (o_AuthorID order)" "p_ActiveBids p = cb (o_AuthorID order)"
    using inv by (auto simp: list_all_iff)
  show ?thesis
    using inv pc ty Cons
    by (cases "o_OrderType order") (auto simp add: placedProfiles_def list_all_iff)
qed

lemma placedProfiles_uids:
  "map p_UserID (placedProfiles order ps)
     = (if list_ex (\<lambda>p. p_UserID p = o_AuthorID order) ps then map p_UserID ps
        else map p_UserID ps @ [o_AuthorID order])"
proof (cases "filter (\<lambda>r. p_UserID r = o_AuthorID order) ps")
  case Nil
  then have "\<not> list_ex (\<lambda>p. p_UserID p = o_AuthorID order) ps"
    by (auto simp: filter_empty_conv list_ex_iff)
  then show ?thesis using Nil by (simp add: placedProfiles_def)
next
  case (Cons p rest)
  then have "p \<in> set (filter (\<lambda>r. p_UserID r = o_AuthorID order) ps)" by simp
  then have "list_ex (\<lambda>p. p_UserID p = o_AuthorID order) ps" by (auto simp: list_ex_iff)
  moreover have "map p_UserID (map (\<lambda>r. if p_UserID r = o_AuthorID order
                    then (if o_OrderType order = OrderType_ASK
                          then r\<lparr>p_ActiveAsks := Suc (p_ActiveAsks p)\<rparr>
                          else r\<lparr>p_ActiveBids := Suc (p_ActiveBids p)\<rparr>)
                    else r) ps) = map p_UserID ps"
    by (induction ps) auto
  ultimately show ?thesis using Cons by (simp add: placedProfiles_def)
qed

lemma list_ex_uid: "list_ex (\<lambda>p. p_UserID p = u) ps = (u \<in> set (map p_UserID ps))"
  by (auto simp: list_ex_iff)

lemma placedProfiles_author: "list_ex (\<lambda>p. p_UserID p = o_AuthorID order) (placedProfiles order ps)"
proof (cases "list_ex (\<lambda>p. p_UserID p = o_AuthorID order) ps")
  case True
  then have "o_AuthorID order \<in> set (map p_UserID ps)" by (simp add: list_ex_uid)
  then show ?thesis
    unfolding list_ex_uid[of _ "placedProfiles order ps"] placedProfiles_uids using True by simp
next
  case False
  then show ?thesis
    unfolding list_ex_uid[of _ "placedProfiles order ps"] placedProfiles_uids by simp
qed

lemma placedProfiles_keeps:
  "list_ex (\<lambda>p. p_UserID p = u) ps \<Longrightarrow> list_ex (\<lambda>p. p_UserID p = u) (placedProfiles order ps)"
  unfolding list_ex_uid[of _ "placedProfiles order ps"] placedProfiles_uids
  by (auto simp add: list_ex_iff)

lemma orphan_count:
  assumes "authorsHaveProfiles t" and "\<not> list_ex (\<lambda>p. p_UserID p = u) (Profiles t)"
  shows "activeOrders t u ty = 0"
  using assms by (auto simp add: authorsHaveProfiles_def activeOrders_def list_all_iff list_ex_iff filter_empty_conv)

text \<open>
  One successful \<open>onOrderPlaced\<close> on a store in which the counter equation holds and every
  order's author has a Profile row: an ACTIVE order keeps both; any other order leaves
  the author's counter of the order's type one above the number of his ACTIVE orders of
  that type.
\<close>

lemma onOrderPlaced_step:
  assumes fetch: "GetOrderInfo chain orderID = Inr order"
      and ok: "onOrderPlaced chain eventTS orderID w = (None, w')"
      and inv: "profileCountersExact (db w)" "authorsHaveProfiles (db w)"
      and ty: "o_OrderType order \<noteq> OrderType_ANY"
  shows "(o_OrderStatus order = OrderStatus_ORDER_ACTIVE \<longrightarrow>
            profileCountersExact (db w') \<and> authorsHaveProfiles (db w'))
       \<and> (o_OrderStatus order \<noteq> OrderStatus_ORDER_ACTIVE \<longrightarrow>
            list_all (\<lambda>p. p_ActiveAsks p = activeOrders (db w') (p_UserID p) OrderType_ASK
                             + (if p_UserID p = o_AuthorID order \<and> o_OrderType order = OrderType_ASK then 1 else 0)
                         \<and> p_ActiveBids p = activeOrders (db w') (p_UserID p) OrderType_BID
                             + (if p_UserID p = o_AuthorID order \<and> o_OrderType order = OrderType_BID then 1 else 0))
              (Profiles (db w'))
            \<and> list_ex (\<lambda>p. p_UserID p = o_AuthorID order) (Profiles (db w')))
       \<and> (o_OrderStatus order = OrderStatus_ORDER_INACTIVE \<and> bigIsZero (o_DealID order) \<longrightarrow>
            Orders (db w') = Orders (db w))"
proof -
  let ?ca = "\<lambda>u. activeOrders (db w) u OrderType_ASK"
  let ?cb = "\<lambda>u. activeOrders (db w) u OrderType_BID"
  from onOrderPlaced_result[OF fetch ok]
  have P: "Profiles (db w') = placedProfiles order (Profiles (db w))"
    and O: "if o_OrderStatus order = OrderStatus_ORDER_INACTIVE \<and> bigIsZero (o_DealID order)
          then Orders (db w') = Orders (db w)
          else (\<exists>row. Orders (db w') = Orders (db w) @ [row]
                  \<and> o_AuthorID (dwo_Order row) = o_AuthorID order
                  \<and> o_OrderType (dwo_Order row) = o_OrderType order
                  \<and> o_OrderStatus (dwo_Order row) = o_OrderStatus order)"
    by auto
  have base: "list_all (\<lambda>p. p_ActiveAsks p = ?ca (p_UserID p) \<and> p_ActiveBids p = ?cb (p_UserID p)) (Profiles (db w))"
    using inv(1) by (simp add: profileCountersExact_def)
  have fresh: "\<not> list_ex (\<lambda>p. p_UserID p = o_AuthorID order) (Profiles (db w))
       \<Longrightarrow> ?ca (o_AuthorID order) = 0 \<and> ?cb (o_AuthorID order) = 0"
    using orphan_count[OF inv(2)] by simp
  note cnt = placedProfiles_counters[of ?ca ?cb "Profiles (db w)" order, OF base fresh ty]
  have A: "profileCountersExact (db w') \<and> authorsHaveProfiles (db w')"
    if act: "o_OrderStatus order = OrderStatus_ORDER_ACTIVE"
  proof -
    from O act obtain row where row: "Orders (db w') = Orders (db w) @ [row]"
        "o_AuthorID (dwo_Order row) = o_AuthorID order"
        "o_OrderType (dwo_Order row) = o_OrderType order"
        "o_OrderStatus (dwo_Order row) = OrderStatus_ORDER_ACTIVE"
      by (auto split: if_splits)
    have c: "\<And>u t. activeOrders (db w') u t = activeOrders (db w) u t
                 + (if u = o_AuthorID order \<and> t = o_OrderType order then 1 else 0)"
      using row by (auto simp add: activeOrders_def)
    have 1: "profileCountersExact (db w')"
      using cnt ty unfolding profileCountersExact_def P c
      by (cases "o_OrderType order") (auto simp add: list_all_iff)
    have 2: "authorsHaveProfiles (db w')"
      using inv(2) placedProfiles_keeps[of _ "Profiles (db w)" order] placedProfiles_author[of order "Profiles (db w)"]
      unfolding authorsHaveProfiles_def P row(1)
      by (auto simp add: list_all_iff row(2))
    show ?thesis using 1 2 by simp
  qed
  have B: "list_all (\<lambda>p. p_ActiveAsks p = activeOrders (db w') (p_UserID p) OrderType_ASK
                             + (if p_UserID p = o_AuthorID order \<and> o_OrderType order = OrderType_ASK then 1 else 0)
                         \<and> p_ActiveBids p = activeOrders (db w') (p_UserID p) OrderType_BID
                             + (if p_UserID p = o_AuthorID order \<and> o_OrderType order = OrderType_BID then 1 else 0))
              (Profiles (db w'))
            \<and> list_ex (\<lambda>p. p_UserID p = o_AuthorID order) (Profiles (db w'))"
    if nact: "o_OrderStatus order \<noteq> OrderStatus_ORDER_ACTIVE"
  proof -
    have c: "\<And>u t. activeOrders (db w') u t = activeOrders (db w) u t"
      using O nact by (auto simp add: activeOrders_def split: if_splits)
    show ?thesis
      using cnt placedProfiles_author[of order "Profiles (db w)"] unfolding P c by simp
  qed
  have C: "Orders (db w') = Orders (db w)"
    if "o_OrderStatus order = OrderStatus_ORDER_INACTIVE \<and> bigIsZero (o_DealID order)"
    using O that by simp
  show ?thesis using A B C by blast
qed

text \<open>
  The handlers that touch neither Orders nor Profiles, and the store after a handler
  that returns an error.
\<close>

lemma onDealOpened_frame:
  "onDealOpened chain dealID w = (err, w') \<Longrightarrow> Orders (db w') = Orders (db w) \<and> Profiles (db w') = Profiles (db w)"
  by (auto simp add: onDealOpened_def Begin_def insertDeal_def insertDealCondition_def commitTx_def
      Commit_def Let_def split: sum.splits option.splits if_splits)

lemma onDealChangeRequestSent_frame:
  "onDealChangeRequestSent chain eventTS requestID w = (err, w')
   \<Longrightarrow> Orders (db w') = Orders (db w) \<and> Profiles (db w') = Profiles (db w)"
  by (auto simp add: onDealChangeRequestSent_def Begin_def deleteExpired_eq insertDealChangeRequest_def
      commitTx_def Commit_def Let_def split: sum.splits option.splits if_splits)

lemma onDealChangeRequestUpdated_frame:
  "onDealChangeRequestUpdated chain eventTS requestID w = Inr (err, w')
   \<Longrightarrow> Orders (db w') = Orders (db w) \<and> Profiles (db w') = Profiles (db w)"
  by (auto simp add: onDealChangeRequestUpdated_def Begin_def dbExec_def updateDealChangeRequest_def
      updateDealConditionEndTime_def updateDealConditionEndTimeCmd_def insertDealCondition_def
      deleteDealChangeRequest_def commitTx_def Commit_def Let_def
      split: sum.splits option.splits if_splits list.splits)

lemma onBilled_frame:
  "onBilled eventTS dealID amount w = (err, w')
   \<Longrightarrow> Orders (db w') = Orders (db w) \<and> Profiles (db w') = Profiles (db w)"
  by (auto simp add: onBilled_def onBilled_locked_def Begin_def updateLastDealConditionPayout_def
      updateDealConditionPayout_def updateDealPayout_def updateDealPayoutCmd_def
      insertDealPayment_def commitTx_def Commit_def Let_def
      split: sum.splits option.splits if_splits list.splits)

lemma workers_frame:
  "onWorkerAnnounced m s w = (err, w') \<Longrightarrow> Orders (db w') = Orders (db w) \<and> Profiles (db w') = Profiles (db w)"
  "onWorkerConfirmed m s w = (err, w') \<Longrightarrow> Orders (db w') = Orders (db w) \<and> Profiles (db w') = Profiles (db w)"
  "onWorkerRemoved m s w = (err, w') \<Longrightarrow> Orders (db w') = Orders (db w) \<and> Profiles (db w') = Profiles (db w)"
  "onAddedToBlacklist m s w = (err, w') \<Longrightarrow> Orders (db w') = Orders (db w) \<and> Profiles (db w') = Profiles (db w)"
  "onRemovedFromBlacklist m s w = (err, w') \<Longrightarrow> Orders (db w') = Orders (db w) \<and> Profiles (db w') = Profiles (db w)"
  by (auto simp add: onWorkerAnnounced_def onWorkerConfirmed_def onWorkerRemoved_def onAddedToBlacklist_def
      onRemovedFromBlacklist_def dbExec_def insertWorker_def updateWorker_def deleteWorker_def
      insertBlacklistEntry_def deleteBlacklistEntry_def
      split: sum.splits option.splits if_splits)

lemma validators_frame:
  "onValidatorCreated chain v w = (err, w') \<Longrightarrow> Orders (db w') = Orders (db w) \<and> Profiles (db w') = Profiles (db w)"
  "onValidatorDeleted chain v w = (err, w') \<Longrightarrow> Orders (db w') = Orders (db w) \<and> Profiles (db w') = Profiles (db w)"
  by (auto simp add: onValidatorCreated_def onValidatorDeleted_def dbExec_def insertValidator_def updateValidator_def
      split: sum.splits option.splits if_splits)

lemma onOrderPlaced_error:
  "onOrderPlaced chain eventTS orderID w = (Some e, w') \<Longrightarrow> w' = w"
  by (auto simp add: onOrderPlaced_def commitTx_def Commit_def Let_def
      split: sum.splits option.splits if_splits prod.splits)

lemma onOrderUpdated_error:
  "onOrderUpdated chain orderID w = (Some e, w') \<Longrightarrow> w' = w"
  by (auto simp add: onOrderUpdated_def commitTx_def Commit_def Let_def
      split: sum.splits option.splits if_splits prod.splits)

lemma onDealUpdated_error:
  "onDealUpdated chain dealID w = (Some e, w') \<Longrightarrow> w' = w"
  by (auto simp add: onDealUpdated_def commitTx_def Commit_def Let_def
      split: sum.splits option.splits if_splits prod.splits)

lemma onCertificateCreated_error:
  "onCertificateCreated chain certificateID w = (Some e, w') \<Longrightarrow> w' = w"
  by (auto simp add: onCertificateCreated_def commitTx_def Commit_def Let_def
      split: sum.splits option.splits if_splits prod.splits)

text \<open>
  \<open>onCertificateCreated\<close> keeps every order's id, author, type and status and every
  profile's user and counters; it may add a profile with the counters 0 and 0.
\<close>

lemma map_key_upd:
  assumes "\<And>r. k (g r) = k r"
  shows "map k (map (\<lambda>r. if c r then g r else r) xs) = map k xs"
  using assms by (induction xs) auto

lemma updateProfileCmd_keys:
  assumes "updateProfileCmd col userID t = Inr t'"
      and "\<And>v. col \<noteq> ActiveAsks v" "\<And>v. col \<noteq> ActiveBids v"
  shows "Orders t' = Orders t
       \<and> map (\<lambda>p. (p_UserID p, p_ActiveAsks p, p_ActiveBids p)) (Profiles t')
           = map (\<lambda>p. (p_UserID p, p_ActiveAsks p, p_ActiveBids p)) (Profiles t)"
proof -
  have k: "\<And>r. (\<lambda>p. (p_UserID p, p_ActiveAsks p, p_ActiveBids p)) (setProfileColumn col r)
              = (\<lambda>p. (p_UserID p, p_ActiveAsks p, p_ActiveBids p)) r"
    using assms(2,3) by (cases col) auto
  have t': "t' = t\<lparr>Profiles := map (\<lambda>r. if p_UserID r = userID then setProfileColumn col r else r) (Profiles t)\<rparr>"
    using assms(1) by (simp add: updateProfileCmd_def)
  have "map (\<lambda>p. (p_UserID p, p_ActiveAsks p, p_ActiveBids p))
          (map (\<lambda>r. if p_UserID r = userID then setProfileColumn col r else r) (Profiles t))
        = map (\<lambda>p. (p_UserID p, p_ActiveAsks p, p_ActiveBids p)) (Profiles t)"
    by (rule map_key_upd) (rule k)
  then show ?thesis unfolding t' by simp
qed

lemma updateProfile_keys:
  assumes run: "updateProfile w tx cert = Inr tx'"
      and same: "Profiles tx = Profiles (db w)"
  shows "Orders tx' = Orders tx
       \<and> (map (\<lambda>p. (p_UserID p, p_ActiveAsks p, p_ActiveBids p)) (Profiles tx')
            = map (\<lambda>p. (p_UserID p, p_ActiveAsks p, p_ActiveBids p)) (Profiles tx)
          \<or> (\<not> list_ex (\<lambda>p. p_UserID p = c_OwnerID cert) (Profiles tx)
             \<and> map (\<lambda>p. (p_UserID p, p_ActiveAsks p, p_ActiveBids p)) (Profiles tx')
                 = map (\<lambda>p. (p_UserID p, p_ActiveAsks p, p_ActiveBids p)) (Profiles tx) @ [(c_OwnerID cert, 0, 0)]))"
proof -
  let ?K = "\<lambda>p. (p_UserID p, p_ActiveAsks p, p_ActiveBids p)"
  obtain t1 where t1: "(case getProfileInfo w (c_OwnerID cert) of
              Inl err \<Rightarrow>
                (case insertProfileUserID (c_OwnerID cert) [] 0 0 tx of
                   Inl err \<Rightarrow> Inl (errors_Wrap err ''failed to insertProfileUserID'')
                 | Inr tx \<Rightarrow> Inr tx)
            | Inr profile \<Rightarrow> Inr tx) = Inr t1"
    using run by (auto simp add: updateProfile_def split: sum.splits)
  have k1: "Orders t1 = Orders tx
       \<and> (map ?K (Profiles t1) = map ?K (Profiles tx)
          \<or> (\<not> list_ex (\<lambda>p. p_UserID p = c_OwnerID cert) (Profiles tx)
             \<and> map ?K (Profiles t1) = map ?K (Profiles tx) @ [(c_OwnerID cert, 0, 0)]))"
    using t1 by (auto simp add: insertProfileUserID_def split: sum.splits if_splits)
  obtain t2 where t2: "(if c_Attribute cert = CertificateName then
              (case updateProfileCmd (ProfileName (c_Value cert)) (c_OwnerID cert) t1 of
                 Inl err \<Rightarrow> Inl (errors_Wrap err ''failed to updateProfileName'')
               | Inr tx \<Rightarrow> Inr tx)
            else if c_Attribute cert = CertificateCountry then
              (case updateProfileCmd (ProfileCountry (c_Value cert)) (c_OwnerID cert) t1 of
                 Inl err \<Rightarrow> Inl (errors_Wrap err ''failed to updateProfileCountry'')
               | Inr tx \<Rightarrow> Inr tx)
            else Inr t1) = Inr t2"
    using run t1 by (auto simp add: updateProfile_def split: sum.splits)
  have k2: "Orders t2 = Orders t1 \<and> map ?K (Profiles t2) = map ?K (Profiles t1)"
    using t2 updateProfileCmd_keys[of "ProfileName (c_Value cert)" "c_OwnerID cert" t1 t2]
      updateProfileCmd_keys[of "ProfileCountry (c_Value cert)" "c_OwnerID cert" t1 t2]
    by (auto split: if_splits sum.splits)
  obtain t3 where t3: "updateProfileCmd (ProfileCertificates (selectCertificates (c_OwnerID cert) t2)) (c_OwnerID cert) t2 = Inr t3"
    by (simp add: updateProfileCmd_def)
  obtain t4 where t4: "updateProfileCmd (ProfileIdentityLevel
        (foldl (\<lambda>m c. if c_IdentityLevel c > m then c_IdentityLevel c else m) 0 (selectCertificates (c_OwnerID cert) t2)))
        (c_OwnerID cert) t3 = Inr t4"
    by (simp add: updateProfileCmd_def)
  have fin: "tx' = t4"
    using run t1 t2 t3 t4 by (simp add: updateProfile_def Let_def)
  have k3: "Orders t3 = Orders t2 \<and> map ?K (Profiles t3) = map ?K (Profiles t2)"
    using updateProfileCmd_keys[OF t3] by simp
  have k4: "Orders t4 = Orders t3 \<and> map ?K (Profiles t4) = map ?K (Profiles t3)"
    using updateProfileCmd_keys[OF t4] by simp
  show ?thesis using k1 k2 k3 k4 fin by auto
qed

lemma updateEntitiesByProfile_keys:
  assumes run: "updateEntitiesByProfile tx cert = Inr tx'"
  shows "Profiles tx' = Profiles tx
       \<and> map (\<lambda>r. (o_Id (dwo_Order r), o_AuthorID (dwo_Order r), o_OrderType (dwo_Order r), o_OrderStatus (dwo_Order r))) (Orders tx')
           = map (\<lambda>r. (o_Id (dwo_Order r), o_AuthorID (dwo_Order r), o_OrderType (dwo_Order r), o_OrderStatus (dwo_Order r))) (Orders tx)"
proof -
  have m: "\<And>f xs. (\<And>r. (\<lambda>r. (o_Id (dwo_Order r), o_AuthorID (dwo_Order r), o_OrderType (dwo_Order r), o_OrderStatus (dwo_Order r))) (f r)
                      = (\<lambda>r. (o_Id (dwo_Order r), o_AuthorID (dwo_Order r), o_OrderType (dwo_Order r), o_OrderStatus (dwo_Order r))) r)
        \<Longrightarrow> map (\<lambda>r. (o_Id (dwo_Order r), o_AuthorID (dwo_Order r), o_OrderType (dwo_Order r), o_OrderStatus (dwo_Order r)))
                (map (\<lambda>r. if o_AuthorID (dwo_Order r) = c_OwnerID cert then f r else r) xs)
           = map (\<lambda>r. (o_Id (dwo_Order r), o_AuthorID (dwo_Order r), o_OrderType (dwo_Order r), o_OrderStatus (dwo_Order r))) xs"
    by (rule map_key_upd) simp
  show ?thesis
    using run
    by (auto simp add: updateEntitiesByProfile_def getProfileInfoTx_def updateOrders_def
        updateDealsSupplier_def updateDealsConsumer_def o_def
        split: sum.splits list.splits if_splits)
qed

lemma activeOrders_keys:
  "activeOrders t u ty
     = length (filter (\<lambda>k. fst (snd k) = u \<and> fst (snd (snd k)) = ty \<and> snd (snd (snd k)) = OrderStatus_ORDER_ACTIVE)
         (map (\<lambda>r. (o_Id (dwo_Order r), o_AuthorID (dwo_Order r), o_OrderType (dwo_Order r), o_OrderStatus (dwo_Order r))) (Orders t)))"
  by (simp add: activeOrders_def filter_map o_def)

lemma activeOrders_cong:
  assumes "map (\<lambda>r. (o_Id (dwo_Order r), o_AuthorID (dwo_Order r), o_OrderType (dwo_Order r), o_OrderStatus (dwo_Order r))) (Orders t')
         = map (\<lambda>r. (o_Id (dwo_Order r), o_AuthorID (dwo_Order r), o_OrderType (dwo_Order r), o_OrderStatus (dwo_Order r))) (Orders t)"
  shows "activeOrders t' u ty = activeOrders t u ty"
  unfolding activeOrders_keys assms ..

lemma profileCountersExact_keys:
  "profileCountersExact t
     = list_all (\<lambda>k. fst (snd k) = activeOrders t (fst k) OrderType_ASK \<and> snd (snd k) = activeOrders t (fst k) OrderType_BID)
         (map (\<lambda>p. (p_UserID p, p_ActiveAsks p, p_ActiveBids p)) (Profiles t))"
  by (simp add: profileCountersExact_def list.pred_map o_def)

lemma authorsHaveProfiles_keys:
  "authorsHaveProfiles t
     = list_all (\<lambda>k. list_ex (\<lambda>q. fst q = fst (snd k)) (map (\<lambda>p. (p_UserID p, p_ActiveAsks p, p_ActiveBids p)) (Profiles t)))
         (map (\<lambda>r. (o_Id (dwo_Order r), o_AuthorID (dwo_Order r), o_OrderType (dwo_Order r), o_OrderStatus (dwo_Order r))) (Orders t))"
  by (simp add: authorsHaveProfiles_def list_all_iff list_ex_iff)

lemma invariant_new_profile:
  assumes ok: "map (\<lambda>r. (o_Id (dwo_Order r), o_AuthorID (dwo_Order r), o_OrderType (dwo_Order r), o_OrderStatus (dwo_Order r))) (Orders t')
         = map (\<lambda>r. (o_Id (dwo_Order r), o_AuthorID (dwo_Order r), o_OrderType (dwo_Order r), o_OrderStatus (dwo_Order r))) (Orders t)"
      and pk: "map (\<lambda>p. (p_UserID p, p_ActiveAsks p, p_ActiveBids p)) (Profiles t')
            = map (\<lambda>p. (p_UserID p, p_ActiveAsks p, p_ActiveBids p)) (Profiles t)
          \<or> (\<not> list_ex (\<lambda>p. p_UserID p = u) (Profiles t)
             \<and> map (\<lambda>p. (p_UserID p, p_ActiveAsks p, p_ActiveBids p)) (Profiles t')
                 = map (\<lambda>p. (p_UserID p, p_ActiveAsks p, p_ActiveBids p)) (Profiles t) @ [(u, 0, 0)])"
      and inv: "profileCountersExact t" "authorsHaveProfiles t"
  shows "profileCountersExact t' \<and> authorsHaveProfiles t'"
proof -
  have c: "\<And>u ty. activeOrders t' u ty = activeOrders t u ty" using activeOrders_cong[OF ok] .
  from pk show ?thesis
  proof
    assume e: "map (\<lambda>p. (p_UserID p, p_ActiveAsks p, p_ActiveBids p)) (Profiles t')
            = map (\<lambda>p. (p_UserID p, p_ActiveAsks p, p_ActiveBids p)) (Profiles t)"
    show ?thesis
      using inv unfolding profileCountersExact_keys authorsHaveProfiles_keys e ok c by simp
  next
    assume e: "\<not> list_ex (\<lambda>p. p_UserID p = u) (Profiles t)
             \<and> map (\<lambda>p. (p_UserID p, p_ActiveAsks p, p_ActiveBids p)) (Profiles t')
                 = map (\<lambda>p. (p_UserID p, p_ActiveAsks p, p_ActiveBids p)) (Profiles t) @ [(u, 0, 0)]"
    then have z: "\<And>ty. activeOrders t u ty = 0" using orphan_count[OF inv(2)] by simp
    have e2: "map (\<lambda>p. (p_UserID p, p_ActiveAsks p, p_ActiveBids p)) (Profiles t')
                 = map (\<lambda>p. (p_UserID p, p_ActiveAsks p, p_ActiveBids p)) (Profiles t) @ [(u, 0, 0)]"
      using e by simp
    show ?thesis
      using inv z unfolding profileCountersExact_keys authorsHaveProfiles_keys e2 ok c
      by (auto simp add: list_all_iff)
  qed
qed

lemma onCertificateCreated_invariant:
  assumes run: "onCertificateCreated chain certificateID w = (None, w')"
      and inv: "profileCountersExact (db w)" "authorsHaveProfiles (db w)"
  shows "profileCountersExact (db w') \<and> authorsHaveProfiles (db w')"
proof -
  from run obtain cert t1 t2 t3 where
    c: "GetCertificate chain certificateID = Inr cert" and nc: "\<not> closed w"
    and t1: "insertCertificate (cert\<lparr>c_IdentityLevel := (c_Attribute cert div 100) mod 10\<rparr>) (db w) = Inr t1"
    and t2: "updateProfile w t1 cert = Inr t2"
    and t3: "updateEntitiesByProfile t2 cert = Inr t3"
    and w': "w' = w\<lparr>db := t3\<rparr>"
    by (auto simp add: onCertificateCreated_def Begin_def commitTx_def Commit_def
        split: sum.splits if_splits)
  have k1: "Orders t1 = Orders (db w)" "Profiles t1 = Profiles (db w)"
    using t1 by (auto simp add: insertCertificate_def split: if_splits)
  note k2 = updateProfile_keys[OF t2 k1(2)]
  note k3 = updateEntitiesByProfile_keys[OF t3]
  show ?thesis
    unfolding w'
    using invariant_new_profile[of t3 "db w" "c_OwnerID cert", OF _ _ inv] k1 k2 k3
    by auto
qed

text \<open>What a successful \<open>onOrderUpdated\<close> leaves in Profiles and Orders, and what it counts.\<close>

lemma count_split:
  "length (filter Q xs) = length (filter Q (filter P xs)) + length (filter Q (filter (\<lambda>x. \<not> P x) xs))"
  by (induction xs) auto

lemma onOrderUpdated_result:
  assumes fetch: "GetOrderInfo chain orderID = Inr order"
      and ok: "onOrderUpdated chain orderID w = (None, w')"
  shows "\<exists>p rest. filter (\<lambda>r. p_UserID r = o_AuthorID order) (Profiles (db w)) = p # rest
          \<and> (if o_OrderType order = OrderType_ASK then 1 \<le> p_ActiveAsks p else 1 \<le> p_ActiveBids p)
          \<and> Profiles (db w') = map (\<lambda>r. if p_UserID r = o_AuthorID order
                                         then (if o_OrderType order = OrderType_ASK
                                               then r\<lparr>p_ActiveAsks := p_ActiveAsks p - 1\<rparr>
                                               else r\<lparr>p_ActiveBids := p_ActiveBids p - 1\<rparr>)
                                         else r) (Profiles (db w))
          \<and> Orders (db w') = (if bigIsZero (o_DealID order)
                               then filter (\<lambda>r. o_Id (dwo_Order r) \<noteq> orderID) (Orders (db w))
                               else map (\<lambda>r. if o_Id (dwo_Order r) = o_Id order
                                              then r\<lparr>dwo_Order := (dwo_Order r)\<lparr>o_OrderStatus := o_OrderStatus order\<rparr>\<rparr>
                                              else r) (Orders (db w)))"
proof (cases "filter (\<lambda>r. p_UserID r = o_AuthorID order) (Profiles (db w))")
  case Nil
  then show ?thesis
    using ok fetch
    by (auto simp add: onOrderUpdated_def Begin_def getProfileInfo_def deleteOrder_def updateOrderStatus_def
        split: if_splits sum.splits)
next
  case (Cons p rest)
  have n: "\<And>c::nat. \<not> int c - 1 < 0 \<Longrightarrow> nat (int c - 1) = c - 1 \<and> 1 \<le> c" by auto
  show ?thesis
    using ok fetch Cons
    by (auto simp add: onOrderUpdated_def Begin_def getProfileInfo_def deleteOrder_def updateOrderStatus_def
        updateProfileStats_def updateProfileCmd_def commitTx_def Commit_def Let_def n
        split: if_splits sum.splits)
qed

lemma decrement_counters:
  assumes pre: "list_all (\<lambda>p. p_ActiveAsks p = ca (p_UserID p)
                          + (if p_UserID p = a \<and> ty = OrderType_ASK then 1 else 0)
                      \<and> p_ActiveBids p = cb (p_UserID p)
                          + (if p_UserID p = a \<and> ty = OrderType_BID then 1 else 0)) ps"
      and first: "filter (\<lambda>r. p_UserID r = a) ps = p # rest"
      and ty: "ty \<noteq> OrderType_ANY"
  shows "list_all (\<lambda>p. p_ActiveAsks p = ca (p_UserID p) \<and> p_ActiveBids p = cb (p_UserID p))
           (map (\<lambda>r. if p_UserID r = a
                      then (if ty = OrderType_ASK
                            then r\<lparr>p_ActiveAsks := p_ActiveAsks p - 1\<rparr>
                            else r\<lparr>p_ActiveBids := p_ActiveBids p - 1\<rparr>)
                      else r) ps)"
proof -
  have "p \<in> set (filter (\<lambda>r. p_UserID r = a) ps)" using first by simp
  then have p: "p \<in> set ps" "p_UserID p = a" by auto
  then have pc: "p_ActiveAsks p = ca a + (if ty = OrderType_ASK then 1 else 0)"
                "p_ActiveBids p = cb a + (if ty = OrderType_BID then 1 else 0)"
    using pre by (auto simp: list_all_iff)
  show ?thesis
    using pre pc ty by (cases ty) (auto simp add: list_all_iff)
qed

lemma takesActiveOrder_counts:
  assumes reg: "takesActiveOrder order orderID t"
      and O: "Orders t' = (if bigIsZero (o_DealID order)
                               then filter (\<lambda>r. o_Id (dwo_Order r) \<noteq> orderID) (Orders t)
                               else map (\<lambda>r. if o_Id (dwo_Order r) = o_Id order
                                              then r\<lparr>dwo_Order := (dwo_Order r)\<lparr>o_OrderStatus := o_OrderStatus order\<rparr>\<rparr>
                                              else r) (Orders t))"
  shows "activeOrders t u ty = activeOrders t' u ty
           + (if u = o_AuthorID order \<and> ty = o_OrderType order then 1 else 0)"
proof -
  let ?Q = "\<lambda>r. o_AuthorID (dwo_Order r) = u \<and> o_OrderType (dwo_Order r) = ty
                          \<and> o_OrderStatus (dwo_Order r) = OrderStatus_ORDER_ACTIVE"
  let ?P = "\<lambda>r. o_Id (dwo_Order r) = orderID"
  from reg obtain r where r: "filter ?P (Orders t) = [r]"
      "o_OrderStatus (dwo_Order r) = OrderStatus_ORDER_ACTIVE"
      "o_AuthorID (dwo_Order r) = o_AuthorID order" "o_OrderType (dwo_Order r) = o_OrderType order"
    by (auto simp add: takesActiveOrder_def split: list.splits)
  have before: "activeOrders t u ty = length (filter ?Q (filter (\<lambda>x. \<not> ?P x) (Orders t)))
                  + (if u = o_AuthorID order \<and> ty = o_OrderType order then 1 else 0)"
    unfolding activeOrders_def count_split[of ?Q "Orders t" ?P] r(1) using r(2,3,4) by auto
  have after: "activeOrders t' u ty = length (filter ?Q (filter (\<lambda>x. \<not> ?P x) (Orders t)))"
  proof (cases "bigIsZero (o_DealID order)")
    case True
    then show ?thesis unfolding activeOrders_def O by simp
  next
    case False
    then have h: "o_Id order = orderID" "o_OrderStatus order \<noteq> OrderStatus_ORDER_ACTIVE"
      using reg by (auto simp add: takesActiveOrder_def)
    have "\<And>xs. length (filter ?Q (map (\<lambda>r. if o_Id (dwo_Order r) = orderID
                                       then r\<lparr>dwo_Order := (dwo_Order r)\<lparr>o_OrderStatus := o_OrderStatus order\<rparr>\<rparr>
                                       else r) xs))
             = length (filter ?Q (filter (\<lambda>x. \<not> ?P x) xs))"
    proof -
      fix xs show "length (filter ?Q (map (\<lambda>r. if o_Id (dwo_Order r) = orderID
                                       then r\<lparr>dwo_Order := (dwo_Order r)\<lparr>o_OrderStatus := o_OrderStatus order\<rparr>\<rparr>
                                       else r) xs))
             = length (filter ?Q (filter (\<lambda>x. \<not> ?P x) xs))"
        using h(2) by (induction xs) auto
    qed
    from this[of "Orders t"] show ?thesis unfolding activeOrders_def O using False h(1) by simp
  qed
  show ?thesis using before after by simp
qed

lemma onOrderUpdated_restores:
  assumes fetch: "GetOrderInfo chain orderID = Inr order"
      and ok: "onOrderUpdated chain orderID w = (None, w')"
      and ty: "o_OrderType order \<noteq> OrderType_ANY"
      and pre: "list_all (\<lambda>p. p_ActiveAsks p = activeOrders (db w') (p_UserID p) OrderType_ASK
                             + (if p_UserID p = o_AuthorID order \<and> o_OrderType order = OrderType_ASK then 1 else 0)
                         \<and> p_ActiveBids p = activeOrders (db w') (p_UserID p) OrderType_BID
                             + (if p_UserID p = o_AuthorID order \<and> o_OrderType order = OrderType_BID then 1 else 0))
              (Profiles (db w))"
      and ahp: "authorsHaveProfiles (db w)"
  shows "profileCountersExact (db w') \<and> authorsHaveProfiles (db w')"
proof -
  from onOrderUpdated_result[OF fetch ok] obtain p rest where
    f: "filter (\<lambda>r. p_UserID r = o_AuthorID order) (Profiles (db w)) = p # rest"
    and P: "Profiles (db w') = map (\<lambda>r. if p_UserID r = o_AuthorID order
                                         then (if o_OrderType order = OrderType_ASK
                                               then r\<lparr>p_ActiveAsks := p_ActiveAsks p - 1\<rparr>
                                               else r\<lparr>p_ActiveBids := p_ActiveBids p - 1\<rparr>)
                                         else r) (Profiles (db w))"
    and O: "Orders (db w') = (if bigIsZero (o_DealID order)
                               then filter (\<lambda>r. o_Id (dwo_Order r) \<noteq> orderID) (Orders (db w))
                               else map (\<lambda>r. if o_Id (dwo_Order r) = o_Id order
                                              then r\<lparr>dwo_Order := (dwo_Order r)\<lparr>o_OrderStatus := o_OrderStatus order\<rparr>\<rparr>
                                              else r) (Orders (db w)))"
    by blast
  have 1: "profileCountersExact (db w')"
    unfolding profileCountersExact_def P
    by (rule decrement_counters[OF pre f ty])
  have uids: "map p_UserID (Profiles (db w')) = map p_UserID (Profiles (db w))"
    unfolding P by (induction "Profiles (db w)") auto
  have auth: "o_AuthorID ` dwo_Order ` set (Orders (db w')) \<subseteq> o_AuthorID ` dwo_Order ` set (Orders (db w))"
    unfolding O by (auto simp add: image_iff)
  have 2: "authorsHaveProfiles (db w')"
  proof -
    have "\<And>r. r \<in> set (Orders (db w')) \<Longrightarrow> o_AuthorID (dwo_Order r) \<in> set (map p_UserID (Profiles (db w')))"
    proof -
      fix r assume "r \<in> set (Orders (db w'))"
      then have "o_AuthorID (dwo_Order r) \<in> o_AuthorID ` dwo_Order ` set (Orders (db w))"
        using auth by blast
      then obtain r0 where r0: "r0 \<in> set (Orders (db w))" "o_AuthorID (dwo_Order r0) = o_AuthorID (dwo_Order r)"
        by auto
      from ahp r0(1) obtain q where q: "q \<in> set (Profiles (db w))" "p_UserID q = o_AuthorID (dwo_Order r0)"
        by (auto simp add: authorsHaveProfiles_def list_all_iff list_ex_iff)
      have "o_AuthorID (dwo_Order r) \<in> set (map p_UserID (Profiles (db w)))"
        using q r0(2) by (metis image_eqI set_map)
      then show "o_AuthorID (dwo_Order r) \<in> set (map p_UserID (Profiles (db w')))" by (simp only: uids)
    qed
    then show ?thesis by (simp add: authorsHaveProfiles_def list_all_iff list_ex_uid)
  qed
  show ?thesis using 1 2 by simp
qed

lemma onOrderUpdated_regular:
  assumes fetch: "GetOrderInfo chain orderID = Inr order"
      and ok: "onOrderUpdated chain orderID w = (None, w')"
      and reg: "takesActiveOrder order orderID (db w)"
      and inv: "profileCountersExact (db w)" "authorsHaveProfiles (db w)"
  shows "profileCountersExact (db w') \<and> authorsHaveProfiles (db w')"
proof -
  from onOrderUpdated_result[OF fetch ok]
  have O: "Orders (db w') = (if bigIsZero (o_DealID order)
                               then filter (\<lambda>r. o_Id (dwo_Order r) \<noteq> orderID) (Orders (db w))
                               else map (\<lambda>r. if o_Id (dwo_Order r) = o_Id order
                                              then r\<lparr>dwo_Order := (dwo_Order r)\<lparr>o_OrderStatus := o_OrderStatus order\<rparr>\<rparr>
                                              else r) (Orders (db w)))"
    by blast
  note c = takesActiveOrder_counts[OF reg O]
  have ty: "o_OrderType order \<noteq> OrderType_ANY" using reg by (simp add: takesActiveOrder_def)
  have pre: "list_all (\<lambda>p. p_ActiveAsks p = activeOrders (db w') (p_UserID p) OrderType_ASK
                             + (if p_UserID p = o_AuthorID order \<and> o_OrderType order = OrderType_ASK then 1 else 0)
                         \<and> p_ActiveBids p = activeOrders (db w') (p_UserID p) OrderType_BID
                             + (if p_UserID p = o_AuthorID order \<and> o_OrderType order = OrderType_BID then 1 else 0))
              (Profiles (db w))"
    using inv(1) unfolding profileCountersExact_def c by (auto simp add: list_all_iff)
  show ?thesis by (rule onOrderUpdated_restores[OF fetch ok ty pre inv(2)])
qed

text \<open>\<open>onDealUpdated\<close>, and the counter equation along a regular run.\<close>

lemma invariant_frame:
  assumes "Orders t' = Orders t" "Profiles t' = Profiles t"
      and "profileCountersExact t \<and> authorsHaveProfiles t"
  shows "profileCountersExact t' \<and> authorsHaveProfiles t'"
  using assms by (simp add: profileCountersExact_def authorsHaveProfiles_def activeOrders_def)

lemma onDealUpdated_result:
  assumes fetch: "GetDealInfo chain dealID = Inr deal"
      and ok: "onDealUpdated chain dealID w = (None, w')"
  shows "Profiles (db w') = Profiles (db w)
       \<and> Orders (db w') = (if d_Status deal = DealStatus_DEAL_CLOSED
                            then filter (\<lambda>r. o_Id (dwo_Order r) \<noteq> d_AskID deal \<and> o_Id (dwo_Order r) \<noteq> d_BidID deal)
                                   (Orders (db w))
                            else Orders (db w))"
  using ok fetch
  by (auto simp add: onDealUpdated_def Begin_def deleteDeal_def deleteOrder_def dbExec_def updateDeal_def
      commitTx_def Commit_def split: if_splits sum.splits)

lemma onDealUpdated_counters:
  assumes fetch: "GetDealInfo chain dealID = Inr deal"
      and ok: "onDealUpdated chain dealID w = (None, w')"
      and cl: "d_Status deal = DealStatus_DEAL_CLOSED"
      and inv: "profileCountersExact (db w)"
  shows "list_all (\<lambda>p. p_ActiveAsks p = activeOrders (db w') (p_UserID p) OrderType_ASK
                          + length (filter (\<lambda>r. (o_Id (dwo_Order r) = d_AskID deal \<or> o_Id (dwo_Order r) = d_BidID deal)
                                                \<and> o_AuthorID (dwo_Order r) = p_UserID p
                                                \<and> o_OrderType (dwo_Order r) = OrderType_ASK
                                                \<and> o_OrderStatus (dwo_Order r) = OrderStatus_ORDER_ACTIVE) (Orders (db w)))
                      \<and> p_ActiveBids p = activeOrders (db w') (p_UserID p) OrderType_BID
                          + length (filter (\<lambda>r. (o_Id (dwo_Order r) = d_AskID deal \<or> o_Id (dwo_Order r) = d_BidID deal)
                                                \<and> o_AuthorID (dwo_Order r) = p_UserID p
                                                \<and> o_OrderType (dwo_Order r) = OrderType_BID
                                                \<and> o_OrderStatus (dwo_Order r) = OrderStatus_ORDER_ACTIVE) (Orders (db w))))
           (Profiles (db w'))"
proof -
  from onDealUpdated_result[OF fetch ok] cl
  have P: "Profiles (db w') = Profiles (db w)"
    and O: "Orders (db w') = filter (\<lambda>r. o_Id (dwo_Order r) \<noteq> d_AskID deal \<and> o_Id (dwo_Order r) \<noteq> d_BidID deal) (Orders (db w))"
    by auto
  have c: "\<And>u ty. activeOrders (db w) u ty = activeOrders (db w') u ty
               + length (filter (\<lambda>r. (o_Id (dwo_Order r) = d_AskID deal \<or> o_Id (dwo_Order r) = d_BidID deal)
                                      \<and> o_AuthorID (dwo_Order r) = u
                                      \<and> o_OrderType (dwo_Order r) = ty
                                      \<and> o_OrderStatus (dwo_Order r) = OrderStatus_ORDER_ACTIVE) (Orders (db w)))"
  proof -
    fix u ty
    have e: "\<And>xs. filter (\<lambda>r. o_AuthorID (dwo_Order r) = u \<and> o_OrderType (dwo_Order r) = ty
                          \<and> o_OrderStatus (dwo_Order r) = OrderStatus_ORDER_ACTIVE)
                 (filter (\<lambda>x. \<not> (o_Id (dwo_Order x) \<noteq> d_AskID deal \<and> o_Id (dwo_Order x) \<noteq> d_BidID deal)) xs)
             = filter (\<lambda>r. (o_Id (dwo_Order r) = d_AskID deal \<or> o_Id (dwo_Order r) = d_BidID deal)
                                      \<and> o_AuthorID (dwo_Order r) = u
                                      \<and> o_OrderType (dwo_Order r) = ty
                                      \<and> o_OrderStatus (dwo_Order r) = OrderStatus_ORDER_ACTIVE) xs"
    proof -
      fix xs show "filter (\<lambda>r. o_AuthorID (dwo_Order r) = u \<and> o_OrderType (dwo_Order r) = ty
                          \<and> o_OrderStatus (dwo_Order r) = OrderStatus_ORDER_ACTIVE)
                 (filter (\<lambda>x. \<not> (o_Id (dwo_Order x) \<noteq> d_AskID deal \<and> o_Id (dwo_Order x) \<noteq> d_BidID deal)) xs)
             = filter (\<lambda>r. (o_Id (dwo_Order r) = d_AskID deal \<or> o_Id (dwo_Order r) = d_BidID deal)
                                      \<and> o_AuthorID (dwo_Order r) = u
                                      \<and> o_OrderType (dwo_Order r) = ty
                                      \<and> o_OrderStatus (dwo_Order r) = OrderStatus_ORDER_ACTIVE) xs"
        by (induction xs) auto
    qed
    show "activeOrders (db w) u ty = activeOrders (db w') u ty
               + length (filter (\<lambda>r. (o_Id (dwo_Order r) = d_AskID deal \<or> o_Id (dwo_Order r) = d_BidID deal)
                                      \<and> o_AuthorID (dwo_Order r) = u
                                      \<and> o_OrderType (dwo_Order r) = ty
                                      \<and> o_OrderStatus (dwo_Order r) = OrderStatus_ORDER_ACTIVE) (Orders (db w)))"
      unfolding activeOrders_def O
      by (subst count_split[of _ "Orders (db w)"
            "\<lambda>r. o_Id (dwo_Order r) \<noteq> d_AskID deal \<and> o_Id (dwo_Order r) \<noteq> d_BidID deal"])
         (simp only: e)
  qed
  show ?thesis
    using inv unfolding profileCountersExact_def P c by simp
qed

lemma onDealUpdated_regular:
  assumes fetch: "GetDealInfo chain dealID = Inr deal"
      and ok: "onDealUpdated chain dealID w = (None, w')"
      and reg: "if d_Status deal = DealStatus_DEAL_CLOSED then purgesNoActiveOrder deal (db w) else True"
      and inv: "profileCountersExact (db w)" "authorsHaveProfiles (db w)"
  shows "profileCountersExact (db w') \<and> authorsHaveProfiles (db w')"
proof (cases "d_Status deal = DealStatus_DEAL_CLOSED")
  case False
  then show ?thesis
    using onDealUpdated_result[OF fetch ok] inv invariant_frame[of "db w'" "db w"] by simp
next
  case True
  from onDealUpdated_result[OF fetch ok] True
  have P: "Profiles (db w') = Profiles (db w)"
    and O: "Orders (db w') = filter (\<lambda>r. o_Id (dwo_Order r) \<noteq> d_AskID deal \<and> o_Id (dwo_Order r) \<noteq> d_BidID deal) (Orders (db w))"
    by auto
  have none: "\<And>u ty. filter (\<lambda>r. (o_Id (dwo_Order r) = d_AskID deal \<or> o_Id (dwo_Order r) = d_BidID deal)
                                      \<and> o_AuthorID (dwo_Order r) = u
                                      \<and> o_OrderType (dwo_Order r) = ty
                                      \<and> o_OrderStatus (dwo_Order r) = OrderStatus_ORDER_ACTIVE) (Orders (db w)) = []"
    using reg True by (auto simp add: purgesNoActiveOrder_def list_all_iff filter_empty_conv)
  have 1: "profileCountersExact (db w')"
    using onDealUpdated_counters[OF fetch ok True inv(1)]
    unfolding none profileCountersExact_def by simp
  have 2: "authorsHaveProfiles (db w')"
    using inv(2) unfolding authorsHaveProfiles_def P O by (auto simp add: list_all_iff)
  show ?thesis using 1 2 by simp
qed

lemma regularEvent_invariant:
  assumes inv: "profileCountersExact (db w) \<and> authorsHaveProfiles (db w)"
      and reg: "regularEvent chain event w"
      and run: "processEvent chain event w = Inr (err, w')"
  shows "profileCountersExact (db w') \<and> authorsHaveProfiles (db w')"
proof (cases "ev_Data event")
  case (DealOpenedData x)
  then show ?thesis using run inv onDealOpened_frame[of chain x w err w'] invariant_frame[of "db w'" "db w"] by simp
next
  case (DealUpdatedData x)
  show ?thesis
  proof (cases err)
    case (Some e)
    then show ?thesis using run inv DealUpdatedData onDealUpdated_error[of chain x w e w'] by simp
  next
    case None
    then have ok: "onDealUpdated chain x w = (None, w')" using run DealUpdatedData by simp
    then obtain deal where fetch: "GetDealInfo chain x = Inr deal"
      by (cases "GetDealInfo chain x") (auto simp add: onDealUpdated_def)
    have r: "if d_Status deal = DealStatus_DEAL_CLOSED then purgesNoActiveOrder deal (db w) else True"
      using reg ok fetch DealUpdatedData by (simp add: regularEvent_def)
    show ?thesis using onDealUpdated_regular[OF fetch ok r] inv by simp
  qed
next
  case (OrderPlacedData x)
  show ?thesis
  proof (cases err)
    case (Some e)
    then show ?thesis using run inv OrderPlacedData onOrderPlaced_error[of chain "ev_TS event" x w e w'] by simp
  next
    case None
    then have ok: "onOrderPlaced chain (ev_TS event) x w = (None, w')" using run OrderPlacedData by simp
    then obtain order where fetch: "GetOrderInfo chain x = Inr order"
      by (cases "GetOrderInfo chain x") (auto simp add: onOrderPlaced_def)
    have r: "o_OrderStatus order = OrderStatus_ORDER_ACTIVE" "o_OrderType order \<noteq> OrderType_ANY"
      using reg ok fetch OrderPlacedData by (simp_all add: regularEvent_def)
    show ?thesis using onOrderPlaced_step[OF fetch ok _ _ r(2)] inv r(1) by simp
  qed
next
  case (OrderUpdatedData x)
  show ?thesis
  proof (cases err)
    case (Some e)
    then show ?thesis using run inv OrderUpdatedData onOrderUpdated_error[of chain x w e w'] by simp
  next
    case None
    then have ok: "onOrderUpdated chain x w = (None, w')" using run OrderUpdatedData by simp
    then obtain order where fetch: "GetOrderInfo chain x = Inr order"
      by (cases "GetOrderInfo chain x") (auto simp add: onOrderUpdated_def)
    have r: "takesActiveOrder order x (db w)"
      using reg ok fetch OrderUpdatedData by (simp add: regularEvent_def)
    show ?thesis using onOrderUpdated_regular[OF fetch ok r] inv by simp
  qed
next
  case (DealChangeRequestSentData x)
  then show ?thesis
    using run inv onDealChangeRequestSent_frame[of chain "ev_TS event" x w err w'] invariant_frame[of "db w'" "db w"] by simp
next
  case (DealChangeRequestUpdatedData x)
  then show ?thesis
    using run inv onDealChangeRequestUpdated_frame[of chain "ev_TS event" x w err w'] invariant_frame[of "db w'" "db w"] by simp
next
  case (BilledData x y)
  then show ?thesis
    using run inv onBilled_frame[of "ev_TS event" x y w err w'] invariant_frame[of "db w'" "db w"] by simp
next
  case (WorkerAnnouncedData x y)
  then show ?thesis using run inv workers_frame(1)[of x y w err w'] invariant_frame[of "db w'" "db w"] by simp
next
  case (WorkerConfirmedData x y)
  then show ?thesis using run inv workers_frame(2)[of x y w err w'] invariant_frame[of "db w'" "db w"] by simp
next
  case (WorkerRemovedData x y)
  then show ?thesis using run inv workers_frame(3)[of x y w err w'] invariant_frame[of "db w'" "db w"] by simp
next
  case (AddedToBlacklistData x y)
  then show ?thesis using run inv workers_frame(4)[of x y w err w'] invariant_frame[of "db w'" "db w"] by simp
next
  case (RemovedFromBlacklistData x y)
  then show ?thesis
    using run inv workers_frame(5)[of x y w "fst (onRemovedFromBlacklist x y w)" w'] invariant_frame[of "db w'" "db w"]
    by (auto split: prod.splits)
next
  case (ValidatorCreatedData x)
  then show ?thesis using run inv validators_frame(1)[of chain x w err w'] invariant_frame[of "db w'" "db w"] by simp
next
  case (ValidatorDeletedData x)
  then show ?thesis using run inv validators_frame(2)[of chain x w err w'] invariant_frame[of "db w'" "db w"] by simp
next
  case (CertificateCreatedData x)
  show ?thesis
  proof (cases err)
    case (Some e)
    then show ?thesis using run inv CertificateCreatedData onCertificateCreated_error[of chain x w e w'] by simp
  next
    case None
    then have ok: "onCertificateCreated chain x w = (None, w')" using run CertificateCreatedData by simp
    show ?thesis using onCertificateCreated_invariant[OF ok] inv by simp
  qed
next
  case (ErrorData x y)
  then show ?thesis using run inv by auto
qed

lemma regularEvents_invariant:
  assumes "profileCountersExact (db w0) \<and> authorsHaveProfiles (db w0)"
      and "regularEvents steps w0"
      and "processEvents steps w0 = Inr w"
  shows "profileCountersExact (db w) \<and> authorsHaveProfiles (db w)"
  using assms
proof (induction steps arbitrary: w0)
  case Nil
  then show ?case by simp
next
  case (Cons step rest)
  obtain chain event where step: "step = (chain, event)" by (cases step)
  from Cons.prems(3) obtain err w1 where
    one: "processEvent chain event w0 = Inr (err, w1)" and more: "processEvents rest w1 = Inr w"
    unfolding step by (auto simp del: processEvent.simps split: sum.splits prod.splits)
  have r1: "regularEvent chain event w0" and r2: "regularEvents rest w1"
    using Cons.prems(2) one unfolding step by (auto simp del: processEvent.simps)
  from regularEvent_invariant[OF Cons.prems(1) r1 one]
  have "profileCountersExact (db w1) \<and> authorsHaveProfiles (db w1)" .
  from Cons.IH[OF this r2 more] show ?case .
qed

lemma empty_invariant: "profileCountersExact emptyTables \<and> authorsHaveProfiles emptyTables"
  by (simp add: profileCountersExact_def authorsHaveProfiles_def emptyTables_def)

lemma onOrderPlaced_open:
  "onOrderPlaced chain eventTS orderID w = (None, w') \<Longrightarrow> \<not> closed w \<and> closed w' = closed w"
  by (auto simp add: onOrderPlaced_def Begin_def commitTx_def Commit_def Let_def
      split: sum.splits option.splits if_splits prod.splits)

lemma onOrderUpdated_succeeds:
  assumes nc: "\<not> closed w"
      and fetch: "GetOrderInfo chain orderID = Inr order"
      and first: "filter (\<lambda>r. p_UserID r = o_AuthorID order) (Profiles (db w)) = p # rest"
      and pos: "if o_OrderType order = OrderType_ASK then 1 \<le> p_ActiveAsks p else 1 \<le> p_ActiveBids p"
  shows "\<exists>w'. onOrderUpdated chain orderID w = (None, w')"
proof -
  have "fst (onOrderUpdated chain orderID w) = None"
    using nc fetch first pos
    by (auto simp add: onOrderUpdated_def Begin_def getProfileInfo_def deleteOrder_def updateOrderStatus_def
        updateProfileStats_def updateProfileCmd_def commitTx_def Commit_def Let_def
        split: if_splits)
  then show ?thesis by (cases "onOrderUpdated chain orderID w") auto
qed

lemma onOrderUpdated_settles:
  assumes inv: "profileCountersExact (db w)" "authorsHaveProfiles (db w)"
      and fetch: "GetOrderInfo chain orderID = Inr order"
      and ty: "o_OrderType order \<noteq> OrderType_ANY"
      and skip: "o_OrderStatus order = OrderStatus_ORDER_INACTIVE \<and> bigIsZero (o_DealID order)"
      and ok: "onOrderPlaced chain eventTS orderID w = (None, w1)"
      and fetch2: "GetOrderInfo chain2 orderID = Inr order2"
      and same: "o_AuthorID order2 = o_AuthorID order" "o_OrderType order2 = o_OrderType order"
      and id2: "bigIsZero (o_DealID order2) \<or> o_Id order2 = orderID"
      and absent: "\<not> list_ex (\<lambda>r. o_Id (dwo_Order r) = orderID) (Orders (db w))"
  shows "\<exists>w2. onOrderUpdated chain2 orderID w1 = (None, w2)
          \<and> profileCountersExact (db w2) \<and> authorsHaveProfiles (db w2)
          \<and> Orders (db w2) = Orders (db w)"
proof -
  have na: "o_OrderStatus order \<noteq> OrderStatus_ORDER_ACTIVE" using skip by simp
  from onOrderPlaced_step[OF fetch ok inv ty] na skip
  have sur: "list_all (\<lambda>p. p_ActiveAsks p = activeOrders (db w1) (p_UserID p) OrderType_ASK
                             + (if p_UserID p = o_AuthorID order \<and> o_OrderType order = OrderType_ASK then 1 else 0)
                         \<and> p_ActiveBids p = activeOrders (db w1) (p_UserID p) OrderType_BID
                             + (if p_UserID p = o_AuthorID order \<and> o_OrderType order = OrderType_BID then 1 else 0))
              (Profiles (db w1))"
    and ex: "list_ex (\<lambda>p. p_UserID p = o_AuthorID order) (Profiles (db w1))"
    and O1: "Orders (db w1) = Orders (db w)"
    by auto
  from onOrderPlaced_result[OF fetch ok] have P1: "Profiles (db w1) = placedProfiles order (Profiles (db w))" by simp
  have ahp1: "authorsHaveProfiles (db w1)"
    using inv(2) placedProfiles_keeps[of _ "Profiles (db w)" order]
    unfolding authorsHaveProfiles_def P1 O1 by (auto simp add: list_all_iff)
  have nc1: "\<not> closed w1" using onOrderPlaced_open[OF ok] by simp
  from ex obtain p rest where first: "filter (\<lambda>r. p_UserID r = o_AuthorID order2) (Profiles (db w1)) = p # rest"
    unfolding same(1)
    by (cases "filter (\<lambda>r. p_UserID r = o_AuthorID order) (Profiles (db w1))")
       (auto simp add: list_ex_iff filter_empty_conv)
  then have "p \<in> set (filter (\<lambda>r. p_UserID r = o_AuthorID order2) (Profiles (db w1)))" by simp
  then have pin: "p \<in> set (Profiles (db w1))" "p_UserID p = o_AuthorID order" using same(1) by auto
  have pos: "if o_OrderType order2 = OrderType_ASK then 1 \<le> p_ActiveAsks p else 1 \<le> p_ActiveBids p"
    using sur pin ty unfolding same(2) by (cases "o_OrderType order") (auto simp add: list_all_iff)
  from onOrderUpdated_succeeds[OF nc1 fetch2 first pos]
  obtain w2 where ok2: "onOrderUpdated chain2 orderID w1 = (None, w2)" by blast
  have none: "\<forall>r\<in>set (Orders (db w)). o_Id (dwo_Order r) \<noteq> orderID"
    using absent by (auto simp add: list_ex_iff)
  have O2: "Orders (db w2) = Orders (db w1)"
  proof -
    from onOrderUpdated_result[OF fetch2 ok2]
    have "Orders (db w2) = (if bigIsZero (o_DealID order2)
                               then filter (\<lambda>r. o_Id (dwo_Order r) \<noteq> orderID) (Orders (db w1))
                               else map (\<lambda>r. if o_Id (dwo_Order r) = o_Id order2
                                              then r\<lparr>dwo_Order := (dwo_Order r)\<lparr>o_OrderStatus := o_OrderStatus order2\<rparr>\<rparr>
                                              else r) (Orders (db w1)))"
      by blast
    moreover have "filter (\<lambda>r. o_Id (dwo_Order r) \<noteq> orderID) (Orders (db w1)) = Orders (db w1)"
      using none unfolding O1 by (simp add: filter_id_conv)
    moreover have "\<not> bigIsZero (o_DealID order2) \<Longrightarrow>
        map (\<lambda>r. if o_Id (dwo_Order r) = o_Id order2
                  then r\<lparr>dwo_Order := (dwo_Order r)\<lparr>o_OrderStatus := o_OrderStatus order2\<rparr>\<rparr>
                  else r) (Orders (db w1)) = Orders (db w1)"
      using none id2 unfolding O1 by (simp add: map_idI)
    ultimately show ?thesis by (cases "bigIsZero (o_DealID order2)") simp_all
  qed
  have c: "\<And>u t. activeOrders (db w2) u t = activeOrders (db w1) u t"
    by (simp add: activeOrders_def O2)
  have pre: "list_all (\<lambda>p. p_ActiveAsks p = activeOrders (db w2) (p_UserID p) OrderType_ASK
                             + (if p_UserID p = o_AuthorID order2 \<and> o_OrderType order2 = OrderType_ASK then 1 else 0)
                         \<and> p_ActiveBids p = activeOrders (db w2) (p_UserID p) OrderType_BID
                             + (if p_UserID p = o_AuthorID order2 \<and> o_OrderType order2 = OrderType_BID then 1 else 0))
              (Profiles (db w1))"
    using sur unfolding c same by simp
  have ty2: "o_OrderType order2 \<noteq> OrderType_ANY" using ty same(2) by simp
  from onOrderUpdated_restores[OF fetch2 ok2 ty2 pre ahp1]
  show ?thesis using ok2 O2 O1 by (intro exI[of _ w2]) simp
qed

lemma surplus_not_exact:
  assumes sur: "list_all (\<lambda>p. p_ActiveAsks p = activeOrders t (p_UserID p) OrderType_ASK
                             + (if p_UserID p = a \<and> ty = OrderType_ASK then 1 else 0)
                         \<and> p_ActiveBids p = activeOrders t (p_UserID p) OrderType_BID
                             + (if p_UserID p = a \<and> ty = OrderType_BID then 1 else 0))
              (Profiles t)"
      and ex: "list_ex (\<lambda>p. p_UserID p = a) (Profiles t)"
      and ty: "ty \<noteq> OrderType_ANY"
  shows "\<not> profileCountersExact t"
proof -
  from ex obtain p where p: "p \<in> set (Profiles t)" "p_UserID p = a" by (auto simp add: list_ex_iff)
  show ?thesis
    using sur p ty unfolding profileCountersExact_def
    by (cases ty) (auto simp add: list_all_iff)
qed

text \<open>
  Claim C1, amended. Start from the empty projection and process any finite sequence of
  events that is regular: every successfully handled OrderPlaced fetched an ACTIVE ASK
  or BID order, every successfully handled OrderUpdated takes a stored ACTIVE order of
  the fetched author and type out of the ACTIVE rows, and no successfully handled
  DealUpdated to CLOSED finds an ACTIVE ask or bid row. Then every Profile row's
  activeAsks and activeBids are the numbers of its user's ACTIVE ASK and BID Order rows.
  The events left out change the counters and the rows as follows, in the store \<open>w\<close>
  reached by such a sequence.

  \<^item> A successful OrderPlaced whose fetched ASK or BID order is not ACTIVE leaves the
    author's counter of the order's type one above the number of his ACTIVE orders of
    that type (every other counter satisfies the equation), so the equation fails. If
    the order is INACTIVE and unassigned, no Order row is inserted; and if no Order row
    has the order's id, the OrderUpdated of the same order (same author and type) then
    succeeds, takes the counter back and restores the equation, with Orders as in \<open>w\<close>.

  \<^item> A successful DealUpdated to CLOSED leaves Profiles unchanged and deletes the Order
    rows of the deal's ask and bid; every counter is then the number of the user's ACTIVE
    orders of that type plus the number of his deleted ACTIVE rows of that type.
\<close>

theorem processEvents_profile_counters:
  assumes start: "db w0 = emptyTables"
      and reg: "regularEvents steps w0"
      and run: "processEvents steps w0 = Inr w"
  shows "profileCountersExact (db w)
       \<and> (\<forall>chain event orderID order w1.
            ev_Data event = OrderPlacedData orderID \<and> GetOrderInfo chain orderID = Inr order
            \<and> o_OrderType order \<noteq> OrderType_ANY \<and> o_OrderStatus order \<noteq> OrderStatus_ORDER_ACTIVE
            \<and> processEvent chain event w = Inr (None, w1) \<longrightarrow>
              list_all (\<lambda>p. p_ActiveAsks p = activeOrders (db w1) (p_UserID p) OrderType_ASK
                               + (if p_UserID p = o_AuthorID order \<and> o_OrderType order = OrderType_ASK then 1 else 0)
                           \<and> p_ActiveBids p = activeOrders (db w1) (p_UserID p) OrderType_BID
                               + (if p_UserID p = o_AuthorID order \<and> o_OrderType order = OrderType_BID then 1 else 0))
                (Profiles (db w1))
              \<and> list_ex (\<lambda>p. p_UserID p = o_AuthorID order) (Profiles (db w1))
              \<and> \<not> profileCountersExact (db w1)
              \<and> (o_OrderStatus order = OrderStatus_ORDER_INACTIVE \<and> bigIsZero (o_DealID order) \<longrightarrow>
                   Orders (db w1) = Orders (db w)
                   \<and> (\<forall>chain2 event2 order2.
                        ev_Data event2 = OrderUpdatedData orderID \<and> GetOrderInfo chain2 orderID = Inr order2
                        \<and> o_AuthorID order2 = o_AuthorID order \<and> o_OrderType order2 = o_OrderType order
                        \<and> (bigIsZero (o_DealID order2) \<or> o_Id order2 = orderID)
                        \<and> \<not> list_ex (\<lambda>r. o_Id (dwo_Order r) = orderID) (Orders (db w)) \<longrightarrow>
                          (\<exists>w2. processEvent chain2 event2 w1 = Inr (None, w2)
                             \<and> profileCountersExact (db w2) \<and> Orders (db w2) = Orders (db w)))))
       \<and> (\<forall>chain event dealID deal w1.
            ev_Data event = DealUpdatedData dealID \<and> GetDealInfo chain dealID = Inr deal
            \<and> d_Status deal = DealStatus_DEAL_CLOSED
            \<and> processEvent chain event w = Inr (None, w1) \<longrightarrow>
              Profiles (db w1) = Profiles (db w)
              \<and> Orders (db w1) = filter (\<lambda>r. o_Id (dwo_Order r) \<noteq> d_AskID deal \<and> o_Id (dwo_Order r) \<noteq> d_BidID deal)
                                   (Orders (db w))
              \<and> list_all (\<lambda>p. p_ActiveAsks p = activeOrders (db w1) (p_UserID p) OrderType_ASK
                          + length (filter (\<lambda>r. (o_Id (dwo_Order r) = d_AskID deal \<or> o_Id (dwo_Order r) = d_BidID deal)
                                                \<and> o_AuthorID (dwo_Order r) = p_UserID p
                                                \<and> o_OrderType (dwo_Order r) = OrderType_ASK
                                                \<and> o_OrderStatus (dwo_Order r) = OrderStatus_ORDER_ACTIVE) (Orders (db w)))
                      \<and> p_ActiveBids p = activeOrders (db w1) (p_UserID p) OrderType_BID
                          + length (filter (\<lambda>r. (o_Id (dwo_Order r) = d_AskID deal \<or> o_Id (dwo_Order r) = d_BidID deal)
                                                \<and> o_AuthorID (dwo_Order r) = p_UserID p
                                                \<and> o_OrderType (dwo_Order r) = OrderType_BID
                                                \<and> o_OrderStatus (dwo_Order r) = OrderStatus_ORDER_ACTIVE) (Orders (db w))))
                  (Profiles (db w1)))"
proof -
  have inv0: "profileCountersExact (db w0) \<and> authorsHaveProfiles (db w0)"
    using empty_invariant start by simp
  from regularEvents_invariant[OF inv0 reg run]
  have inv: "profileCountersExact (db w)" "authorsHaveProfiles (db w)" by simp_all
  have placed: "list_all (\<lambda>p. p_ActiveAsks p = activeOrders (db w1) (p_UserID p) OrderType_ASK
                               + (if p_UserID p = o_AuthorID order \<and> o_OrderType order = OrderType_ASK then 1 else 0)
                           \<and> p_ActiveBids p = activeOrders (db w1) (p_UserID p) OrderType_BID
                               + (if p_UserID p = o_AuthorID order \<and> o_OrderType order = OrderType_BID then 1 else 0))
                (Profiles (db w1))
              \<and> list_ex (\<lambda>p. p_UserID p = o_AuthorID order) (Profiles (db w1))
              \<and> \<not> profileCountersExact (db w1)
              \<and> (o_OrderStatus order = OrderStatus_ORDER_INACTIVE \<and> bigIsZero (o_DealID order) \<longrightarrow>
                   Orders (db w1) = Orders (db w)
                   \<and> (\<forall>chain2 event2 order2.
                        ev_Data event2 = OrderUpdatedData orderID \<and> GetOrderInfo chain2 orderID = Inr order2
                        \<and> o_AuthorID order2 = o_AuthorID order \<and> o_OrderType order2 = o_OrderType order
                        \<and> (bigIsZero (o_DealID order2) \<or> o_Id order2 = orderID)
                        \<and> \<not> list_ex (\<lambda>r. o_Id (dwo_Order r) = orderID) (Orders (db w)) \<longrightarrow>
                          (\<exists>w2. processEvent chain2 event2 w1 = Inr (None, w2)
                             \<and> profileCountersExact (db w2) \<and> Orders (db w2) = Orders (db w))))"
    if h: "ev_Data event = OrderPlacedData orderID \<and> GetOrderInfo chain orderID = Inr order
            \<and> o_OrderType order \<noteq> OrderType_ANY \<and> o_OrderStatus order \<noteq> OrderStatus_ORDER_ACTIVE
            \<and> processEvent chain event w = Inr (None, w1)"
    for chain event orderID order w1
  proof -
    from h have fetch: "GetOrderInfo chain orderID = Inr order"
      and ty: "o_OrderType order \<noteq> OrderType_ANY"
      and na: "o_OrderStatus order \<noteq> OrderStatus_ORDER_ACTIVE"
      and ok: "onOrderPlaced chain (ev_TS event) orderID w = (None, w1)"
      by auto
    from onOrderPlaced_step[OF fetch ok inv ty] na
    have sur: "list_all (\<lambda>p. p_ActiveAsks p = activeOrders (db w1) (p_UserID p) OrderType_ASK
                               + (if p_UserID p = o_AuthorID order \<and> o_OrderType order = OrderType_ASK then 1 else 0)
                           \<and> p_ActiveBids p = activeOrders (db w1) (p_UserID p) OrderType_BID
                               + (if p_UserID p = o_AuthorID order \<and> o_OrderType order = OrderType_BID then 1 else 0))
                (Profiles (db w1))"
      and ex: "list_ex (\<lambda>p. p_UserID p = o_AuthorID order) (Profiles (db w1))"
      and O1: "o_OrderStatus order = OrderStatus_ORDER_INACTIVE \<and> bigIsZero (o_DealID order)
                 \<longrightarrow> Orders (db w1) = Orders (db w)"
      by auto
    note ne = surplus_not_exact[OF sur ex ty]
    have settle: "\<exists>w2. processEvent chain2 event2 w1 = Inr (None, w2)
                             \<and> profileCountersExact (db w2) \<and> Orders (db w2) = Orders (db w)"
      if skip: "o_OrderStatus order = OrderStatus_ORDER_INACTIVE \<and> bigIsZero (o_DealID order)"
        and h2: "ev_Data event2 = OrderUpdatedData orderID \<and> GetOrderInfo chain2 orderID = Inr order2
                        \<and> o_AuthorID order2 = o_AuthorID order \<and> o_OrderType order2 = o_OrderType order
                        \<and> (bigIsZero (o_DealID order2) \<or> o_Id order2 = orderID)
                        \<and> \<not> list_ex (\<lambda>r. o_Id (dwo_Order r) = orderID) (Orders (db w))"
      for chain2 event2 order2
    proof -
      from h2 have f2: "GetOrderInfo chain2 orderID = Inr order2"
        and same: "o_AuthorID order2 = o_AuthorID order" "o_OrderType order2 = o_OrderType order"
        and id2: "bigIsZero (o_DealID order2) \<or> o_Id order2 = orderID"
        and absent: "\<not> list_ex (\<lambda>r. o_Id (dwo_Order r) = orderID) (Orders (db w))"
        and ev2: "ev_Data event2 = OrderUpdatedData orderID"
        by simp_all
      from onOrderUpdated_settles[OF inv fetch ty skip ok f2 same id2 absent]
      obtain w2 where "onOrderUpdated chain2 orderID w1 = (None, w2)"
          "profileCountersExact (db w2)" "Orders (db w2) = Orders (db w)"
        by blast
      then show ?thesis using ev2 by (intro exI[of _ w2]) simp
    qed
    show ?thesis using sur ex ne O1 settle by blast
  qed
  have closed_deal: "Profiles (db w1) = Profiles (db w)
              \<and> Orders (db w1) = filter (\<lambda>r. o_Id (dwo_Order r) \<noteq> d_AskID deal \<and> o_Id (dwo_Order r) \<noteq> d_BidID deal)
                                   (Orders (db w))
              \<and> list_all (\<lambda>p. p_ActiveAsks p = activeOrders (db w1) (p_UserID p) OrderType_ASK
                          + length (filter (\<lambda>r. (o_Id (dwo_Order r) = d_AskID deal \<or> o_Id (dwo_Order r) = d_BidID deal)
                                                \<and> o_AuthorID (dwo_Order r) = p_UserID p
                                                \<and> o_OrderType (dwo_Order r) = OrderType_ASK
                                                \<and> o_OrderStatus (dwo_Order r) = OrderStatus_ORDER_ACTIVE) (Orders (db w)))
                      \<and> p_ActiveBids p = activeOrders (db w1) (p_UserID p) OrderType_BID
                          + length (filter (\<lambda>r. (o_Id (dwo_Order r) = d_AskID deal \<or> o_Id (dwo_Order r) = d_BidID deal)
                                                \<and> o_AuthorID (dwo_Order r) = p_UserID p
                                                \<and> o_OrderType (dwo_Order r) = OrderType_BID
                                                \<and> o_OrderStatus (dwo_Order r) = OrderStatus_ORDER_ACTIVE) (Orders (db w))))
                  (Profiles (db w1))"
    if h: "ev_Data event = DealUpdatedData dealID \<and> GetDealInfo chain dealID = Inr deal
            \<and> d_Status deal = DealStatus_DEAL_CLOSED
            \<and> processEvent chain event w = Inr (None, w1)"
    for chain event dealID deal w1
  proof -
    from h have fetch: "GetDealInfo chain dealID = Inr deal"
      and cl: "d_Status deal = DealStatus_DEAL_CLOSED"
      and ok: "onDealUpdated chain dealID w = (None, w1)"
      by auto
    show ?thesis
      using onDealUpdated_result[OF fetch ok] onDealUpdated_counters[OF fetch ok cl inv(1)] cl by simp
  qed
  show ?thesis using inv(1) placed closed_deal by blast
qed

text \<open>
  The example run is regular and ends with one ACTIVE order and the author's counters 1
  and 0. An INACTIVE, unassigned order placed on the empty store leaves activeAsks = 1
  with no Order row, and its OrderUpdated takes the counter back to 0.
\<close>

theorem processEvents_profile_counters_witness:
  "db (storeOf emptyTables) = emptyTables
   \<and> regularEvents exampleRun (storeOf emptyTables)
   \<and> (case processEvents exampleRun (storeOf emptyTables) of
        Inr w \<Rightarrow>
          map (\<lambda>r. o_Id (dwo_Order r)) (Orders (db w)) = [13]
          \<and> map (\<lambda>p. (p_UserID p, p_ActiveAsks p, p_ActiveBids p)) (Profiles (db w)) = [(alice, 1, 0)]
          \<and> profileCountersExact (db w)
      | Inl panic \<Rightarrow> False)
   \<and> (case processEvent (orderChain OrderStatus_ORDER_INACTIVE) (orderPlaced 10) (storeOf emptyTables) of
        Inr (None, w1) \<Rightarrow>
          Orders (db w1) = []
          \<and> map (\<lambda>p. (p_UserID p, p_ActiveAsks p, p_ActiveBids p)) (Profiles (db w1)) = [(alice, 1, 0)]
          \<and> (case processEvent (orderChain OrderStatus_ORDER_INACTIVE) (orderUpdated 10) w1 of
                Inr (None, w2) \<Rightarrow>
                  Orders (db w2) = []
                  \<and> map (\<lambda>p. (p_UserID p, p_ActiveAsks p, p_ActiveBids p)) (Profiles (db w2)) = [(alice, 0, 0)]
                  \<and> profileCountersExact (db w2)
              | _ \<Rightarrow> False)
      | _ \<Rightarrow> False)"
proof -
  let ?s0 = "storeOf emptyTables"
  let ?cI = "orderChain OrderStatus_ORDER_INACTIVE"
  let ?oI = "exampleOrder 10 OrderType_ASK OrderStatus_ORDER_INACTIVE alice 90 7"
  have start: "db ?s0 = emptyTables" by (simp add: storeOf_def)
  have reg: "regularEvents exampleRun ?s0" by code_simp
  have ev: "case processEvents exampleRun ?s0 of
        Inr w \<Rightarrow>
          map (\<lambda>r. o_Id (dwo_Order r)) (Orders (db w)) = [13]
          \<and> map (\<lambda>p. (p_UserID p, p_ActiveAsks p, p_ActiveBids p)) (Profiles (db w)) = [(alice, 1, 0)]
      | Inl panic \<Rightarrow> False"
    by code_simp
  then obtain w where run: "processEvents exampleRun ?s0 = Inr w"
    and keys: "map (\<lambda>r. o_Id (dwo_Order r)) (Orders (db w)) = [13]"
              "map (\<lambda>p. (p_UserID p, p_ActiveAsks p, p_ActiveBids p)) (Profiles (db w)) = [(alice, 1, 0)]"
    by (cases "processEvents exampleRun ?s0") auto
  from processEvents_profile_counters[OF start reg run] have exact: "profileCountersExact (db w)" by blast
  have p1: "case processEvent ?cI (orderPlaced 10) ?s0 of
        Inr (None, w1) \<Rightarrow>
          Orders (db w1) = []
          \<and> map (\<lambda>p. (p_UserID p, p_ActiveAsks p, p_ActiveBids p)) (Profiles (db w1)) = [(alice, 1, 0)]
          \<and> (case processEvent ?cI (orderUpdated 10) w1 of
                Inr (None, w2) \<Rightarrow>
                  Orders (db w2) = []
                  \<and> map (\<lambda>p. (p_UserID p, p_ActiveAsks p, p_ActiveBids p)) (Profiles (db w2)) = [(alice, 0, 0)]
              | _ \<Rightarrow> False)
      | _ \<Rightarrow> False"
    by code_simp
  then obtain w1 where pl: "processEvent ?cI (orderPlaced 10) ?s0 = Inr (None, w1)"
    and k1: "Orders (db w1) = []"
            "map (\<lambda>p. (p_UserID p, p_ActiveAsks p, p_ActiveBids p)) (Profiles (db w1)) = [(alice, 1, 0)]"
    and p2: "case processEvent ?cI (orderUpdated 10) w1 of
                Inr (None, w2) \<Rightarrow>
                  Orders (db w2) = []
                  \<and> map (\<lambda>p. (p_UserID p, p_ActiveAsks p, p_ActiveBids p)) (Profiles (db w2)) = [(alice, 0, 0)]
              | _ \<Rightarrow> False"
    by (cases "processEvent ?cI (orderPlaced 10) ?s0")
       (auto simp del: processEvent.simps split: prod.splits option.splits)
  then obtain w2 where up: "processEvent ?cI (orderUpdated 10) w1 = Inr (None, w2)"
    and k2: "Orders (db w2) = []"
            "map (\<lambda>p. (p_UserID p, p_ActiveAsks p, p_ActiveBids p)) (Profiles (db w2)) = [(alice, 0, 0)]"
    by (cases "processEvent ?cI (orderUpdated 10) w1")
       (auto simp del: processEvent.simps split: prod.splits option.splits)
  have start0: "regularEvents [] ?s0" "processEvents [] ?s0 = Inr ?s0" by simp_all
  have f: "ev_Data (orderPlaced 10) = OrderPlacedData 10" "GetOrderInfo ?cI 10 = Inr ?oI"
          "o_OrderType ?oI \<noteq> OrderType_ANY" "o_OrderStatus ?oI \<noteq> OrderStatus_ORDER_ACTIVE"
          "o_OrderStatus ?oI = OrderStatus_ORDER_INACTIVE \<and> bigIsZero (o_DealID ?oI)"
          "ev_Data (orderUpdated 10) = OrderUpdatedData 10"
          "\<not> list_ex (\<lambda>r. o_Id (dwo_Order r) = 10) (Orders (db ?s0))"
    by (simp_all add: orderPlaced_def orderUpdated_def orderChain_def chainUnavailable_def exampleOrder_def
        bigIsZero_def storeOf_def emptyTables_def)
  from processEvents_profile_counters[OF start start0]
  have "\<forall>chain event orderID order w1.
            ev_Data event = OrderPlacedData orderID \<and> GetOrderInfo chain orderID = Inr order
            \<and> o_OrderType order \<noteq> OrderType_ANY \<and> o_OrderStatus order \<noteq> OrderStatus_ORDER_ACTIVE
            \<and> processEvent chain event ?s0 = Inr (None, w1) \<longrightarrow>
              (o_OrderStatus order = OrderStatus_ORDER_INACTIVE \<and> bigIsZero (o_DealID order) \<longrightarrow>
                   (\<forall>chain2 event2 order2.
                        ev_Data event2 = OrderUpdatedData orderID \<and> GetOrderInfo chain2 orderID = Inr order2
                        \<and> o_AuthorID order2 = o_AuthorID order \<and> o_OrderType order2 = o_OrderType order
                        \<and> (bigIsZero (o_DealID order2) \<or> o_Id order2 = orderID)
                        \<and> \<not> list_ex (\<lambda>r. o_Id (dwo_Order r) = orderID) (Orders (db ?s0)) \<longrightarrow>
                          (\<exists>w2. processEvent chain2 event2 w1 = Inr (None, w2)
                             \<and> profileCountersExact (db w2) \<and> Orders (db w2) = Orders (db ?s0))))"
    by blast
  from this[rule_format, of "orderPlaced 10" 10 ?cI ?oI w1 "orderUpdated 10" ?cI ?oI] f pl
  have "\<exists>w2. processEvent ?cI (orderUpdated 10) w1 = Inr (None, w2) \<and> profileCountersExact (db w2)"
    by (auto simp del: processEvent.simps)
  then have exact2: "profileCountersExact (db w2)" using up by (auto simp del: processEvent.simps)
  show ?thesis using start reg run keys exact pl k1 up k2 exact2 by (simp del: processEvent.simps)
qed

text \<open>
  The claim as stated fails for four sequences from the empty projection: an OrderPlaced
  whose fetched order is INACTIVE and unassigned (no Order row, activeAsks = 1); an ACTIVE
  order placed and then purged by a DealUpdated to CLOSED (no Order row, activeAsks = 1);
  two ACTIVE orders placed and the OrderUpdated of the first delivered twice (one ACTIVE
  order, activeAsks = 0); an ACTIVE order of type ANY placed (activeBids = 1, no BID
  order).
\<close>

theorem processEvents_breaks_profile_counters:
  "(case processEvents [(orderChain OrderStatus_ORDER_INACTIVE, orderPlaced 10)] (storeOf emptyTables) of
      Inr w \<Rightarrow>
        Orders (db w) = []
        \<and> map (\<lambda>p. (p_UserID p, p_ActiveAsks p, p_ActiveBids p)) (Profiles (db w)) = [(alice, 1, 0)]
        \<and> activeOrders (db w) alice OrderType_ASK = 0
        \<and> \<not> profileCountersExact (db w)
    | Inl panic \<Rightarrow> False)
   \<and> (case processEvents [(orderChain OrderStatus_ORDER_ACTIVE, orderPlaced 10),
                          (dealChain DealStatus_DEAL_CLOSED 100, dealUpdated 1)] (storeOf emptyTables) of
      Inr w \<Rightarrow>
        Orders (db w) = []
        \<and> map (\<lambda>p. (p_UserID p, p_ActiveAsks p, p_ActiveBids p)) (Profiles (db w)) = [(alice, 1, 0)]
        \<and> activeOrders (db w) alice OrderType_ASK = 0
        \<and> \<not> profileCountersExact (db w)
    | Inl panic \<Rightarrow> False)
   \<and> (case processEvents [(orderChain OrderStatus_ORDER_ACTIVE, orderPlaced 10),
                          (orderChain OrderStatus_ORDER_ACTIVE, orderPlaced 12),
                          (orderChain OrderStatus_ORDER_ACTIVE, orderUpdated 10),
                          (orderChain OrderStatus_ORDER_ACTIVE, orderUpdated 10)] (storeOf emptyTables) of
      Inr w \<Rightarrow>
        map (\<lambda>r. o_Id (dwo_Order r)) (Orders (db w)) = [12]
        \<and> map (\<lambda>p. (p_UserID p, p_ActiveAsks p, p_ActiveBids p)) (Profiles (db w)) = [(alice, 0, 0)]
        \<and> activeOrders (db w) alice OrderType_ASK = 1
        \<and> \<not> profileCountersExact (db w)
    | Inl panic \<Rightarrow> False)
   \<and> (case processEvents [(untypedOrderChain, orderPlaced 10)] (storeOf emptyTables) of
      Inr w \<Rightarrow>
        map (\<lambda>r. (o_Id (dwo_Order r), o_OrderType (dwo_Order r))) (Orders (db w)) = [(10, OrderType_ANY)]
        \<and> map (\<lambda>p. (p_UserID p, p_ActiveAsks p, p_ActiveBids p)) (Profiles (db w)) = [(alice, 0, 1)]
        \<and> activeOrders (db w) alice OrderType_BID = 0
        \<and> \<not> profileCountersExact (db w)
    | Inl panic \<Rightarrow> False)"
  by code_simp

end
